theory Spec2Isabelle
  imports Complex_Main "HOL-Library.Sublist" "HOL-Library.AList"
begin

section \<open>Python values\<close>

text \<open>
  A Python \<open>str\<close> is a sequence of Unicode code points, and \<open>len\<close> and slicing count
  code points.  A HOL \<open>char\<close> has only 256 values, so a \<open>str\<close> is modelled as the list
  of its code points; \<open>py\<close> embeds an ASCII literal.
\<close>

type_synonym pystr = "nat list"

definition py :: "string \<Rightarrow> pystr" where
  "py s = map of_char s"

section \<open>Exceptions\<close>

text \<open>
  An exception raised by one of the three external services (Exa, OpenAI, ragas) carries
  its message \<open>str(e)\<close> and is classified by the first \<open>except\<close> clause of \<open>call_gpt4o\<close>
  that matches it: \<open>RateLimitError\<close> (the name bound at lines 18-21, which may be
  \<open>openai.OpenAIError\<close>), then \<open>openai.APIError\<close>, then any other \<open>Exception\<close>.
\<close>

datatype ext_exc =
    RateLimitError pystr
  | APIError pystr
  | OtherException pystr

text \<open>
  The exceptions of this program, one constructor per place that raises: the two
  \<open>raise\<close> statements with their messages, the implicit errors of \<open>in\<close>, of
  subscripting, of item assignment, of \<open>.get\<close> on a value that is no dict and of a
  division by zero, and an external exception passing through.
\<close>

datatype pyexc =
    ValueError pystr
  | RuntimeError pystr
  | TypeError
  | KeyError
  | IndexError
  | AttributeError
  | ZeroDivisionError
  | External ext_exc

section \<open>Python floats\<close>

text \<open>
  A Python \<open>float\<close> is an IEEE 754 binary64 number.  \<open>Finite s m\<close> is the finite number
  with sign bit \<open>s\<close> (\<open>True\<close> for negative) and magnitude \<open>m\<close>, a non-negative real that
  a double represents exactly; so \<open>0.0\<close> is \<open>Finite False 0\<close> and \<open>-0.0\<close> is
  \<open>Finite True 0\<close>.  \<open>Infinity s\<close> is \<open>inf\<close> or \<open>-inf\<close>, and \<open>NaN\<close> is \<open>nan\<close>.
\<close>

datatype pyfloat = Finite bool real | Infinity bool | NaN

text \<open>
  Rounding to nearest, ties to even, of a non-negative real \<open>m\<close>.  A double has 53
  significant bits, and the smallest exponent of a normal number is -1022, below which the
  spacing stays at \<open>2 powi (- 1074)\<close>: in the binade of \<open>m\<close> the doubles are the integer
  multiples of \<open>ulp = 2 powi (binade m - 52)\<close>.
\<close>

definition binade :: "real \<Rightarrow> int" where
  "binade m = max \<lfloor>log 2 m\<rfloor> (- 1022)"

definition round_half_even :: "real \<Rightarrow> int" where
  "round_half_even q =
     (let f = \<lfloor>q\<rfloor>; r = q - of_int f
      in if r < 1 / 2 then f else if 1 / 2 < r then f + 1 else if even f then f else f + 1)"

definition round_double :: "real \<Rightarrow> real" where
  "round_double m =
     (if m = 0 then 0
      else (let ulp = 2 powi (binade m - 52) in of_int (round_half_even (m / ulp)) * ulp))"

text \<open>
  The double for an exact result of magnitude \<open>m\<close> and sign \<open>s\<close>: a rounded value beyond
  the largest double is an infinity.
\<close>

definition finish :: "bool \<Rightarrow> real \<Rightarrow> pyfloat" where
  "finish s m = (let r = round_double m in if 2 ^ 1024 \<le> r then Infinity s else Finite s r)"

text \<open>The value of a decimal literal \<open>x\<close> (not negative): the double nearest to it.\<close>

definition float_literal :: "real \<Rightarrow> pyfloat" where
  "float_literal x = finish False x"

text \<open>The real number that a sign and a magnitude stand for.\<close>

definition signed_value :: "bool \<Rightarrow> real \<Rightarrow> real" where
  "signed_value s m = (if s then - m else m)"

text \<open>\<open>-a\<close>\<close>

fun float_neg :: "pyfloat \<Rightarrow> pyfloat" where
  "float_neg (Finite s m) = Finite (\<not> s) m"
| "float_neg (Infinity s) = Infinity (\<not> s)"
| "float_neg NaN = NaN"

text \<open>
  \<open>a + b\<close>.  An exact sum of zero is \<open>0.0\<close>, and \<open>-0.0\<close> only when both operands are
  negative (then both are \<open>-0.0\<close>).  An overflow gives an infinity, not an exception.
\<close>

fun float_add :: "pyfloat \<Rightarrow> pyfloat \<Rightarrow> pyfloat" where
  "float_add (Finite s m) (Finite t n) =
     (let x = signed_value s m + signed_value t n
      in if x = 0 then Finite (s \<and> t) 0 else finish (x < 0) \<bar>x\<bar>)"
| "float_add (Finite s m) (Infinity t) = Infinity t"
| "float_add (Infinity s) (Finite t n) = Infinity s"
| "float_add (Infinity s) (Infinity t) = (if s = t then Infinity s else NaN)"
| "float_add NaN b = NaN"
| "float_add (Finite s m) NaN = NaN"
| "float_add (Infinity s) NaN = NaN"

text \<open>\<open>a - b\<close>, which IEEE 754 defines as \<open>a + (-b)\<close>.\<close>

definition float_sub :: "pyfloat \<Rightarrow> pyfloat \<Rightarrow> pyfloat" where
  "float_sub a b = float_add a (float_neg b)"

text \<open>
  \<open>a / b\<close>: Python raises \<open>ZeroDivisionError\<close> when the divisor is \<open>0.0\<close> or \<open>-0.0\<close>,
  whatever the dividend; otherwise the quotient is the IEEE one.
\<close>

fun float_div :: "pyfloat \<Rightarrow> pyfloat \<Rightarrow> pyexc + pyfloat" where
  "float_div a (Finite t n) =
     (if n = 0 then Inl ZeroDivisionError
      else (case a of
              Finite s m \<Rightarrow> Inr (finish (s \<noteq> t) (m / n))
            | Infinity s \<Rightarrow> Inr (Infinity (s \<noteq> t))
            | NaN \<Rightarrow> Inr NaN))"
| "float_div a (Infinity t) =
     (case a of
        Finite s m \<Rightarrow> Inr (Finite (s \<noteq> t) 0)
      | Infinity s \<Rightarrow> Inr NaN
      | NaN \<Rightarrow> Inr NaN)"
| "float_div a NaN = Inr NaN"

text \<open>
  \<open>float(n)\<close> for a small non-negative \<open>int\<close>, as the arithmetic applies it to an \<open>int\<close>
  operand: exact up to \<open>2 ^ 53\<close>.  The program converts only the \<open>0\<close> that \<open>sum\<close> starts
  from and \<open>len(scores)\<close>, which is at most 2.
\<close>

definition float_of_nat :: "nat \<Rightarrow> pyfloat" where
  "float_of_nat n = Finite False (real n)"

text \<open>
  \<open>sum(xs)\<close> on floats: from the \<open>int\<close> 0, adding from the left.  (Newer versions of
  CPython add a compensation term at the end; for at most two values, as here, the result
  is the same double.)
\<close>

definition float_sum :: "pyfloat list \<Rightarrow> pyfloat" where
  "float_sum xs = foldl float_add (float_of_nat 0) xs"

section \<open>JSON-shaped values\<close>

text \<open>
  The values reachable through \<open>Dict[str, Any]\<close> and through \<open>json.load\<close> (override
  responses, the cache file and its entries): JSON-shaped Python objects.  A dict is the
  list of its items in insertion order, every key once, with \<open>str\<close> keys.
\<close>

datatype pyval =
    PNone
  | PBool bool
  | PInt int
  | PFloat pyfloat
  | PStr pystr
  | PList "pyval list"
  | PDict "(pystr \<times> pyval) list"

type_synonym pydict = "(pystr \<times> pyval) list"

text \<open>Truth value testing, as \<open>if x\<close>, \<open>x and y\<close>, \<open>x or y\<close> apply it.\<close>

fun truthy :: "pyval \<Rightarrow> bool" where
  "truthy PNone = False"
| "truthy (PBool b) = b"
| "truthy (PInt i) = (i \<noteq> 0)"
| "truthy (PFloat x) = (x \<noteq> Finite False 0 \<and> x \<noteq> Finite True 0)"
| "truthy (PStr s) = (s \<noteq> [])"
| "truthy (PList xs) = (xs \<noteq> [])"
| "truthy (PDict d) = (d \<noteq> [])"

text \<open>\<open>x or d\<close>\<close>

definition py_or :: "pyval \<Rightarrow> pyval \<Rightarrow> pyval" where
  "py_or x d = (if truthy x then x else d)"

text \<open>\<open>d.get(k, dflt)\<close> on a dict\<close>

definition dict_get :: "pydict \<Rightarrow> pystr \<Rightarrow> pyval \<Rightarrow> pyval" where
  "dict_get d k dflt = (case map_of d k of None \<Rightarrow> dflt | Some v \<Rightarrow> v)"

section \<open>Data model\<close>

text \<open>
  The dataclass \<open>Source\<close>.  Its fields are annotated \<open>str\<close>, but a dataclass does not
  check annotations and \<open>build_sources\<close> stores whatever \<open>m.get\<close> returns, so the fields
  hold Python values.  (\<open>id\<close> and \<open>text\<close> are taken in Isabelle, hence the suffix.)
\<close>

record Source =
  id_s :: pyval
  title :: pyval
  url :: pyval
  text_s :: pyval

record LOOResult =
  full_answer :: pystr
  full_quality :: pyfloat
  metric_breakdown :: "(pystr \<times> pyfloat) list"
  per_source_impact :: "pyfloat list"
  sources_meta :: "pydict list"
  per_source_metrics :: "pydict list"

text \<open>A chat message \<open>{"role": ..., "content": ...}\<close>.\<close>

record message =
  role :: pystr
  content :: pystr

text \<open>One element of \<open>response.results\<close> of the Exa client, with the attributes read.\<close>

record exa_result =
  r_id :: pyval
  r_title :: pyval
  r_url :: pyval
  r_text :: pyval

text \<open>A ragas metric object; only its \<open>name\<close> is read.\<close>

record metric =
  name :: pystr

text \<open>
  The file \<open>exa_cache.json\<close> as \<open>load_cache\<close> finds it: missing, not readable as JSON, or
  holding a JSON value.  \<open>json.load\<close> returns whatever value the file holds, a dict or not.
\<close>

datatype cache_file = NoFile | Unreadable | Stored pyval

section \<open>The outside world\<close>

text \<open>
  The external services and the file system act on a world \<open>'w\<close> that the program threads
  through its calls in order.  Nothing is assumed about them.
  \<^item> \<open>exa_get_contents u\<close>: lines 38-39, reading \<open>EXA_API_KEY\<close>, creating the client and
    \<open>get_contents([u])\<close>; it raises or yields \<open>response.results\<close>.
  \<^item> \<open>cache_file\<close>, \<open>write_cache_file\<close>: the cache file read and (best effort) written.
  \<^item> \<open>chat_create msgs\<close>: the body of the \<open>try\<close> at lines 133-138, on the messages as
    they are at the time of the request; it raises or yields
    \<open>resp.choices[0].message.content\<close>.
  \<^item> \<open>sleep d\<close>: \<open>time.sleep(d)\<close>.
  \<^item> \<open>ragas_evaluate q a ctxs ms\<close>: lines 162-168; it raises or yields the first row of
    the result, read by metric name (the row has a float for every metric asked for, on
    which \<open>float()\<close> is the identity).
  \<^item> \<open>py_str\<close>: Python's \<open>str()\<close> on a value that is not a \<open>str\<close>, as an f-string applies
    it.
  Console output (\<open>print\<close>) is not modelled, and \<open>OPENAI_API_KEY\<close> is taken as configured,
  so that line 128 does not fail.
\<close>

record 'w env =
  exa_get_contents :: "pystr \<Rightarrow> 'w \<Rightarrow> (ext_exc + exa_result list) \<times> 'w"
  cache_file :: "'w \<Rightarrow> cache_file"
  write_cache_file :: "pyval \<Rightarrow> 'w \<Rightarrow> 'w"
  chat_create :: "message list \<Rightarrow> 'w \<Rightarrow> (ext_exc + pystr) \<times> 'w"
  sleep :: "nat \<Rightarrow> 'w \<Rightarrow> 'w"
  ragas_evaluate ::
    "pystr \<Rightarrow> pystr \<Rightarrow> pyval list \<Rightarrow> metric list \<Rightarrow> 'w \<Rightarrow> (ext_exc + (pystr \<Rightarrow> pyfloat)) \<times> 'w"
  py_str :: "pyval \<Rightarrow> pystr"

section \<open>Content resolution\<close>

text \<open>\<open>fetch_exa_content\<close>, lines 37-48.\<close>

definition fetch_exa_content :: "'w env \<Rightarrow> pystr \<Rightarrow> 'w \<Rightarrow> (pyexc + Source) \<times> 'w" where
  "fetch_exa_content env u w =
     (case exa_get_contents env u w of
        (Inl e, w') \<Rightarrow> (Inl (External e), w')
      | (Inr results, w') \<Rightarrow>
          (case results of
             [] \<Rightarrow> (Inl (RuntimeError (py ''Exa get_contents returned no results for '' @ u)), w')
           | r # _ \<Rightarrow>
               (Inr \<lparr>id_s = r_id r,
                     title = py_or (r_title r) (PStr (py ''(untitled)'')),
                     url = r_url r,
                     text_s = py_or (r_text r) (PStr [])\<rparr>, w')))"

text \<open>
  \<open>load_cache\<close>, lines 52-61: a missing or unreadable file gives the empty dict, and a
  readable one the value it holds, unchecked.
\<close>

definition load_cache :: "'w env \<Rightarrow> 'w \<Rightarrow> pyval" where
  "load_cache env w =
     (case cache_file env w of
        NoFile \<Rightarrow> PDict []
      | Unreadable \<Rightarrow> PDict []
      | Stored c \<Rightarrow> c)"

text \<open>\<open>save_cache\<close>, lines 63-69: a failed write is swallowed, so it never raises.\<close>

definition save_cache :: "'w env \<Rightarrow> pyval \<Rightarrow> 'w \<Rightarrow> 'w" where
  "save_cache env data w = write_cache_file env data w"

text \<open>\<open>v[0]\<close>, for the value \<open>m["results"]\<close> of line 79.\<close>

fun subscript0 :: "pyval \<Rightarrow> pyexc + pyval" where
  "subscript0 (PList []) = Inl IndexError"
| "subscript0 (PList (x # xs)) = Inr x"
| "subscript0 (PStr []) = Inl IndexError"
| "subscript0 (PStr (c # cs)) = Inr (PStr [c])"
| "subscript0 (PDict d) = Inl KeyError"
| "subscript0 PNone = Inl TypeError"
| "subscript0 (PBool b) = Inl TypeError"
| "subscript0 (PInt i) = Inl TypeError"
| "subscript0 (PFloat x) = Inl TypeError"

text \<open>Lines 78-79: \<open>if "results" in m and m["results"]: m = m["results"][0]\<close>.\<close>

definition unwrap_results :: "pydict \<Rightarrow> pyexc + pyval" where
  "unwrap_results m =
     (case map_of m (py ''results'') of
        None \<Rightarrow> Inr (PDict m)
      | Some r \<Rightarrow> if truthy r then subscript0 r else Inr (PDict m))"

text \<open>
  The constructor call of lines 80-85 and 89-94 on a dict:
  \<open>Source(id=m.get("id", u), title=m.get("title", "(untitled)"), url=m.get("url", u),
  text=m.get("text", ""))\<close>.
\<close>

definition source_of_dict :: "pydict \<Rightarrow> pystr \<Rightarrow> Source" where
  "source_of_dict d u =
     \<lparr>id_s = dict_get d (py ''id'') (PStr u),
      title = dict_get d (py ''title'') (PStr (py ''(untitled)'')),
      url = dict_get d (py ''url'') (PStr u),
      text_s = dict_get d (py ''text'') (PStr [])\<rparr>"

text \<open>
  The same on the unwrapped override or on the cache entry, which may be any value:
  \<open>.get\<close> needs a dict.
\<close>

definition source_of :: "pyval \<Rightarrow> pystr \<Rightarrow> pyexc + Source" where
  "source_of m u = (case m of PDict d \<Rightarrow> Inr (source_of_dict d u) | _ \<Rightarrow> Inl AttributeError)"

text \<open>The dict stored at lines 99-104.\<close>

definition cache_entry :: "Source \<Rightarrow> pydict" where
  "cache_entry src =
     [(py ''id'', id_s src), (py ''title'', title src), (py ''url'', url src),
      (py ''text'', text_s src)]"

text \<open>
  Lines 77-85, the branch for a URL with an override: unwrap, then build the document.
  \<open>.get\<close> is called on whatever the unwrapping left in \<open>m\<close>.
\<close>

definition override_source :: "pydict \<Rightarrow> pystr \<Rightarrow> pyexc + Source" where
  "override_source m0 u =
     (case unwrap_results m0 of
        Inl e \<Rightarrow> Inl e
      | Inr m \<Rightarrow> source_of m u)"

text \<open>
  The three operations of the loop on the value \<open>cache\<close> that \<open>load_cache\<close> returned, with
  the \<open>str\<close> \<open>u\<close>.  \<open>u in cache\<close> (line 86) tests for a key of a dict, for an element of a
  list and for a substring of a \<open>str\<close>, and raises on any other value.
\<close>

fun py_contains :: "pyval \<Rightarrow> pystr \<Rightarrow> pyexc + bool" where
  "py_contains (PDict d) u = Inr (map_of d u \<noteq> None)"
| "py_contains (PList xs) u = Inr (PStr u \<in> set xs)"
| "py_contains (PStr s) u = Inr (sublist u s)"
| "py_contains PNone u = Inl TypeError"
| "py_contains (PBool b) u = Inl TypeError"
| "py_contains (PInt i) u = Inl TypeError"
| "py_contains (PFloat x) u = Inl TypeError"

text \<open>\<open>cache[u]\<close> (line 87): only a dict has \<open>str\<close> subscripts.\<close>

fun py_getitem :: "pyval \<Rightarrow> pystr \<Rightarrow> pyexc + pyval" where
  "py_getitem (PDict d) u = (case map_of d u of None \<Rightarrow> Inl KeyError | Some v \<Rightarrow> Inr v)"
| "py_getitem (PList xs) u = Inl TypeError"
| "py_getitem (PStr s) u = Inl TypeError"
| "py_getitem PNone u = Inl TypeError"
| "py_getitem (PBool b) u = Inl TypeError"
| "py_getitem (PInt i) u = Inl TypeError"
| "py_getitem (PFloat x) u = Inl TypeError"

text \<open>\<open>cache[u] = v\<close> (line 99): only a dict takes it.\<close>

fun py_setitem :: "pyval \<Rightarrow> pystr \<Rightarrow> pyval \<Rightarrow> pyexc + pyval" where
  "py_setitem (PDict d) u v = Inr (PDict (AList.update u v d))"
| "py_setitem (PList xs) u v = Inl TypeError"
| "py_setitem (PStr s) u v = Inl TypeError"
| "py_setitem PNone u v = Inl TypeError"
| "py_setitem (PBool b) u v = Inl TypeError"
| "py_setitem (PInt i) u v = Inl TypeError"
| "py_setitem (PFloat x) u v = Inl TypeError"

text \<open>
  The loop of \<open>build_sources\<close>, lines 75-109, on its local state \<open>cache\<close>, \<open>sources\<close>,
  \<open>updated\<close>.  Only lines 97-106 sit in a \<open>try\<close>: the provider call, the assignment to
  the cache, the \<open>append\<close> and the setting of \<open>updated\<close>, in this order.  So an error
  while reading an override or the cache leaves the function, and a failed assignment to
  the cache is handled as a failed provider call is: the URL is skipped.
\<close>

fun build_sources_loop ::
  "'w env \<Rightarrow> (pystr \<Rightarrow> pydict option) option \<Rightarrow> pystr list \<Rightarrow> pyval \<Rightarrow> Source list \<Rightarrow> bool \<Rightarrow> 'w
    \<Rightarrow> (pyexc + pyval \<times> Source list \<times> bool) \<times> 'w" where
  "build_sources_loop env exa_mocks [] cache sources updated w =
     (Inr (cache, sources, updated), w)"
| "build_sources_loop env exa_mocks (u # urls) cache sources updated w =
     (case (case exa_mocks of None \<Rightarrow> None | Some mocks \<Rightarrow> mocks u) of
        Some m0 \<Rightarrow>
          (case override_source m0 u of
             Inl e \<Rightarrow> (Inl e, w)
           | Inr s \<Rightarrow> build_sources_loop env exa_mocks urls cache (sources @ [s]) updated w)
      | None \<Rightarrow>
          (case py_contains cache u of
             Inl e \<Rightarrow> (Inl e, w)
           | Inr cached \<Rightarrow>
               if cached
               then (case py_getitem cache u of
                       Inl e \<Rightarrow> (Inl e, w)
                     | Inr entry \<Rightarrow>
                         (case source_of entry u of
                            Inl e \<Rightarrow> (Inl e, w)
                          | Inr s \<Rightarrow>
                              build_sources_loop env exa_mocks urls cache (sources @ [s]) updated w))
               else (case fetch_exa_content env u w of
                       (Inl e, w') \<Rightarrow>
                         build_sources_loop env exa_mocks urls cache sources updated w'
                     | (Inr src, w') \<Rightarrow>
                         (case py_setitem cache u (PDict (cache_entry src)) of
                            Inl e \<Rightarrow>
                              build_sources_loop env exa_mocks urls cache sources updated w'
                          | Inr cache' \<Rightarrow>
                              build_sources_loop env exa_mocks urls cache' (sources @ [src])
                                True w'))))"

text \<open>\<open>build_sources\<close>, lines 71-112.\<close>

definition build_sources ::
  "'w env \<Rightarrow> pystr list \<Rightarrow> (pystr \<Rightarrow> pydict option) option \<Rightarrow> 'w \<Rightarrow> (pyexc + Source list) \<times> 'w" where
  "build_sources env urls exa_mocks w =
     (case build_sources_loop env exa_mocks urls (load_cache env w) [] False w of
        (Inl e, w') \<Rightarrow> (Inl e, w')
      | (Inr (cache, sources, updated), w') \<Rightarrow>
          (Inr sources, if updated then save_cache env cache w' else w'))"

section \<open>Prompt construction\<close>

text \<open>\<open>str(i)\<close> of a non-negative \<open>int\<close>: its decimal digits.\<close>

function str_nat :: "nat \<Rightarrow> pystr" where
  "str_nat n = (if n < 10 then [48 + n] else str_nat (n div 10) @ [48 + n mod 10])"
  by pat_completeness auto
termination
  by (relation "measure id") auto

declare str_nat.simps [simp del]

text \<open>\<open>sep.join(xs)\<close>\<close>

fun join :: "pystr \<Rightarrow> pystr list \<Rightarrow> pystr" where
  "join sep [] = []"
| "join sep [x] = x"
| "join sep (x # y # ys) = x @ sep @ join sep (y # ys)"

text \<open>What \<open>{v}\<close> in an f-string inserts: a \<open>str\<close> itself, \<open>str(v)\<close> otherwise.\<close>

definition fmt :: "'w env \<Rightarrow> pyval \<Rightarrow> pystr" where
  "fmt env v = (case v of PStr s \<Rightarrow> s | _ \<Rightarrow> py_str env v)"

definition sys_msg :: pystr where
  "sys_msg =
     py ''You are a factual answer generator.'' @ [10] @
     py ''Use ONLY the provided documents.'' @ [10] @
     py ''Every factual statement must cite a source like [S#].'' @ [10] @
     py ''Do not add outside knowledge.''"

text \<open>
  The separator between title and URL at line 123: in the source file it is the three
  code points U+201A, U+00C4, U+00EC.
\<close>

definition dash :: pystr where
  "dash = [8218, 196, 236]"

text \<open>
  \<open>build_prompt\<close>, lines 114-125.  \<open>enumerate(sources, 1)\<close> pairs the documents with
  1, 2, ...; code point 34 is the double quote, 10 the newline.
\<close>

definition build_prompt :: "'w env \<Rightarrow> pystr \<Rightarrow> Source list \<Rightarrow> message list" where
  "build_prompt env query sources =
     (let numbered_sources =
            map (\<lambda>(i, s). py ''[S'' @ str_nat i @ py ''] '' @ fmt env (title s) @ py '' '' @ dash
                            @ py '' '' @ fmt env (url s) @ [10] @ fmt env (text_s s))
              (zip [1..<Suc (length sources)] sources);
          user_msg = py ''Question: '' @ [34] @ query @ [34] @ [10, 10] @ py ''Sources:'' @ [10]
                       @ join [10, 10] numbered_sources
      in [\<lparr>role = py ''system'', content = sys_msg\<rparr>, \<lparr>role = py ''user'', content = user_msg\<rparr>])"

section \<open>Answer generation\<close>

text \<open>Line 142: the three substring tests on \<open>str(e)\<close>.\<close>

definition too_large :: "pystr \<Rightarrow> bool" where
  "too_large err_str \<longleftrightarrow>
     sublist (py ''Request too large'') err_str \<or> sublist (py ''tokens per min'') err_str
     \<or> sublist (py ''TPM'') err_str"

text \<open>
  The argument \<open>messages\<close> of \<open>call_gpt4o\<close> is a list of references to dict objects, which
  belong to the caller and may occur in the list more than once.  A \<open>store\<close> gives the dict
  at every address, and \<open>messages\<close> is a list of addresses; the request is made with the
  dicts as they are in the store at that time.
\<close>

type_synonym store = "nat \<Rightarrow> message"

text \<open>
  Lines 145-146, one iteration of \<open>for m in messages\<close>, on the dict at address \<open>a\<close>:
  \<open>if m["role"] == "user": m["content"] = m["content"][: len(m["content"]) // 2]\<close>.
  The assignment writes into the dict object.
\<close>

definition halve_user :: "nat \<Rightarrow> store \<Rightarrow> store" where
  "halve_user a h =
     (if role (h a) = py ''user''
      then h(a := (h a)\<lparr>content := take (length (content (h a)) div 2) (content (h a))\<rparr>)
      else h)"

text \<open>Lines 144-146: the loop over the list, one address after the other.\<close>

definition truncate_user :: "nat list \<Rightarrow> store \<Rightarrow> store" where
  "truncate_user messages h = fold halve_user messages h"

text \<open>The exception of line 158.\<close>

definition retries_exhausted :: pyexc where
  "retries_exhausted =
     RuntimeError (py ''Failed to call GPT-4o after retries due to rate limits or errors.'')"

text \<open>
  The loop of \<open>call_gpt4o\<close>, lines 131-158, over the attempt numbers of
  \<open>range(max_retries)\<close>, with the local \<open>delay\<close>.  The result carries the store as the call
  leaves it, because the dicts are the caller's objects.
\<close>

fun call_gpt4o_loop ::
  "'w env \<Rightarrow> nat list \<Rightarrow> nat \<Rightarrow> nat list \<Rightarrow> store \<Rightarrow> 'w \<Rightarrow> (pyexc + pystr) \<times> store \<times> 'w" where
  "call_gpt4o_loop env [] delay messages h w = (Inl retries_exhausted, h, w)"
| "call_gpt4o_loop env (attempt # attempts) delay messages h w =
     (case chat_create env (map h messages) w of
        (Inr answer, w') \<Rightarrow> (Inr answer, h, w')
      | (Inl (RateLimitError err_str), w') \<Rightarrow>
          if too_large err_str
          then call_gpt4o_loop env attempts delay messages (truncate_user messages h) w'
          else call_gpt4o_loop env attempts (delay * 2) messages h (sleep env delay w')
      | (Inl (APIError err_str), w') \<Rightarrow>
          call_gpt4o_loop env attempts (delay * 2) messages h (sleep env delay w')
      | (Inl (OtherException err_str), w') \<Rightarrow>
          (Inl (External (OtherException err_str)), h, w'))"

definition max_retries :: nat where
  "max_retries = 3"

definition call_gpt4o ::
  "'w env \<Rightarrow> nat list \<Rightarrow> store \<Rightarrow> 'w \<Rightarrow> (pyexc + pystr) \<times> store \<times> 'w" where
  "call_gpt4o env messages h w = call_gpt4o_loop env [0..<max_retries] 10 messages h w"

text \<open>
  A list that has just been built from new dicts, as \<open>build_prompt\<close> returns it: its
  dicts are distinct objects that nothing else refers to.  They get the addresses
  0, 1, ... of a store of their own, which is dropped when the list is.
\<close>

definition new_refs :: "message list \<Rightarrow> nat list" where
  "new_refs msgs = [0..<length msgs]"

definition new_store :: "message list \<Rightarrow> store" where
  "new_store msgs = (\<lambda>a. if a < length msgs then msgs ! a else \<lparr>role = [], content = []\<rparr>)"

section \<open>Quality evaluation\<close>

text \<open>
  The two metric objects of line 161.  They belong to the ragas library, not to this
  program; their \<open>name\<close> attributes are \<open>faithfulness\<close> and \<open>answer_relevancy\<close>.
\<close>

definition faithfulness :: metric where
  "faithfulness = \<lparr>name = py ''faithfulness''\<rparr>"

definition answer_relevancy :: metric where
  "answer_relevancy = \<lparr>name = py ''answer_relevancy''\<rparr>"

text \<open>
  \<open>compute_quality\<close>, lines 160-170.  The dict comprehension assigns the keys in the order
  of \<open>metrics\<close>; \<open>update\<close> is that assignment.  Line 170 is
  \<open>float(sum(scores.values()) / len(scores))\<close>, in float arithmetic.  An evaluator failure
  is not caught.
\<close>

definition compute_quality ::
  "'w env \<Rightarrow> pystr \<Rightarrow> pystr \<Rightarrow> pyval list \<Rightarrow> 'w
    \<Rightarrow> (pyexc + pyfloat \<times> (pystr \<times> pyfloat) list) \<times> 'w" where
  "compute_quality env question answer contexts w =
     (let metrics = [faithfulness, answer_relevancy] in
      case ragas_evaluate env question answer contexts metrics w of
        (Inl e, w') \<Rightarrow> (Inl (External e), w')
      | (Inr row, w') \<Rightarrow>
          (let scores = foldl (\<lambda>d m. AList.update (name m) (row (name m)) d) [] metrics in
           case float_div (float_sum (map snd scores)) (float_of_nat (length scores)) of
             Inl e \<Rightarrow> (Inl e, w')
           | Inr combined \<Rightarrow> (Inr (combined, scores), w')))"

section \<open>The leave-one-out engine\<close>

text \<open>
  The loop of lines 199-206 over \<open>range(len(sources))\<close>.  Each iteration builds its own
  prompt, a new list of new dicts, and drops it after the call.  Line 206 subtracts in
  float arithmetic.
\<close>

fun loo_loop ::
  "'w env \<Rightarrow> pystr \<Rightarrow> Source list \<Rightarrow> pyfloat \<Rightarrow> nat list \<Rightarrow> pyfloat list \<Rightarrow> 'w
    \<Rightarrow> (pyexc + pyfloat list) \<times> 'w" where
  "loo_loop env query sources full_q [] impacts w = (Inr impacts, w)"
| "loo_loop env query sources full_q (i # is) impacts w =
     (let subset = take i sources @ drop (i + 1) sources;
          msg_lo = build_prompt env query subset
      in case call_gpt4o env (new_refs msg_lo) (new_store msg_lo) w of
           (Inl e, h, w') \<Rightarrow> (Inl e, w')
         | (Inr ans_lo, h, w') \<Rightarrow>
             (let contexts_lo = map text_s subset
              in case compute_quality env query ans_lo contexts_lo w' of
                   (Inl e, w'') \<Rightarrow> (Inl e, w'')
                 | (Inr (quality_lo, _), w'') \<Rightarrow>
                     loo_loop env query sources full_q is
                       (impacts @ [float_sub full_q quality_lo]) w''))"

text \<open>
  \<open>run_loo\<close>, lines 172-215.  The locals \<open>full_answer\<close>, \<open>full_quality\<close> and
  \<open>per_source_metrics\<close> are written \<open>full_ans\<close>, \<open>full_q\<close> and \<open>psm\<close>, since the fields of
  \<open>LOOResult\<close> have taken their names.
\<close>

definition run_loo ::
  "'w env \<Rightarrow> pystr \<Rightarrow> pystr list \<Rightarrow> (pystr \<Rightarrow> pydict option) option \<Rightarrow> 'w \<Rightarrow> (pyexc + LOOResult) \<times> 'w" where
  "run_loo env query urls exa_mocks w =
     (case build_sources env urls exa_mocks w of
        (Inl e, w1) \<Rightarrow> (Inl e, w1)
      | (Inr sources, w1) \<Rightarrow>
          if sources = [] then (Inl (ValueError (py ''No sources available.'')), w1)
          else
            (let full_messages = build_prompt env query sources
             in case call_gpt4o env (new_refs full_messages) (new_store full_messages) w1 of
                  (Inl e, h, w2) \<Rightarrow> (Inl e, w2)
                | (Inr full_ans, h, w2) \<Rightarrow>
                    (let contexts_full = map text_s sources
                     in case compute_quality env query full_ans contexts_full w2 of
                          (Inl e, w3) \<Rightarrow> (Inl e, w3)
                        | (Inr (full_q, full_metrics), w3) \<Rightarrow>
                            (let psm = []
                             in case loo_loop env query sources full_q
                                       [0..<length sources] [] w3 of
                                  (Inl e, w4) \<Rightarrow> (Inl e, w4)
                                | (Inr impacts, w4) \<Rightarrow>
                                    (Inr \<lparr>full_answer = full_ans,
                                          full_quality = full_q,
                                          metric_breakdown = full_metrics,
                                          per_source_impact = impacts,
                                          sources_meta =
                                            map (\<lambda>s. [(py ''id'', id_s s), (py ''title'', title s),
                                                       (py ''url'', url s)]) sources,
                                          per_source_metrics = psm\<rparr>, w4)))))"

section \<open>The quality of one run, in the words of the specification\<close>

text \<open>
  Specification 4.6, steps 2 and 3b: build the prompt from the given documents, generate
  the answer, evaluate it against the texts of these documents; the result is the
  combined quality.  The impacts of \<open>run_loo\<close> are compared with this below.
\<close>

definition answer_quality :: "'w env \<Rightarrow> pystr \<Rightarrow> Source list \<Rightarrow> 'w \<Rightarrow> (pyexc + pyfloat) \<times> 'w" where
  "answer_quality env query documents w =
     (case call_gpt4o env (new_refs (build_prompt env query documents))
             (new_store (build_prompt env query documents)) w of
        (Inl e, h, w') \<Rightarrow> (Inl e, w')
      | (Inr ans, h, w') \<Rightarrow>
          (case compute_quality env query ans (map text_s documents) w' of
             (Inl e, w'') \<Rightarrow> (Inl e, w'')
           | (Inr (combined, breakdown), w'') \<Rightarrow> (Inr combined, w'')))"

section \<open>The resolution, URL by URL\<close>

text \<open>
  Specification 4.2 resolves the URLs one after the other.  \<open>resolution_steps\<close> runs the
  iteration of the loop of \<open>build_sources\<close> for one URL at a time, each from the state
  (cache, \<open>updated\<close>, world) that the one before has left, and lists for every URL the
  state its iteration started in and the documents this iteration appended.  It stops at
  an iteration that raises.
\<close>

fun resolution_steps ::
  "'w env \<Rightarrow> (pystr \<Rightarrow> pydict option) option \<Rightarrow> pystr list \<Rightarrow> pyval \<Rightarrow> bool \<Rightarrow> 'w
    \<Rightarrow> ((pyval \<times> bool \<times> 'w) \<times> Source list) list" where
  "resolution_steps env exa_mocks [] cache updated w = []"
| "resolution_steps env exa_mocks (u # urls) cache updated w =
     (case build_sources_loop env exa_mocks [u] cache [] updated w of
        (Inl e, w') \<Rightarrow> []
      | (Inr (cache', new, updated'), w') \<Rightarrow>
          ((cache, updated, w), new) # resolution_steps env exa_mocks urls cache' updated' w')"

text \<open>
  The positions of the URLs that were kept, in increasing order: those whose iteration
  appended a document.
\<close>

definition kept :: "(('s \<times> Source list) list) \<Rightarrow> nat list" where
  "kept steps = filter (\<lambda>j. snd (steps ! j) \<noteq> []) [0..<length steps]"

text \<open>
  A cache that \<open>build_sources\<close> itself has written, or the empty one: a dict whose values
  are dicts.
\<close>

definition dict_of_dicts :: "pyval \<Rightarrow> bool" where
  "dict_of_dicts c \<longleftrightarrow>
     (case c of
        PDict d \<Rightarrow> list_all (\<lambda>kv. case snd kv of PDict e \<Rightarrow> True | _ \<Rightarrow> False) d
      | _ \<Rightarrow> False)"

section \<open>A message cut down\<close>

text \<open>
  \<open>halved n m\<close> is the message \<open>m\<close> with its content cut to the first \<open>len // 2 ^ n\<close> code
  points: what \<open>n\<close> halvings in a row leave of it.
\<close>

definition halved :: "nat \<Rightarrow> message \<Rightarrow> message" where
  "halved n m = m\<lparr>content := take (length (content m) div 2 ^ n) (content m)\<rparr>"

section \<open>Outcomes of a chat request, in the words of the specification\<close>

text \<open>
  Specification 4.4 names what one attempt can lead to.  An outcome is \<open>oversized\<close>
  (RetryableTruncate) when it is a failure of the first \<open>except\<close> clause whose message
  signals an oversized request, \<open>backoff\<close> (RetryableBackoff) when it is any other failure
  of the first two clauses, and \<open>retryable\<close> when it is one of the two.  What is left is a
  success or a failure of any other class (Fatal).
\<close>

fun oversized :: "ext_exc + pystr \<Rightarrow> bool" where
  "oversized (Inl (RateLimitError err_str)) = too_large err_str"
| "oversized (Inl (APIError err_str)) = False"
| "oversized (Inl (OtherException err_str)) = False"
| "oversized (Inr answer) = False"

fun backoff :: "ext_exc + pystr \<Rightarrow> bool" where
  "backoff (Inl (RateLimitError err_str)) = (\<not> too_large err_str)"
| "backoff (Inl (APIError err_str)) = True"
| "backoff (Inl (OtherException err_str)) = False"
| "backoff (Inr answer) = False"

definition retryable :: "ext_exc + pystr \<Rightarrow> bool" where
  "retryable out \<longleftrightarrow> oversized out \<or> backoff out"

section \<open>A simulated world\<close>

text \<open>
  A world that records what was done to it: how many chat requests were made, the
  arguments of \<open>time.sleep\<close>, the URLs requested from the provider, and the cache file.
  The services answer from given tables: the chat service by the number of the request,
  the provider by URL, the scorer by the contexts.
\<close>

record sim =
  chat_calls :: nat
  slept :: "nat list"
  exa_calls :: "pystr list"
  disk :: cache_file

definition sim_env ::
  "(nat \<Rightarrow> ext_exc + pystr) \<Rightarrow> (pystr \<Rightarrow> ext_exc + exa_result list)
    \<Rightarrow> (pyval list \<Rightarrow> ext_exc + (pystr \<Rightarrow> pyfloat)) \<Rightarrow> sim env" where
  "sim_env chat exa score =
     \<lparr>exa_get_contents = (\<lambda>u w. (exa u, w\<lparr>exa_calls := exa_calls w @ [u]\<rparr>)),
      cache_file = disk,
      write_cache_file = (\<lambda>c w. w\<lparr>disk := Stored c\<rparr>),
      chat_create = (\<lambda>msgs w. (chat (chat_calls w), w\<lparr>chat_calls := Suc (chat_calls w)\<rparr>)),
      sleep = (\<lambda>d w. w\<lparr>slept := slept w @ [d]\<rparr>),
      ragas_evaluate = (\<lambda>q a ctxs ms w. (score ctxs, w)),
      py_str = (\<lambda>v. [])\<rparr>"

definition sim0 :: sim where
  "sim0 = \<lparr>chat_calls = 0, slept = [], exa_calls = [], disk = NoFile\<rparr>"

section \<open>The scenario of the specification\<close>

text \<open>
  Three documents D1, D2, D3 given as overrides (D2 inside a provider envelope), a chat
  service that always answers, and a scorer that gives the float \<open>0.90\<close> for both metrics
  on all three texts, \<open>0.60\<close> without the text of D1, \<open>0.85\<close> without that of D2 and
  \<open>0.95\<close> without that of D3.
\<close>

definition scenario_urls :: "pystr list" where
  "scenario_urls = [py ''u1'', py ''u2'', py ''u3'']"

definition scenario_mocks :: "pystr \<Rightarrow> pydict option" where
  "scenario_mocks =
     map_of
       [(py ''u1'', [(py ''id'', PStr (py ''D1'')), (py ''title'', PStr (py ''T1'')),
                     (py ''url'', PStr (py ''u1'')), (py ''text'', PStr (py ''t1''))]),
        (py ''u2'', [(py ''results'',
                      PList [PDict [(py ''id'', PStr (py ''D2'')), (py ''text'', PStr (py ''t2''))]])]),
        (py ''u3'', [(py ''id'', PStr (py ''D3'')), (py ''text'', PStr (py ''t3''))])]"

text \<open>
  The doubles of the scenario.  \<open>d090\<close>, \<open>d060\<close>, \<open>d085\<close>, \<open>d095\<close> are the values of the
  literals \<open>0.90\<close>, \<open>0.60\<close>, \<open>0.85\<close>, \<open>0.95\<close>: the doubles nearest to these numbers.  The
  three doubles of \<open>scenario_impacts\<close> are what Python prints as \<open>0.30000000000000004\<close>,
  \<open>0.050000000000000044\<close> and \<open>-0.04999999999999993\<close>; those of \<open>decimal_impacts\<close> are the
  values of the literals \<open>0.30\<close>, \<open>0.05\<close> and \<open>-0.05\<close>.
\<close>

definition d090 :: pyfloat where
  "d090 = Finite False (8106479329266893 / 2 ^ 53)"

definition d060 :: pyfloat where
  "d060 = Finite False (5404319552844595 / 2 ^ 53)"

definition d085 :: pyfloat where
  "d085 = Finite False (7656119366529843 / 2 ^ 53)"

definition d095 :: pyfloat where
  "d095 = Finite False (8556839292003942 / 2 ^ 53)"

definition scenario_impacts :: "pyfloat list" where
  "scenario_impacts =
     [Finite False (5404319552844596 / 2 ^ 54),
      Finite False (7205759403792800 / 2 ^ 57),
      Finite True (7205759403792784 / 2 ^ 57)]"

definition decimal_impacts :: "pyfloat list" where
  "decimal_impacts =
     [float_literal (30 / 100), float_literal (5 / 100), float_neg (float_literal (5 / 100))]"

definition scenario_score :: "pyval list \<Rightarrow> ext_exc + (pystr \<Rightarrow> pyfloat)" where
  "scenario_score ctxs =
     Inr (\<lambda>nm. if PStr (py ''t1'') \<notin> set ctxs then d060
               else if PStr (py ''t2'') \<notin> set ctxs then d085
               else if PStr (py ''t3'') \<notin> set ctxs then d095
               else d090)"

definition scenario_env :: "sim env" where
  "scenario_env = sim_env (\<lambda>n. Inr (py ''answer'')) (\<lambda>u. Inl (OtherException [])) scenario_score"

definition scenario_docs :: "Source list" where
  "scenario_docs =
     [\<lparr>id_s = PStr (py ''D1''), title = PStr (py ''T1''), url = PStr (py ''u1''),
       text_s = PStr (py ''t1'')\<rparr>,
      \<lparr>id_s = PStr (py ''D2''), title = PStr (py ''(untitled)''), url = PStr (py ''u2''),
       text_s = PStr (py ''t2'')\<rparr>,
      \<lparr>id_s = PStr (py ''D3''), title = PStr (py ''(untitled)''), url = PStr (py ''u3''),
       text_s = PStr (py ''t3'')\<rparr>]"

definition scenario_report :: LOOResult where
  "scenario_report =
     \<lparr>full_answer = py ''answer'',
      full_quality = d090,
      metric_breakdown = [(py ''faithfulness'', d090), (py ''answer_relevancy'', d090)],
      per_source_impact = scenario_impacts,
      sources_meta =
        [[(py ''id'', PStr (py ''D1'')), (py ''title'', PStr (py ''T1'')), (py ''url'', PStr (py ''u1''))],
         [(py ''id'', PStr (py ''D2'')), (py ''title'', PStr (py ''(untitled)'')),
          (py ''url'', PStr (py ''u2''))],
         [(py ''id'', PStr (py ''D3'')), (py ''title'', PStr (py ''(untitled)'')),
          (py ''url'', PStr (py ''u3''))]],
      per_source_metrics = []\<rparr>"

section \<open>Two resolution scenarios\<close>

text \<open>
  A provider outage: no overrides, no cache file; the provider answers for \<open>a\<close> and \<open>d\<close>,
  raises for \<open>b\<close> and returns no results for \<open>c\<close>.
\<close>

definition outage_urls :: "pystr list" where
  "outage_urls = [py ''a'', py ''b'', py ''c'', py ''d'']"

definition outage_exa :: "pystr \<Rightarrow> ext_exc + exa_result list" where
  "outage_exa u =
     (if u = py ''a''
      then Inr [\<lparr>r_id = PStr (py ''A''), r_title = PNone, r_url = PStr (py ''a''),
                 r_text = PStr (py ''ta'')\<rparr>]
      else if u = py ''b'' then Inl (OtherException (py ''timeout''))
      else if u = py ''c'' then Inr []
      else Inr [\<lparr>r_id = PStr (py ''D''), r_title = PStr (py ''TD''), r_url = PStr (py ''d''),
                 r_text = PNone\<rparr>])"

definition outage_env :: "sim env" where
  "outage_env = sim_env (\<lambda>n. Inr []) outage_exa (\<lambda>ctxs. Inl (OtherException []))"

definition outage_docs :: "Source list" where
  "outage_docs =
     [\<lparr>id_s = PStr (py ''A''), title = PStr (py ''(untitled)''), url = PStr (py ''a''),
       text_s = PStr (py ''ta'')\<rparr>,
      \<lparr>id_s = PStr (py ''D''), title = PStr (py ''TD''), url = PStr (py ''d''),
       text_s = PStr []\<rparr>]"

text \<open>
  A whole run during the outage, with a chat service that always answers and the scorer
  of the scenario above, which gives \<open>0.60\<close> on every context list here.
\<close>

definition outage_run_env :: "sim env" where
  "outage_run_env = sim_env (\<lambda>n. Inr (py ''answer'')) outage_exa scenario_score"

definition outage_report :: LOOResult where
  "outage_report =
     \<lparr>full_answer = py ''answer'',
      full_quality = d060,
      metric_breakdown = [(py ''faithfulness'', d060), (py ''answer_relevancy'', d060)],
      per_source_impact = [Finite False 0, Finite False 0],
      sources_meta =
        [[(py ''id'', PStr (py ''A'')), (py ''title'', PStr (py ''(untitled)'')),
          (py ''url'', PStr (py ''a''))],
         [(py ''id'', PStr (py ''D'')), (py ''title'', PStr (py ''TD'')), (py ''url'', PStr (py ''d''))]],
      per_source_metrics = []\<rparr>"

text \<open>
  Three cache files that \<open>build_sources\<close> has not written: a list, a number, and a dict
  whose entry for \<open>a\<close> is a \<open>str\<close>.
\<close>

definition list_cache_world :: sim where
  "list_cache_world = sim0\<lparr>disk := Stored (PList [])\<rparr>"

definition number_cache_world :: sim where
  "number_cache_world = sim0\<lparr>disk := Stored (PInt 0)\<rparr>"

definition text_entry_world :: sim where
  "text_entry_world = sim0\<lparr>disk := Stored (PDict [(py ''a'', PStr (py ''ta''))])\<rparr>"









section \<open>Two chat scenarios\<close>

text \<open>
  A rate limit, then a gateway error, then an answer; and an oversized request, then an
  answer, also in a world with the scorer of the scenario above.
\<close>

definition retry_script :: "nat \<Rightarrow> ext_exc + pystr" where
  "retry_script n =
     (if n = 0 then Inl (RateLimitError (py ''429''))
      else if n = 1 then Inl (APIError (py ''502''))
      else Inr (py ''ok''))"

definition oversize_script :: "nat \<Rightarrow> ext_exc + pystr" where
  "oversize_script n =
     (if n = 0 then Inl (RateLimitError (py ''Request too large'')) else Inr (py ''ok''))"

definition chat_env :: "(nat \<Rightarrow> ext_exc + pystr) \<Rightarrow> sim env" where
  "chat_env chat = sim_env chat (\<lambda>u. Inr []) (\<lambda>ctxs. Inl (OtherException []))"

definition leak_env :: "sim env" where
  "leak_env = sim_env oversize_script (\<lambda>u. Inl (OtherException [])) scenario_score"

text \<open>
  A caller's store with a system message at address 0 and a user message at address 1,
  and two lists over it: one with each dict once, one with the user message twice.
\<close>

definition demo_store :: store where
  "demo_store =
     (\<lambda>a. if a = 0 then \<lparr>role = py ''system'', content = py ''rules''\<rparr>
          else \<lparr>role = py ''user'', content = py ''abcdefgh''\<rparr>)"

definition demo_messages :: "nat list" where
  "demo_messages = [0, 1]"

definition shared_messages :: "nat list" where
  "shared_messages = [0, 1, 1]"

section \<open>Basic facts\<close>

lemma py_eq_iff [simp]: "py s = py t \<longleftrightarrow> s = t"
  by (simp add: py_def inj_map_eq_map [OF inj_of_char])

lemma py_Nil_iff [simp]: "py s = [] \<longleftrightarrow> s = []" "[] = py s \<longleftrightarrow> s = []"
  by (auto simp: py_def)

section \<open>Float arithmetic\<close>

lemma powr_powi_2: "(2::real) powr real_of_int k = 2 powi k"
  by (rule powr_real_of_int') simp_all

lemma binade_eqI:
  assumes "0 < m" "2 powi e \<le> m" "m < 2 powi (e + 1)" "- 1022 \<le> e"
  shows "binade m = e"
proof -
  have lo: "(2::real) powr real_of_int e \<le> m"
    using assms(2) by (simp only: powr_powi_2)
  have "m < (2::real) powr real_of_int (e + 1)"
    using assms(3) by (simp only: powr_powi_2)
  then have hi: "m < (2::real) powr (real_of_int e + 1)"
    by (simp only: of_int_add of_int_1)
  have "\<lfloor>log 2 m\<rfloor> = e"
    using assms(1) lo hi by (simp add: floor_log_eq_powr_iff)
  then show ?thesis
    using assms(4) by (simp add: binade_def)
qed

lemma round_half_even_of_int [simp]: "round_half_even (of_int n) = n"
  by (simp add: round_half_even_def)

lemma round_double_exact:
  assumes "2 ^ 52 \<le> n" "n < 2 ^ 53" "- 1074 \<le> e"
  shows "round_double (of_int n * 2 powi e) = of_int n * 2 powi e"
proof -
  let ?m = "real_of_int n * 2 powi e"
  have p: "(0::real) < 2 powi e" by simp
  have n52: "(2::real) ^ 52 \<le> of_int n"
  proof -
    have "real_of_int (2 ^ 52) \<le> real_of_int n"
      using assms(1) by (simp only: of_int_le_iff)
    then show ?thesis by simp
  qed
  have n53: "of_int n < (2::real) ^ 53"
  proof -
    have "real_of_int n < real_of_int (2 ^ 53)"
      using assms(2) by (simp only: of_int_less_iff)
    then show ?thesis by simp
  qed
  have n0: "(0::real) < of_int n"
    using n52 by (rule less_le_trans [rotated]) simp
  have pos: "0 < ?m" using n0 p by (rule mult_pos_pos)
  have lo: "2 powi (e + 52) \<le> ?m"
  proof -
    have "(2::real) powi (e + 52) = 2 ^ 52 * 2 powi e"
      by (simp add: power_int_add)
    also have "\<dots> \<le> ?m"
      using n52 less_imp_le [OF p] by (rule mult_right_mono)
    finally show ?thesis .
  qed
  have hi: "?m < 2 powi (e + 52 + 1)"
  proof -
    have "?m < 2 ^ 53 * 2 powi e"
      using n53 p by (rule mult_strict_right_mono)
    also have "\<dots> = (2::real) powi (e + 52 + 1)"
      by (simp add: power_int_add)
    finally show ?thesis .
  qed
  have e: "- 1022 \<le> e + 52" using assms(3) by simp
  have b: "binade ?m = e + 52"
    using pos lo hi e by (rule binade_eqI)
  have q: "?m / 2 powi e = of_int n" by simp
  have ne: "?m \<noteq> 0" using pos by (metis less_irrefl)
  have ee: "e + 52 - 52 = e" by simp
  show ?thesis
    using ne by (simp only: round_double_def b Let_def ee q round_half_even_of_int if_False)
qed

lemma round_double_eqI:
  assumes "0 < m" "binade m = b" "round_half_even (m / 2 powi (b - 52)) = k"
  shows "round_double m = of_int k * 2 powi (b - 52)"
  using assms by (simp add: round_double_def)

lemma finish_exact:
  assumes "2 ^ 52 \<le> n" "n < 2 ^ 53" "- 1074 \<le> e" "e \<le> 0"
  shows "finish s (of_int n * 2 powi e) = Finite s (of_int n * 2 powi e)"
proof -
  let ?m = "real_of_int n * 2 powi e"
  have n53: "of_int n < (2::real) ^ 53"
  proof -
    have "real_of_int n < real_of_int (2 ^ 53)"
      using assms(2) by (simp only: of_int_less_iff)
    then show ?thesis by simp
  qed
  have n0: "(0::real) \<le> of_int n"
  proof -
    have "real_of_int (2 ^ 52) \<le> real_of_int n"
      using assms(1) by (simp only: of_int_le_iff)
    then show ?thesis by simp
  qed
  have "(2::real) powi e \<le> 2 powi 0"
    using assms(4) by (intro power_int_increasing) simp_all
  then have "(2::real) powi e \<le> 1" by simp
  then have "?m \<le> of_int n * 1"
    using n0 by (intro mult_left_mono)
  then have "?m < 2 ^ 53" using n53 by simp
  also have "(2::real) ^ 53 \<le> 2 ^ 1024"
    by (intro power_increasing) simp_all
  finally have "\<not> 2 ^ 1024 \<le> ?m" by simp
  then show ?thesis
    by (simp only: finish_def Let_def round_double_exact [OF assms(1,2,3)] if_False)
qed

section \<open>The doubles of the scenario\<close>

lemma literal_090: "float_literal (90 / 100) = d090"
proof -
  have b: "binade (90 / 100) = - 1"
    by (rule binade_eqI) simp_all
  have k: "round_half_even (90 / 100 / 2 powi (- 1 - 52)) = 8106479329266893"
    by (simp add: round_half_even_def)
  have "round_double (90 / 100) = of_int 8106479329266893 * 2 powi (- 1 - 52)"
    by (rule round_double_eqI [OF _ b k]) simp
  then show ?thesis
    by (simp add: float_literal_def finish_def d090_def)
qed

lemma literal_060: "float_literal (60 / 100) = d060"
proof -
  have b: "binade (60 / 100) = - 1"
    by (rule binade_eqI) simp_all
  have k: "round_half_even (60 / 100 / 2 powi (- 1 - 52)) = 5404319552844595"
    by (simp add: round_half_even_def)
  have "round_double (60 / 100) = of_int 5404319552844595 * 2 powi (- 1 - 52)"
    by (rule round_double_eqI [OF _ b k]) simp
  then show ?thesis
    by (simp add: float_literal_def finish_def d060_def)
qed

lemma literal_085: "float_literal (85 / 100) = d085"
proof -
  have b: "binade (85 / 100) = - 1"
    by (rule binade_eqI) simp_all
  have k: "round_half_even (85 / 100 / 2 powi (- 1 - 52)) = 7656119366529843"
    by (simp add: round_half_even_def)
  have "round_double (85 / 100) = of_int 7656119366529843 * 2 powi (- 1 - 52)"
    by (rule round_double_eqI [OF _ b k]) simp
  then show ?thesis
    by (simp add: float_literal_def finish_def d085_def)
qed

lemma literal_095: "float_literal (95 / 100) = d095"
proof -
  have b: "binade (95 / 100) = - 1"
    by (rule binade_eqI) simp_all
  have k: "round_half_even (95 / 100 / 2 powi (- 1 - 52)) = 8556839292003942"
    by (simp add: round_half_even_def)
  have "round_double (95 / 100) = of_int 8556839292003942 * 2 powi (- 1 - 52)"
    by (rule round_double_eqI [OF _ b k]) simp
  then show ?thesis
    by (simp add: float_literal_def finish_def d095_def)
qed

lemma literal_030: "float_literal (30 / 100) = Finite False (5404319552844595 / 2 ^ 54)"
proof -
  have b: "binade (30 / 100) = - 2"
    by (rule binade_eqI) simp_all
  have k: "round_half_even (30 / 100 / 2 powi (- 2 - 52)) = 5404319552844595"
    by (simp add: round_half_even_def)
  have "round_double (30 / 100) = of_int 5404319552844595 * 2 powi (- 2 - 52)"
    by (rule round_double_eqI [OF _ b k]) simp
  then show ?thesis
    by (simp add: float_literal_def finish_def)
qed

lemma literal_005: "float_literal (5 / 100) = Finite False (7205759403792794 / 2 ^ 57)"
proof -
  have b: "binade (5 / 100) = - 5"
    by (rule binade_eqI) simp_all
  have k: "round_half_even (5 / 100 / 2 powi (- 5 - 52)) = 7205759403792794"
    by (simp add: round_half_even_def)
  have "round_double (5 / 100) = of_int 7205759403792794 * 2 powi (- 5 - 52)"
    by (rule round_double_eqI [OF _ b k]) simp
  then show ?thesis
    by (simp add: float_literal_def finish_def)
qed

lemma mean_d090 [simp]: "float_div (float_sum [d090, d090]) (float_of_nat 2) = Inr d090"
  using finish_exact [of 8106479329266893 "- 53" False]
    finish_exact [of 8106479329266893 "- 52" False]
  by (simp add: d090_def float_sum_def float_of_nat_def signed_value_def)

lemma mean_d060 [simp]: "float_div (float_sum [d060, d060]) (float_of_nat 2) = Inr d060"
  using finish_exact [of 5404319552844595 "- 53" False]
    finish_exact [of 5404319552844595 "- 52" False]
  by (simp add: d060_def float_sum_def float_of_nat_def signed_value_def)

lemma mean_d085 [simp]: "float_div (float_sum [d085, d085]) (float_of_nat 2) = Inr d085"
  using finish_exact [of 7656119366529843 "- 53" False]
    finish_exact [of 7656119366529843 "- 52" False]
  by (simp add: d085_def float_sum_def float_of_nat_def signed_value_def)

lemma mean_d095 [simp]: "float_div (float_sum [d095, d095]) (float_of_nat 2) = Inr d095"
  using finish_exact [of 8556839292003942 "- 53" False]
    finish_exact [of 8556839292003942 "- 52" False]
  by (simp add: d095_def float_sum_def float_of_nat_def signed_value_def)

lemma sub_d090_d060: "float_sub d090 d060 = Finite False (5404319552844596 / 2 ^ 54)"
  using finish_exact [of 5404319552844596 "- 54" False]
  by (simp add: d090_def d060_def float_sub_def signed_value_def)

lemma sub_d090_d085: "float_sub d090 d085 = Finite False (7205759403792800 / 2 ^ 57)"
  using finish_exact [of 7205759403792800 "- 57" False]
  by (simp add: d090_def d085_def float_sub_def signed_value_def)

lemma sub_d090_d095: "float_sub d090 d095 = Finite True (7205759403792784 / 2 ^ 57)"
  using finish_exact [of 7205759403792784 "- 57" True]
  by (simp add: d090_def d095_def float_sub_def signed_value_def)

lemma sub_d085_d060: "float_sub d085 d060 = Finite False (1 / 4)"
  using finish_exact [of "2 ^ 52" "- 54" False]
  by (simp add: d085_def d060_def float_sub_def signed_value_def)

lemma scenario_impacts_eq:
  "[float_sub d090 d060, float_sub d090 d085, float_sub d090 d095] = scenario_impacts"
  by (simp only: sub_d090_d060 sub_d090_d085 sub_d090_d095 scenario_impacts_def)

lemma decimal_impacts_eq:
  "decimal_impacts =
     [Finite False (5404319552844595 / 2 ^ 54), Finite False (7205759403792794 / 2 ^ 57),
      Finite True (7205759403792794 / 2 ^ 57)]"
  by (simp only: decimal_impacts_def literal_030 literal_005 float_neg.simps not_False_eq_True)

lemma scenario_impacts_not_decimal: "scenario_impacts \<noteq> decimal_impacts"
  by (simp add: scenario_impacts_def decimal_impacts_eq)

section \<open>The engine\<close>

lemma attempts_3: "[0..<max_retries] = [0, 1, 2]"
  by (simp add: max_retries_def upt_rec)

lemma metric_names_distinct: "name faithfulness \<noteq> name answer_relevancy"
  by (simp add: faithfulness_def answer_relevancy_def)

lemma float_div_Inl: "float_div a b = Inl e \<Longrightarrow> (\<exists>t. b = Finite t 0) \<and> e = ZeroDivisionError"
  by (cases b; cases a) (auto split: if_splits)

lemma float_div_of_nat: "0 < n \<Longrightarrow> \<exists>c. float_div a (float_of_nat n) = Inr c"
  by (cases a) (simp_all add: float_of_nat_def)

lemma compute_quality_cases:
  "compute_quality env question answer contexts w =
     (case ragas_evaluate env question answer contexts [faithfulness, answer_relevancy] w of
        (Inl e, w') \<Rightarrow> (Inl (External e), w')
      | (Inr row, w') \<Rightarrow>
          (case float_div (float_sum [row (name faithfulness), row (name answer_relevancy)])
                  (float_of_nat 2) of
             Inl e \<Rightarrow> (Inl e, w')
           | Inr combined \<Rightarrow>
               (Inr (combined,
                     [(name faithfulness, row (name faithfulness)),
                      (name answer_relevancy, row (name answer_relevancy))]), w')))"
proof -
  have two: "Suc (Suc 0) = 2" by simp
  show ?thesis
    using metric_names_distinct
    by (simp add: compute_quality_def two split: prod.splits sum.splits)
qed

lemma compute_quality_Inr:
  assumes "compute_quality env question answer contexts w = (Inr (combined, breakdown), w')"
  shows "\<exists>row. ragas_evaluate env question answer contexts [faithfulness, answer_relevancy] w
                 = (Inr row, w')
             \<and> breakdown = [(name faithfulness, row (name faithfulness)),
                             (name answer_relevancy, row (name answer_relevancy))]
             \<and> float_div (float_sum [row (name faithfulness), row (name answer_relevancy)])
                   (float_of_nat 2) = Inr combined"
  using assms unfolding compute_quality_cases
  by (auto split: prod.splits sum.splits)

lemma compute_quality_Inl:
  assumes "compute_quality env question answer contexts w = (Inl e, w')"
  shows "\<exists>x. ragas_evaluate env question answer contexts [faithfulness, answer_relevancy] w
               = (Inl x, w') \<and> e = External x"
proof -
  have two: "\<And>a. \<exists>c. float_div a (float_of_nat 2) = Inr c"
    by (rule float_div_of_nat) simp
  obtain res w1 where ev:
    "ragas_evaluate env question answer contexts [faithfulness, answer_relevancy] w = (res, w1)"
    by (cases "ragas_evaluate env question answer contexts [faithfulness, answer_relevancy] w")
  show ?thesis
  proof (cases res)
    case (Inl x)
    then show ?thesis using assms ev by (simp add: compute_quality_cases)
  next
    case (Inr row)
    obtain c where
      "float_div (float_sum [row (name faithfulness), row (name answer_relevancy)])
         (float_of_nat 2) = Inr c"
      using two by blast
    then show ?thesis using assms ev Inr by (simp add: compute_quality_cases)
  qed
qed

lemma loo_loop_Inr:
  "loo_loop env query sources fq is impacts w = (Inr out, w') \<Longrightarrow>
     \<exists>qs ws. length qs = length is \<and> length ws = Suc (length is) \<and> ws ! 0 = w \<and> last ws = w'
       \<and> out = impacts @ map (\<lambda>q. float_sub fq q) qs
       \<and> (\<forall>k<length is.
             answer_quality env query (take (is ! k) sources @ drop (Suc (is ! k)) sources) (ws ! k)
               = (Inr (qs ! k), ws ! Suc k))"
proof (induction "is" arbitrary: impacts w)
  case Nil
  then show ?case
    by (intro exI [of _ "[]"] exI [of _ "[w]"]) simp
next
  case (Cons i "is")
  let ?subset = "take i sources @ drop (Suc i) sources"
  from Cons.prems obtain q w1 where
    aq: "answer_quality env query ?subset w = (Inr q, w1)" and
    rest: "loo_loop env query sources fq is (impacts @ [float_sub fq q]) w1 = (Inr out, w')"
    by (auto simp: answer_quality_def Let_def split: prod.splits sum.splits)
  from Cons.IH [OF rest] obtain qs ws where
    IH: "length qs = length is" "length ws = Suc (length is)" "ws ! 0 = w1" "last ws = w'"
      "out = (impacts @ [float_sub fq q]) @ map (\<lambda>q. float_sub fq q) qs"
      "\<forall>k<length is.
         answer_quality env query (take (is ! k) sources @ drop (Suc (is ! k)) sources) (ws ! k)
           = (Inr (qs ! k), ws ! Suc k)"
    by blast
  have ne: "ws \<noteq> []" using IH(2) by auto
  have step: "\<forall>k<length (i # is).
      answer_quality env query
        (take ((i # is) ! k) sources @ drop (Suc ((i # is) ! k)) sources) ((w # ws) ! k)
        = (Inr ((q # qs) ! k), (w # ws) ! Suc k)"
  proof (intro allI impI)
    fix k assume "k < length (i # is)"
    then show "answer_quality env query
        (take ((i # is) ! k) sources @ drop (Suc ((i # is) ! k)) sources) ((w # ws) ! k)
        = (Inr ((q # qs) ! k), (w # ws) ! Suc k)"
      using aq IH(3) IH(6) by (cases k) auto
  qed
  show ?case
    using IH(1,2,4,5) ne step
    by (intro exI [of _ "q # qs"] exI [of _ "w # ws"]) simp
qed

lemma run_loo_Inr:
  assumes "run_loo env query urls exa_mocks w = (Inr r, w')"
  shows "\<exists>sources w1 h w2 w3.
           build_sources env urls exa_mocks w = (Inr sources, w1) \<and> sources \<noteq> []
         \<and> call_gpt4o env (new_refs (build_prompt env query sources))
               (new_store (build_prompt env query sources)) w1 = (Inr (full_answer r), h, w2)
         \<and> compute_quality env query (full_answer r) (map text_s sources) w2
             = (Inr (full_quality r, metric_breakdown r), w3)
         \<and> loo_loop env query sources (full_quality r) [0..<length sources] [] w3
             = (Inr (per_source_impact r), w')
         \<and> sources_meta r
             = map (\<lambda>s. [(py ''id'', id_s s), (py ''title'', title s), (py ''url'', url s)]) sources
         \<and> per_source_metrics r = []"
  using assms
  by (auto simp: run_loo_def Let_def split: prod.splits sum.splits if_splits)


lemma sim_env_simps [simp]:
  "exa_get_contents (sim_env chat exa score) = (\<lambda>u w. (exa u, w\<lparr>exa_calls := exa_calls w @ [u]\<rparr>))"
  "cache_file (sim_env chat exa score) = disk"
  "write_cache_file (sim_env chat exa score) = (\<lambda>c w. w\<lparr>disk := Stored c\<rparr>)"
  "chat_create (sim_env chat exa score)
     = (\<lambda>msgs w. (chat (chat_calls w), w\<lparr>chat_calls := Suc (chat_calls w)\<rparr>))"
  "sleep (sim_env chat exa score) = (\<lambda>d w. w\<lparr>slept := slept w @ [d]\<rparr>)"
  "ragas_evaluate (sim_env chat exa score) = (\<lambda>q a ctxs ms w. (score ctxs, w))"
  "py_str (sim_env chat exa score) = (\<lambda>v. [])"
  by (simp_all add: sim_env_def)

lemma scenario_build_sources:
  "build_sources scenario_env scenario_urls (Some scenario_mocks) sim0 = (Inr scenario_docs, sim0)"
  by (simp add: build_sources_def load_cache_def scenario_env_def scenario_urls_def
      scenario_mocks_def scenario_docs_def sim0_def override_source_def unwrap_results_def
      source_of_def source_of_dict_def dict_get_def)

lemma sim_call_gpt4o_answers:
  "call_gpt4o (sim_env (\<lambda>n. Inr a) exa score) messages h w
     = (Inr a, h, w\<lparr>chat_calls := Suc (chat_calls w)\<rparr>)"
  by (simp add: call_gpt4o_def attempts_3)

lemma scenario_run:
  "run_loo scenario_env (py ''q'') scenario_urls (Some scenario_mocks) sim0
     = (Inr scenario_report, sim0\<lparr>chat_calls := 4\<rparr>)"
  by (simp add: run_loo_def scenario_build_sources)
    (simp add: scenario_docs_def scenario_env_def sim_call_gpt4o_answers
      compute_quality_cases scenario_score_def faithfulness_def answer_relevancy_def
      scenario_report_def sim0_def sub_d090_d060 sub_d090_d085 sub_d090_d095
      scenario_impacts_def)


lemma run_loo_ablation:
  assumes "run_loo env query urls exa_mocks w = (Inr r, w')"
  shows "\<exists>documents w1 ws qs.
           build_sources env urls exa_mocks w = (Inr documents, w1) \<and> documents \<noteq> []
         \<and> length ws = Suc (length documents) \<and> length qs = length documents
         \<and> answer_quality env query documents w1 = (Inr (full_quality r), ws ! 0)
         \<and> last ws = w'
         \<and> per_source_impact r = map (\<lambda>q. float_sub (full_quality r) q) qs
         \<and> sources_meta r
             = map (\<lambda>s. [(py ''id'', id_s s), (py ''title'', title s), (py ''url'', url s)]) documents
         \<and> per_source_metrics r = []
         \<and> (\<forall>i<length documents.
               answer_quality env query (take i documents @ drop (i + 1) documents) (ws ! i)
                 = (Inr (qs ! i), ws ! Suc i))"
proof -
  from run_loo_Inr [OF assms] obtain sources w1 h w2 w3 where
    bs: "build_sources env urls exa_mocks w = (Inr sources, w1)" and ne: "sources \<noteq> []" and
    gen: "call_gpt4o env (new_refs (build_prompt env query sources))
            (new_store (build_prompt env query sources)) w1 = (Inr (full_answer r), h, w2)" and
    ev: "compute_quality env query (full_answer r) (map text_s sources) w2
           = (Inr (full_quality r, metric_breakdown r), w3)" and
    loop: "loo_loop env query sources (full_quality r) [0..<length sources] [] w3
             = (Inr (per_source_impact r), w')" and
    meta: "sources_meta r
             = map (\<lambda>s. [(py ''id'', id_s s), (py ''title'', title s), (py ''url'', url s)]) sources" and
    psm: "per_source_metrics r = []"
    by blast
  from loo_loop_Inr [OF loop] obtain qs ws where
    L: "length qs = length sources" "length ws = Suc (length sources)" "ws ! 0 = w3" "last ws = w'"
      "per_source_impact r = map (\<lambda>q. float_sub (full_quality r) q) qs"
      "\<forall>k<length sources.
         answer_quality env query
           (take ([0..<length sources] ! k) sources @ drop (Suc ([0..<length sources] ! k)) sources)
           (ws ! k) = (Inr (qs ! k), ws ! Suc k)"
    by auto
  have full: "answer_quality env query sources w1 = (Inr (full_quality r), ws ! 0)"
    using gen ev L(3) by (simp add: answer_quality_def)
  have each: "\<forall>i<length sources.
      answer_quality env query (take i sources @ drop (i + 1) sources) (ws ! i)
        = (Inr (qs ! i), ws ! Suc i)"
    using L(6) by simp
  show ?thesis
    using bs ne L(1,2,4,5) full meta psm each by blast
qed

section \<open>Impacts\<close>

text \<open>
  Claim C1.  When \<open>run_loo\<close> returns a report, the resolved documents are not empty and
  the run passes through worlds \<open>ws ! 0\<close>, ..., \<open>ws ! n\<close>: the full run (prompt from all
  documents, generation, evaluation on all texts) gives \<open>full_quality\<close> and leaves
  \<open>ws ! 0\<close>; iteration \<open>i\<close> starts in \<open>ws ! i\<close>, generates and evaluates on
  \<open>documents[:i] + documents[i+1:]\<close>, gets the quality \<open>qs ! i\<close> and leaves \<open>ws ! (i+1)\<close>;
  and the \<open>i\<close>-th impact is \<open>full_quality - qs ! i\<close>, the difference of the two doubles
  in float arithmetic.
\<close>

theorem run_loo_impact:
  assumes "run_loo env query urls exa_mocks w = (Inr r, w')"
  shows "\<exists>documents w1 ws qs.
           build_sources env urls exa_mocks w = (Inr documents, w1) \<and> documents \<noteq> []
         \<and> length ws = Suc (length documents) \<and> length qs = length documents
         \<and> answer_quality env query documents w1 = (Inr (full_quality r), ws ! 0)
         \<and> last ws = w'
         \<and> per_source_impact r = map (\<lambda>q. float_sub (full_quality r) q) qs
         \<and> (\<forall>i<length documents.
               answer_quality env query (take i documents @ drop (i + 1) documents) (ws ! i)
                 = (Inr (qs ! i), ws ! Suc i)
             \<and> per_source_impact r ! i = float_sub (full_quality r) (qs ! i))"
proof -
  from run_loo_ablation [OF assms] obtain documents w1 ws qs where
    A: "build_sources env urls exa_mocks w = (Inr documents, w1)" "documents \<noteq> []"
      "length ws = Suc (length documents)" "length qs = length documents"
      "answer_quality env query documents w1 = (Inr (full_quality r), ws ! 0)"
      "last ws = w'"
      "per_source_impact r = map (\<lambda>q. float_sub (full_quality r) q) qs"
      "\<forall>i<length documents.
         answer_quality env query (take i documents @ drop (i + 1) documents) (ws ! i)
           = (Inr (qs ! i), ws ! Suc i)"
    by blast
  have "\<forall>i<length documents. per_source_impact r ! i = float_sub (full_quality r) (qs ! i)"
    using A(4,7) by simp
  with A show ?thesis by blast
qed

text \<open>
  In the scenario of the specification the scorer gives the doubles \<open>0.90\<close>, \<open>0.60\<close>,
  \<open>0.85\<close>, \<open>0.95\<close>, and the impacts are the doubles \<open>0.9 - 0.6\<close>, \<open>0.9 - 0.85\<close>,
  \<open>0.9 - 0.95\<close>.
\<close>

theorem run_loo_impact_witness:
  "fst (run_loo scenario_env (py ''q'') scenario_urls (Some scenario_mocks) sim0)
     = Inr scenario_report
   \<and> full_quality scenario_report = float_literal (90 / 100)
   \<and> per_source_impact scenario_report
       = [float_sub (float_literal (90 / 100)) (float_literal (60 / 100)),
          float_sub (float_literal (90 / 100)) (float_literal (85 / 100)),
          float_sub (float_literal (90 / 100)) (float_literal (95 / 100))]
   \<and> per_source_impact scenario_report
       = [Finite False (5404319552844596 / 2 ^ 54), Finite False (7205759403792800 / 2 ^ 57),
          Finite True (7205759403792784 / 2 ^ 57)]
   \<and> (\<exists>documents w1 ws qs.
           build_sources scenario_env scenario_urls (Some scenario_mocks) sim0 = (Inr documents, w1)
         \<and> documents \<noteq> []
         \<and> length ws = Suc (length documents) \<and> length qs = length documents
         \<and> answer_quality scenario_env (py ''q'') documents w1
             = (Inr (full_quality scenario_report), ws ! 0)
         \<and> last ws = sim0\<lparr>chat_calls := 4\<rparr>
         \<and> per_source_impact scenario_report
             = map (\<lambda>q. float_sub (full_quality scenario_report) q) qs
         \<and> (\<forall>i<length documents.
               answer_quality scenario_env (py ''q'') (take i documents @ drop (i + 1) documents)
                 (ws ! i) = (Inr (qs ! i), ws ! Suc i)
             \<and> per_source_impact scenario_report ! i
                 = float_sub (full_quality scenario_report) (qs ! i)))"
proof -
  have run: "run_loo scenario_env (py ''q'') scenario_urls (Some scenario_mocks) sim0
               = (Inr scenario_report, sim0\<lparr>chat_calls := 4\<rparr>)"
    by (rule scenario_run)
  show ?thesis
  proof (intro conjI)
    show "fst (run_loo scenario_env (py ''q'') scenario_urls (Some scenario_mocks) sim0)
            = Inr scenario_report"
      using run by simp
    show "full_quality scenario_report = float_literal (90 / 100)"
      by (simp only: literal_090) (simp add: scenario_report_def)
    show "per_source_impact scenario_report
            = [float_sub (float_literal (90 / 100)) (float_literal (60 / 100)),
               float_sub (float_literal (90 / 100)) (float_literal (85 / 100)),
               float_sub (float_literal (90 / 100)) (float_literal (95 / 100))]"
      by (simp only: literal_090 literal_060 literal_085 literal_095 scenario_impacts_eq)
        (simp add: scenario_report_def)
    show "per_source_impact scenario_report
            = [Finite False (5404319552844596 / 2 ^ 54), Finite False (7205759403792800 / 2 ^ 57),
               Finite True (7205759403792784 / 2 ^ 57)]"
      by (simp add: scenario_report_def scenario_impacts_def)
  qed (rule run_loo_impact [OF run])
qed

text \<open>
  The clause of claim C1 on the concrete scenario does not hold of the doubles that the
  program computes: with the scorer giving \<open>0.90\<close> on all documents and \<open>0.60\<close>, \<open>0.85\<close>,
  \<open>0.95\<close> on the three subsets, the reported impacts are not the doubles \<open>0.30\<close>, \<open>0.05\<close>,
  \<open>-0.05\<close>.
\<close>

theorem run_loo_impact_decimal_counterexample:
  "fst (run_loo scenario_env (py ''q'') scenario_urls (Some scenario_mocks) sim0)
     = Inr scenario_report
   \<and> fst (answer_quality scenario_env (py ''q'') scenario_docs sim0)
       = Inr (float_literal (90 / 100))
   \<and> fst (answer_quality scenario_env (py ''q'') (drop 1 scenario_docs) sim0)
       = Inr (float_literal (60 / 100))
   \<and> fst (answer_quality scenario_env (py ''q'') (take 1 scenario_docs @ drop 2 scenario_docs) sim0)
       = Inr (float_literal (85 / 100))
   \<and> fst (answer_quality scenario_env (py ''q'') (take 2 scenario_docs) sim0)
       = Inr (float_literal (95 / 100))
   \<and> per_source_impact scenario_report
       \<noteq> [float_literal (30 / 100), float_literal (5 / 100), float_neg (float_literal (5 / 100))]"
proof (intro conjI)
  show "fst (run_loo scenario_env (py ''q'') scenario_urls (Some scenario_mocks) sim0)
          = Inr scenario_report"
    by (simp add: scenario_run)
  show "fst (answer_quality scenario_env (py ''q'') scenario_docs sim0)
          = Inr (float_literal (90 / 100))"
    by (simp only: literal_090)
      (simp add: answer_quality_def scenario_env_def sim_call_gpt4o_answers compute_quality_cases
        scenario_score_def scenario_docs_def)
  show "fst (answer_quality scenario_env (py ''q'') (drop 1 scenario_docs) sim0)
          = Inr (float_literal (60 / 100))"
    by (simp only: literal_060)
      (simp add: answer_quality_def scenario_env_def sim_call_gpt4o_answers compute_quality_cases
        scenario_score_def scenario_docs_def)
  show "fst (answer_quality scenario_env (py ''q'') (take 1 scenario_docs @ drop 2 scenario_docs) sim0)
          = Inr (float_literal (85 / 100))"
    by (simp only: literal_085)
      (simp add: answer_quality_def scenario_env_def sim_call_gpt4o_answers compute_quality_cases
        scenario_score_def scenario_docs_def)
  show "fst (answer_quality scenario_env (py ''q'') (take 2 scenario_docs) sim0)
          = Inr (float_literal (95 / 100))"
    by (simp only: literal_095)
      (simp add: answer_quality_def scenario_env_def sim_call_gpt4o_answers compute_quality_cases
        scenario_score_def scenario_docs_def)
  have "scenario_impacts \<noteq> decimal_impacts"
    by (rule scenario_impacts_not_decimal)
  then show "per_source_impact scenario_report
          \<noteq> [float_literal (30 / 100), float_literal (5 / 100), float_neg (float_literal (5 / 100))]"
    by (simp add: scenario_report_def decimal_impacts_def)
qed

section \<open>Resolution\<close>

lemma subscript0_error:
  "subscript0 v = Inl e \<Longrightarrow> e = IndexError \<or> e = KeyError \<or> e = TypeError"
  by (cases v rule: subscript0.cases) auto

lemma source_of_error: "source_of m u = Inl e \<Longrightarrow> e = AttributeError"
  by (cases m) (simp_all add: source_of_def)

lemma override_source_error:
  "override_source m0 u = Inl e \<Longrightarrow>
     e = IndexError \<or> e = KeyError \<or> e = TypeError \<or> e = AttributeError"
  by (auto simp: override_source_def unwrap_results_def
      split: sum.splits option.splits if_splits dest: subscript0_error source_of_error)

lemma py_contains_error: "py_contains c u = Inl e \<Longrightarrow> e = TypeError"
  by (cases c) simp_all

lemma py_getitem_error: "py_getitem c u = Inl e \<Longrightarrow> e = TypeError \<or> e = KeyError"
  by (cases c) (simp_all split: option.splits)




lemma fetch_exa_content_fails:
  "exa_get_contents env u w = (Inl x, w') \<or> exa_get_contents env u w = (Inr [], w') \<Longrightarrow>
     \<exists>e. fetch_exa_content env u w = (Inl e, w')"
  by (auto simp: fetch_exa_content_def)



lemma build_sources_loop_skip:
  assumes "(case exa_mocks of None \<Rightarrow> None | Some mocks \<Rightarrow> mocks u) = None"
    and "py_contains cache u = Inr False"
    and "exa_get_contents env u w = (Inl x, w') \<or> exa_get_contents env u w = (Inr [], w')"
  shows "build_sources_loop env exa_mocks (u # urls) cache sources updated w
           = build_sources_loop env exa_mocks urls cache sources updated w'"
proof -
  from fetch_exa_content_fails [OF assms(3)] obtain e where
    "fetch_exa_content env u w = (Inl e, w')" ..
  with assms(1,2) show ?thesis by simp
qed

text \<open>
  One iteration, then the rest: the five ways through the body of the loop that do not
  raise.
\<close>

lemma build_sources_loop_Cons_Inr:
  assumes "build_sources_loop env exa_mocks (u # urls) cache sources updated w = (Inr res, w')"
  shows "\<exists>c1 new b1 w1.
           build_sources_loop env exa_mocks [u] cache [] updated w = (Inr (c1, new, b1), w1)
         \<and> length new \<le> 1
         \<and> build_sources_loop env exa_mocks urls c1 (sources @ new) b1 w1 = (Inr res, w')"
proof (cases "case exa_mocks of None \<Rightarrow> None | Some mocks \<Rightarrow> mocks u")
  case (Some m0)
  show ?thesis
  proof (cases "override_source m0 u")
    case (Inl e)
    with Some assms show ?thesis by simp
  next
    case (Inr s)
    with Some assms show ?thesis by simp
  qed
next
  case None
  show ?thesis
  proof (cases "py_contains cache u")
    case (Inl e)
    with None assms show ?thesis by simp
  next
    case (Inr cached)
    show ?thesis
    proof (cases cached)
      case True
      show ?thesis
      proof (cases "py_getitem cache u")
        case (Inl e)
        with None Inr True assms show ?thesis by simp
      next
        case entry: (Inr entry)
        show ?thesis
        proof (cases "source_of entry u")
          case (Inl e)
          with None Inr True entry assms show ?thesis by simp
        next
          case s: (Inr s)
          with None Inr True entry assms show ?thesis by simp
        qed
      qed
    next
      case False
      obtain r w1 where f: "fetch_exa_content env u w = (r, w1)" by force
      show ?thesis
      proof (cases r)
        case (Inl e)
        with None Inr False f assms show ?thesis by simp
      next
        case src: (Inr src)
        show ?thesis
        proof (cases "py_setitem cache u (PDict (cache_entry src))")
          case (Inl e)
          with None Inr False f src assms show ?thesis by simp
        next
          case c': (Inr c')
          with None Inr False f src assms show ?thesis by auto
        qed
      qed
    qed
  qed
qed

text \<open>When an iteration appends nothing.\<close>

lemma build_sources_loop_single_Nil:
  assumes "build_sources_loop env exa_mocks [u] cache [] updated w = (Inr (c1, new, b1), w1)"
  shows "new = [] \<longleftrightarrow>
           (case exa_mocks of None \<Rightarrow> None | Some mocks \<Rightarrow> mocks u) = None
         \<and> py_contains cache u = Inr False
         \<and> ((\<exists>e. fetch_exa_content env u w = (Inl e, w1))
            \<or> (\<exists>src e. fetch_exa_content env u w = (Inr src, w1)
                  \<and> py_setitem cache u (PDict (cache_entry src)) = Inl e))"
proof (cases "case exa_mocks of None \<Rightarrow> None | Some mocks \<Rightarrow> mocks u")
  case (Some m0)
  show ?thesis
  proof (cases "override_source m0 u")
    case (Inl e)
    with Some assms show ?thesis by simp
  next
    case (Inr s)
    with Some assms show ?thesis by auto
  qed
next
  case None
  show ?thesis
  proof (cases "py_contains cache u")
    case (Inl e)
    with None assms show ?thesis by simp
  next
    case (Inr cached)
    show ?thesis
    proof (cases cached)
      case True
      show ?thesis
      proof (cases "py_getitem cache u")
        case (Inl e)
        with None Inr True assms show ?thesis by simp
      next
        case entry: (Inr entry)
        show ?thesis
        proof (cases "source_of entry u")
          case (Inl e)
          with None Inr True entry assms show ?thesis by simp
        next
          case s: (Inr s)
          with None Inr True entry assms show ?thesis by auto
        qed
      qed
    next
      case False
      obtain r w2 where f: "fetch_exa_content env u w = (r, w2)" by force
      show ?thesis
      proof (cases r)
        case (Inl e)
        with None Inr False f assms show ?thesis by auto
      next
        case src: (Inr src)
        show ?thesis
        proof (cases "py_setitem cache u (PDict (cache_entry src))")
          case (Inl e)
          with None Inr False f src assms show ?thesis by auto
        next
          case c': (Inr c')
          with None Inr False f src assms show ?thesis by auto
        qed
      qed
    qed
  qed
qed

text \<open>An error of the loop is an error of reading an override or the cache.\<close>

lemma build_sources_loop_error:
  "build_sources_loop env exa_mocks urls cache sources updated w = (Inl e, w') \<Longrightarrow>
     e = IndexError \<or> e = KeyError \<or> e = TypeError \<or> e = AttributeError"
proof (induction urls arbitrary: cache sources updated w)
  case Nil
  then show ?case by simp
next
  case (Cons u urls)
  show ?case
  proof (cases "case exa_mocks of None \<Rightarrow> None | Some mocks \<Rightarrow> mocks u")
    case (Some m0)
    show ?thesis
    proof (cases "override_source m0 u")
      case (Inl e')
      with Some Cons.prems have "e' = e" by simp
      with Inl override_source_error [of m0 u e] show ?thesis by simp
    next
      case (Inr s)
      with Some Cons.prems show ?thesis by (intro Cons.IH) simp
    qed
  next
    case None
    show ?thesis
    proof (cases "py_contains cache u")
      case (Inl e')
      with None Cons.prems have "e' = e" by simp
      with Inl py_contains_error [of cache u e] show ?thesis by simp
    next
      case (Inr cached)
      show ?thesis
      proof (cases cached)
        case True
        show ?thesis
        proof (cases "py_getitem cache u")
          case (Inl e')
          with None Inr True Cons.prems have "e' = e" by simp
          with Inl py_getitem_error [of cache u e] show ?thesis by auto
        next
          case entry: (Inr entry)
          show ?thesis
          proof (cases "source_of entry u")
            case (Inl e')
            with None Inr True entry Cons.prems have "e' = e" by simp
            with Inl source_of_error [of entry u e] show ?thesis by simp
          next
            case s: (Inr s)
            with None Inr True entry Cons.prems show ?thesis by (intro Cons.IH) simp
          qed
        qed
      next
        case False
        obtain r w1 where f: "fetch_exa_content env u w = (r, w1)" by force
        show ?thesis
        proof (cases r)
          case (Inl e')
          with None Inr False f Cons.prems show ?thesis by (intro Cons.IH) simp
        next
          case src: (Inr src)
          show ?thesis
          proof (cases "py_setitem cache u (PDict (cache_entry src))")
            case (Inl e')
            with None Inr False f src Cons.prems show ?thesis by (intro Cons.IH) simp
          next
            case c': (Inr c')
            with None Inr False f src Cons.prems show ?thesis by (intro Cons.IH) simp
          qed
        qed
      qed
    qed
  qed
qed

lemma build_sources_error:
  assumes "build_sources env urls exa_mocks w = (Inl e, w')"
  shows "e = IndexError \<or> e = KeyError \<or> e = TypeError \<or> e = AttributeError"
proof -
  from assms obtain w1 where
    "build_sources_loop env exa_mocks urls (load_cache env w) [] False w = (Inl e, w1)"
    by (auto simp: build_sources_def split: prod.splits sum.splits)
  then show ?thesis by (rule build_sources_loop_error)
qed

section \<open>A cache of dicts\<close>

lemma dict_of_dicts_contains:
  "dict_of_dicts c \<Longrightarrow> \<exists>b. py_contains c u = Inr b"
  by (cases c) (simp_all add: dict_of_dicts_def)

lemma dict_of_dicts_getitem:
  assumes "dict_of_dicts c" "py_contains c u = Inr True"
  shows "\<exists>e. py_getitem c u = Inr (PDict e)"
proof -
  from assms(1) obtain d where c: "c = PDict d"
    and all: "list_all (\<lambda>kv. case snd kv of PDict e \<Rightarrow> True | _ \<Rightarrow> False) d"
    by (cases c) (simp_all add: dict_of_dicts_def)
  from assms(2) c obtain v where v: "map_of d u = Some v" by auto
  then have "(u, v) \<in> set d" by (rule map_of_SomeD)
  with all have "case v of PDict e \<Rightarrow> True | _ \<Rightarrow> False"
    by (auto simp: list_all_iff)
  then obtain e where "v = PDict e" by (cases v) simp_all
  with c v show ?thesis by simp
qed

lemma dict_of_dicts_setitem:
  assumes "dict_of_dicts c"
  shows "\<exists>c'. py_setitem c u (PDict x) = Inr c' \<and> dict_of_dicts c'"
proof -
  from assms obtain d where c: "c = PDict d"
    and all: "list_all (\<lambda>kv. case snd kv of PDict e \<Rightarrow> True | _ \<Rightarrow> False) d"
    by (cases c) (simp_all add: dict_of_dicts_def)
  have "list_all (\<lambda>kv. case snd kv of PDict e \<Rightarrow> True | _ \<Rightarrow> False) (AList.update u (PDict x) d)"
    using all by (induction d) auto
  with c show ?thesis by (simp add: dict_of_dicts_def)
qed

lemma dict_of_dicts_load_cache:
  "cache_file env w = NoFile \<or> cache_file env w = Unreadable \<Longrightarrow> dict_of_dicts (load_cache env w)"
  by (auto simp: load_cache_def dict_of_dicts_def)

lemma build_sources_loop_total:
  assumes "\<forall>u\<in>set urls. \<forall>m0. (case exa_mocks of None \<Rightarrow> None | Some mocks \<Rightarrow> mocks u) = Some m0
             \<longrightarrow> (\<exists>s. override_source m0 u = Inr s)"
    and "dict_of_dicts cache"
  shows "\<exists>cache' sources' updated' w'.
           build_sources_loop env exa_mocks urls cache sources updated w
             = (Inr (cache', sources', updated'), w')"
  using assms
proof (induction urls arbitrary: cache sources updated w)
  case Nil
  then show ?case by simp
next
  case (Cons u urls)
  from Cons.prems(1) have rest: "\<forall>u\<in>set urls. \<forall>m0.
      (case exa_mocks of None \<Rightarrow> None | Some mocks \<Rightarrow> mocks u) = Some m0
        \<longrightarrow> (\<exists>s. override_source m0 u = Inr s)"
    by simp
  show ?case
  proof (cases "case exa_mocks of None \<Rightarrow> None | Some mocks \<Rightarrow> mocks u")
    case (Some m0)
    with Cons.prems(1) obtain s where s: "override_source m0 u = Inr s" by auto
    from Cons.IH [OF rest Cons.prems(2), of "sources @ [s]" updated w] Some s
    show ?thesis by simp
  next
    case None
    from dict_of_dicts_contains [OF Cons.prems(2), of u] obtain cached where
      cached: "py_contains cache u = Inr cached" ..
    show ?thesis
    proof (cases cached)
      case True
      with dict_of_dicts_getitem [OF Cons.prems(2), of u] cached obtain e where
        e: "py_getitem cache u = Inr (PDict e)" by auto
      from Cons.IH [OF rest Cons.prems(2), of "sources @ [source_of_dict e u]" updated w]
        None cached True e
      show ?thesis by (simp add: source_of_def)
    next
      case False
      obtain r w1 where f: "fetch_exa_content env u w = (r, w1)" by force
      show ?thesis
      proof (cases r)
        case (Inl e)
        from Cons.IH [OF rest Cons.prems(2), of sources updated w1] None cached False f Inl
        show ?thesis by simp
      next
        case (Inr src)
        from dict_of_dicts_setitem [OF Cons.prems(2), of u "cache_entry src"] obtain c' where
          c': "py_setitem cache u (PDict (cache_entry src)) = Inr c'" "dict_of_dicts c'" by blast
        from Cons.IH [OF rest c'(2), of "sources @ [src]" True w1] None cached False f Inr c'(1)
        show ?thesis by simp
      qed
    qed
  qed
qed

section \<open>The resolution, URL by URL\<close>

lemma kept_snoc:
  "kept (steps @ [x]) = kept steps @ (if snd x = [] then [] else [length steps])"
proof -
  have "filter (\<lambda>j. snd ((steps @ [x]) ! j) \<noteq> []) [0..<length steps]
          = filter (\<lambda>j. snd (steps ! j) \<noteq> []) [0..<length steps]"
    by (rule filter_cong) (simp_all add: nth_append)
  then show ?thesis by (simp add: kept_def)
qed

lemma kept_less: "j \<in> set (kept steps) \<Longrightarrow> j < length steps"
  by (simp add: kept_def)

lemma kept_sorted: "sorted_wrt (<) (kept steps)"
  unfolding kept_def by (rule sorted_wrt_filter) (simp add: sorted_wrt_upt)

lemma concat_kept:
  "\<forall>x\<in>set steps. length (snd x) \<le> 1 \<Longrightarrow>
     concat (map snd steps) = map (\<lambda>j. hd (snd (steps ! j))) (kept steps)"
proof (induction steps rule: rev_induct)
  case Nil
  then show ?case by (simp add: kept_def)
next
  case (snoc x steps)
  have same: "map (\<lambda>j. hd (snd ((steps @ [x]) ! j))) (kept steps)
                = map (\<lambda>j. hd (snd (steps ! j))) (kept steps)"
    by (rule map_cong) (simp_all add: nth_append kept_less)
  from snoc.prems have "length (snd x) \<le> 1" by simp
  then have x: "snd x = [] \<or> snd x = [hd (snd x)]"
    by (cases "snd x") simp_all
  from snoc.prems have "\<forall>x\<in>set steps. length (snd x) \<le> 1" by simp
  from snoc.IH [OF this] have IH:
    "concat (map snd steps) = map (\<lambda>j. hd (snd (steps ! j))) (kept steps)" .
  show ?case
  proof (cases "snd x = []")
    case True
    with IH same show ?thesis by (simp add: kept_snoc)
  next
    case False
    with x have "snd x = [hd (snd x)]" by simp
    with IH same False show ?thesis by (simp add: kept_snoc)
  qed
qed

lemma build_sources_loop_steps:
  "build_sources_loop env exa_mocks urls cache sources updated w = (Inr (cache', sources', updated'), w')
   \<Longrightarrow> length (resolution_steps env exa_mocks urls cache updated w) = length urls
     \<and> (\<forall>x\<in>set (resolution_steps env exa_mocks urls cache updated w). length (snd x) \<le> 1)
     \<and> sources' = sources @ concat (map snd (resolution_steps env exa_mocks urls cache updated w))"
proof (induction urls arbitrary: cache sources updated w)
  case Nil
  then show ?case by simp
next
  case (Cons u urls)
  from build_sources_loop_Cons_Inr [OF Cons.prems] obtain c1 new b1 w1 where
    one: "build_sources_loop env exa_mocks [u] cache [] updated w = (Inr (c1, new, b1), w1)" and
    len: "length new \<le> 1" and
    rest: "build_sources_loop env exa_mocks urls c1 (sources @ new) b1 w1
             = (Inr (cache', sources', updated'), w')"
    by blast
  have steps: "resolution_steps env exa_mocks (u # urls) cache updated w
                 = ((cache, updated, w), new) # resolution_steps env exa_mocks urls c1 b1 w1"
    using one by (simp del: build_sources_loop.simps)
  from Cons.IH [OF rest] len show ?case
    unfolding steps by simp
qed

text \<open>The state an iteration starts in, and the one it leaves.\<close>

lemma resolution_steps_nth:
  "j < length (resolution_steps env exa_mocks urls cache updated w) \<Longrightarrow>
     \<exists>c b v c' b' v'.
        fst (resolution_steps env exa_mocks urls cache updated w ! j) = (c, b, v)
      \<and> build_sources_loop env exa_mocks [urls ! j] c [] b v
          = (Inr (c', snd (resolution_steps env exa_mocks urls cache updated w ! j), b'), v')
      \<and> (j = 0 \<longrightarrow> (c, b, v) = (cache, updated, w))
      \<and> (Suc j < length (resolution_steps env exa_mocks urls cache updated w)
           \<longrightarrow> fst (resolution_steps env exa_mocks urls cache updated w ! Suc j) = (c', b', v'))"
proof (induction urls arbitrary: cache updated w j)
  case Nil
  then show ?case by simp
next
  case (Cons u urls)
  obtain r w1 where one: "build_sources_loop env exa_mocks [u] cache [] updated w = (r, w1)"
    by force
  show ?case
  proof (cases r)
    case (Inl e)
    with one Cons.prems show ?thesis by (simp del: build_sources_loop.simps)
  next
    case (Inr t)
    obtain c1 new b1 where t: "t = (c1, new, b1)" by (cases t) auto
    have steps: "resolution_steps env exa_mocks (u # urls) cache updated w
                   = ((cache, updated, w), new) # resolution_steps env exa_mocks urls c1 b1 w1"
      using one Inr t by (simp del: build_sources_loop.simps)
    show ?thesis
    proof (cases j)
      case 0
      have nxt: "0 < length (resolution_steps env exa_mocks urls c1 b1 w1) \<longrightarrow>
                   fst (resolution_steps env exa_mocks urls c1 b1 w1 ! 0) = (c1, b1, w1)"
      proof
        assume "0 < length (resolution_steps env exa_mocks urls c1 b1 w1)"
        from Cons.IH [OF this] show "fst (resolution_steps env exa_mocks urls c1 b1 w1 ! 0) = (c1, b1, w1)"
          by auto
      qed
      show ?thesis
        unfolding steps 0 using one Inr t nxt
        by (intro exI [of _ cache] exI [of _ updated] exI [of _ w] exI [of _ c1] exI [of _ b1]
            exI [of _ w1]) (simp del: build_sources_loop.simps)
    next
      case (Suc k)
      with Cons.prems steps have k: "k < length (resolution_steps env exa_mocks urls c1 b1 w1)"
        by simp
      from Cons.IH [OF k] obtain c b v c' b' v' where
        "fst (resolution_steps env exa_mocks urls c1 b1 w1 ! k) = (c, b, v)"
        "build_sources_loop env exa_mocks [urls ! k] c [] b v
           = (Inr (c', snd (resolution_steps env exa_mocks urls c1 b1 w1 ! k), b'), v')"
        "Suc k < length (resolution_steps env exa_mocks urls c1 b1 w1)
           \<longrightarrow> fst (resolution_steps env exa_mocks urls c1 b1 w1 ! Suc k) = (c', b', v')"
        by blast
      then show ?thesis
        unfolding steps Suc
        by (intro exI [of _ c] exI [of _ b] exI [of _ v] exI [of _ c'] exI [of _ b']
            exI [of _ v']) (simp del: build_sources_loop.simps)
    qed
  qed
qed

lemma build_sources_steps:
  assumes "build_sources env urls exa_mocks w = (Inr documents, w')"
  shows "length (resolution_steps env exa_mocks urls (load_cache env w) False w) = length urls
       \<and> (\<forall>x\<in>set (resolution_steps env exa_mocks urls (load_cache env w) False w).
             length (snd x) \<le> 1)
       \<and> documents = concat (map snd (resolution_steps env exa_mocks urls (load_cache env w) False w))
       \<and> documents
           = map (\<lambda>j. hd (snd (resolution_steps env exa_mocks urls (load_cache env w) False w ! j)))
               (kept (resolution_steps env exa_mocks urls (load_cache env w) False w))"
proof -
  from assms obtain cache' updated' w1 where
    "build_sources_loop env exa_mocks urls (load_cache env w) [] False w
       = (Inr (cache', documents, updated'), w1)"
    by (auto simp: build_sources_def split: prod.splits sum.splits)
  from build_sources_loop_steps [OF this] have
    A: "length (resolution_steps env exa_mocks urls (load_cache env w) False w) = length urls"
      "\<forall>x\<in>set (resolution_steps env exa_mocks urls (load_cache env w) False w). length (snd x) \<le> 1"
      "documents = concat (map snd (resolution_steps env exa_mocks urls (load_cache env w) False w))"
    by simp_all
  from concat_kept [OF A(2)] A show ?thesis by simp
qed

lemma outage_steps:
  "map snd (resolution_steps outage_env None outage_urls (PDict []) False sim0)
     = [[hd outage_docs], [], [], [last outage_docs]]"
  by (simp add: outage_env_def outage_urls_def outage_exa_def outage_docs_def sim0_def
      fetch_exa_content_def py_or_def cache_entry_def)

lemma outage_kept:
  "kept (resolution_steps outage_env None outage_urls (PDict []) False sim0) = [0, 3]"
proof -
  have len: "length (resolution_steps outage_env None outage_urls (PDict []) False sim0) = 4"
    using arg_cong [OF outage_steps, of length] by simp
  have n: "\<And>j. j < 4 \<Longrightarrow>
      snd (resolution_steps outage_env None outage_urls (PDict []) False sim0 ! j)
        = [[hd outage_docs], [], [], [last outage_docs]] ! j"
    using len nth_map [of _ "resolution_steps outage_env None outage_urls (PDict []) False sim0" snd]
    by (simp add: outage_steps)
  have upt: "[0..<4] = [0, 1, 2, 3]"
    by (simp add: upt_rec)
  show ?thesis
    by (simp add: kept_def len upt n)
qed

lemma outage_loop:
  "\<exists>c. build_sources_loop outage_env None outage_urls (PDict []) [] False sim0
     = (Inr (c, outage_docs, True),
        sim0\<lparr>exa_calls := [py ''a'', py ''b'', py ''c'', py ''d'']\<rparr>)"
  by (simp add: outage_env_def outage_urls_def outage_exa_def outage_docs_def sim0_def
      fetch_exa_content_def py_or_def)

lemma outage_load_cache: "load_cache outage_env sim0 = PDict []"
  by (simp add: load_cache_def outage_env_def sim0_def)

lemma outage_build_sources:
  "fst (build_sources outage_env outage_urls None sim0) = Inr outage_docs
   \<and> exa_calls (snd (build_sources outage_env outage_urls None sim0))
       = [py ''a'', py ''b'', py ''c'', py ''d'']"
proof -
  from outage_loop obtain c where
    "build_sources_loop outage_env None outage_urls (PDict []) [] False sim0
       = (Inr (c, outage_docs, True), sim0\<lparr>exa_calls := [py ''a'', py ''b'', py ''c'', py ''d'']\<rparr>)"
    ..
  then show ?thesis
    by (simp add: build_sources_def save_cache_def outage_env_def outage_load_cache [unfolded outage_env_def])
qed

lemma build_sources_total:
  assumes "\<forall>u\<in>set urls. \<forall>m0. (case exa_mocks of None \<Rightarrow> None | Some mocks \<Rightarrow> mocks u) = Some m0
             \<longrightarrow> (\<exists>s. override_source m0 u = Inr s)"
    and "dict_of_dicts (load_cache env w)"
  shows "\<exists>documents w'. build_sources env urls exa_mocks w = (Inr documents, w')"
proof -
  from build_sources_loop_total [OF assms, where env = env and sources = "[]" and updated = False
      and w = w]
  obtain cache' documents updated' w1 where
    "build_sources_loop env exa_mocks urls (load_cache env w) [] False w
       = (Inr (cache', documents, updated'), w1)"
    by blast
  then have "build_sources env urls exa_mocks w
               = (Inr documents, if updated' then save_cache env cache' w1 else w1)"
    by (simp add: build_sources_def)
  then show ?thesis by blast
qed

lemma resolution_steps_skip:
  assumes "j < length (resolution_steps env exa_mocks urls cache updated w)"
    and "fst (resolution_steps env exa_mocks urls cache updated w ! j) = (c, b, v)"
    and "(case exa_mocks of None \<Rightarrow> None | Some mocks \<Rightarrow> mocks (urls ! j)) = None"
    and "py_contains c (urls ! j) = Inr False"
    and "exa_get_contents env (urls ! j) v = (Inl x, v')
         \<or> exa_get_contents env (urls ! j) v = (Inr [], v')"
  shows "snd (resolution_steps env exa_mocks urls cache updated w ! j) = []"
proof -
  from resolution_steps_nth [OF assms(1)] assms(2) obtain c' b' v'' where
    one: "build_sources_loop env exa_mocks [urls ! j] c [] b v
            = (Inr (c', snd (resolution_steps env exa_mocks urls cache updated w ! j), b'), v'')"
    by auto
  have "build_sources_loop env exa_mocks [urls ! j] c [] b v
          = build_sources_loop env exa_mocks [] c [] b v'"
    using assms(3,4,5) by (rule build_sources_loop_skip)
  with one show ?thesis by simp
qed

lemma resolution_steps_dropped:
  assumes "j < length (resolution_steps env exa_mocks urls cache updated w)"
    and "fst (resolution_steps env exa_mocks urls cache updated w ! j) = (c, b, v)"
    and "snd (resolution_steps env exa_mocks urls cache updated w ! j) = []"
  shows "(case exa_mocks of None \<Rightarrow> None | Some mocks \<Rightarrow> mocks (urls ! j)) = None
       \<and> py_contains c (urls ! j) = Inr False
       \<and> ((\<exists>e v'. fetch_exa_content env (urls ! j) v = (Inl e, v'))
          \<or> (\<exists>src v' e. fetch_exa_content env (urls ! j) v = (Inr src, v')
                \<and> py_setitem c (urls ! j) (PDict (cache_entry src)) = Inl e))"
proof -
  from resolution_steps_nth [OF assms(1)] assms(2) obtain c' b' v'' where
    one: "build_sources_loop env exa_mocks [urls ! j] c [] b v
            = (Inr (c', snd (resolution_steps env exa_mocks urls cache updated w ! j), b'), v'')"
    by auto
  from build_sources_loop_single_Nil [OF one] assms(3) show ?thesis
    by blast
qed

lemma build_sources_order:
  assumes "build_sources env urls exa_mocks w = (Inr documents, w')"
    and "steps = resolution_steps env exa_mocks urls (load_cache env w) False w"
  shows "length steps = length urls
       \<and> (\<forall>j<length urls. length (snd (steps ! j)) \<le> 1)
       \<and> documents = concat (map snd steps)
       \<and> documents = map (\<lambda>j. hd (snd (steps ! j))) (kept steps)
       \<and> length documents \<le> length urls"
proof -
  note S = build_sources_steps [OF assms(1), folded assms(2)]
  note A = S [THEN conjunct1] S [THEN conjunct2, THEN conjunct1]
    S [THEN conjunct2, THEN conjunct2, THEN conjunct1]
    S [THEN conjunct2, THEN conjunct2, THEN conjunct2]
  have B: "\<forall>j<length urls. length (snd (steps ! j)) \<le> 1"
    using A(1,2) by simp
  have "length documents = length (kept steps)"
    using A(4) by simp
  also have "\<dots> \<le> length steps"
    by (simp add: kept_def) (metis length_filter_le length_upt minus_nat.diff_0)
  finally have C: "length documents \<le> length urls"
    using A(1) by simp
  show ?thesis
    using A(1) B A(3) A(4) C by (intro conjI)
qed

section \<open>Provider failures\<close>

text \<open>
  Claim C4.  A URL with no override, which is not in the cache, and whose provider call
  raises or returns no results adds no document and changes neither the cache nor the
  \<open>updated\<close> flag: the loop goes on with the remaining URLs, in the world that the failed
  call has left.

  When \<open>build_sources\<close> returns \<open>documents\<close>, let \<open>steps\<close> list, for each URL in the order
  given, the state in which the iteration for this URL started and what it appended.
  There is one step for every URL, each appended at most one document, and \<open>documents\<close>
  is what the steps appended, in the order of the URLs: \<open>documents ! i\<close> is the document
  that the iteration for the URL at position \<open>kept steps ! i\<close> appended, where
  \<open>kept steps\<close> lists in increasing order the positions whose iteration appended one.
  The step of a URL with no override, not in the cache at that time, whose provider call
  fails, appended nothing; and a step appended nothing only for a URL with no override,
  not in the cache, whose provider call failed or whose entry the cache did not take
  (a cache that is no dict).

  A provider failure never makes \<open>build_sources\<close> raise: an exception that leaves
  \<open>build_sources\<close> is an \<open>IndexError\<close>, \<open>KeyError\<close>, \<open>TypeError\<close> or \<open>AttributeError\<close> from
  reading an override or the cache file's value, never an exception of the provider or
  the \<open>RuntimeError\<close> for an empty result.  And when every override met can be read and
  the cache is the empty one or a dict of dicts, \<open>build_sources\<close> returns a document list
  whatever the provider does.
\<close>

theorem build_sources_skips_failed_url:
  "((case exa_mocks of None \<Rightarrow> None | Some mocks \<Rightarrow> mocks v) = None
      \<and> py_contains cache v = Inr False
      \<and> (exa_get_contents env v wa = (Inl x, wb) \<or> exa_get_contents env v wa = (Inr [], wb))
    \<longrightarrow> build_sources_loop env exa_mocks (v # rest) cache sources updated wa
          = build_sources_loop env exa_mocks rest cache sources updated wb)
   \<and> (build_sources env urls exa_mocks w = (Inr documents, w')
      \<and> steps = resolution_steps env exa_mocks urls (load_cache env w) False w
    \<longrightarrow> length steps = length urls
        \<and> (\<forall>j<length urls. length (snd (steps ! j)) \<le> 1)
        \<and> documents = concat (map snd steps)
        \<and> documents = map (\<lambda>j. hd (snd (steps ! j))) (kept steps)
        \<and> length documents \<le> length urls
        \<and> (\<forall>j<length urls. \<forall>c b wj y wk.
              fst (steps ! j) = (c, b, wj)
              \<and> (case exa_mocks of None \<Rightarrow> None | Some mocks \<Rightarrow> mocks (urls ! j)) = None
              \<and> py_contains c (urls ! j) = Inr False
              \<and> (exa_get_contents env (urls ! j) wj = (Inl y, wk)
                 \<or> exa_get_contents env (urls ! j) wj = (Inr [], wk))
              \<longrightarrow> snd (steps ! j) = [])
        \<and> (\<forall>j<length urls. \<forall>c b wj.
              fst (steps ! j) = (c, b, wj) \<and> snd (steps ! j) = []
              \<longrightarrow> (case exa_mocks of None \<Rightarrow> None | Some mocks \<Rightarrow> mocks (urls ! j)) = None
                \<and> py_contains c (urls ! j) = Inr False
                \<and> ((\<exists>e wk. fetch_exa_content env (urls ! j) wj = (Inl e, wk))
                   \<or> (\<exists>src wk e. fetch_exa_content env (urls ! j) wj = (Inr src, wk)
                         \<and> py_setitem c (urls ! j) (PDict (cache_entry src)) = Inl e))))
   \<and> (build_sources env2 urls2 exa_mocks2 w2 = (Inl e, w2')
    \<longrightarrow> e = IndexError \<or> e = KeyError \<or> e = TypeError \<or> e = AttributeError)
   \<and> ((\<forall>u\<in>set urls. \<forall>m0. (case exa_mocks of None \<Rightarrow> None | Some mocks \<Rightarrow> mocks u) = Some m0
          \<longrightarrow> (\<exists>s. override_source m0 u = Inr s))
      \<and> dict_of_dicts (load_cache env w)
    \<longrightarrow> (\<exists>documents w'. build_sources env urls exa_mocks w = (Inr documents, w')))"
proof (intro conjI impI)
  assume "(case exa_mocks of None \<Rightarrow> None | Some mocks \<Rightarrow> mocks v) = None
      \<and> py_contains cache v = Inr False
      \<and> (exa_get_contents env v wa = (Inl x, wb) \<or> exa_get_contents env v wa = (Inr [], wb))"
  then show "build_sources_loop env exa_mocks (v # rest) cache sources updated wa
          = build_sources_loop env exa_mocks rest cache sources updated wb"
    by (elim conjE) (rule build_sources_loop_skip)
next
  assume "build_sources env2 urls2 exa_mocks2 w2 = (Inl e, w2')"
  then show "e = IndexError \<or> e = KeyError \<or> e = TypeError \<or> e = AttributeError"
    by (rule build_sources_error)
next
  assume "(\<forall>u\<in>set urls. \<forall>m0. (case exa_mocks of None \<Rightarrow> None | Some mocks \<Rightarrow> mocks u) = Some m0
          \<longrightarrow> (\<exists>s. override_source m0 u = Inr s))
      \<and> dict_of_dicts (load_cache env w)"
  then show "\<exists>documents w'. build_sources env urls exa_mocks w = (Inr documents, w')"
    by (elim conjE) (rule build_sources_total)
next
  assume A: "build_sources env urls exa_mocks w = (Inr documents, w')
      \<and> steps = resolution_steps env exa_mocks urls (load_cache env w) False w"
  then have bs: "build_sources env urls exa_mocks w = (Inr documents, w')"
    and st: "steps = resolution_steps env exa_mocks urls (load_cache env w) False w"
    by simp_all
  note ord = build_sources_order [OF bs st]
  show "length steps = length urls"
    by (rule ord [THEN conjunct1])
  show "\<forall>j<length urls. length (snd (steps ! j)) \<le> 1"
    by (rule ord [THEN conjunct2, THEN conjunct1])
  show "documents = concat (map snd steps)"
    by (rule ord [THEN conjunct2, THEN conjunct2, THEN conjunct1])
  show "documents = map (\<lambda>j. hd (snd (steps ! j))) (kept steps)"
    by (rule ord [THEN conjunct2, THEN conjunct2, THEN conjunct2, THEN conjunct1])
  show "length documents \<le> length urls"
    by (rule ord [THEN conjunct2, THEN conjunct2, THEN conjunct2, THEN conjunct2])
  have len: "length steps = length urls"
    by (rule ord [THEN conjunct1])
  show "\<forall>j<length urls. \<forall>c b wj y wk.
              fst (steps ! j) = (c, b, wj)
              \<and> (case exa_mocks of None \<Rightarrow> None | Some mocks \<Rightarrow> mocks (urls ! j)) = None
              \<and> py_contains c (urls ! j) = Inr False
              \<and> (exa_get_contents env (urls ! j) wj = (Inl y, wk)
                 \<or> exa_get_contents env (urls ! j) wj = (Inr [], wk))
              \<longrightarrow> snd (steps ! j) = []"
  proof (intro allI impI)
    fix j c b wj y wk
    assume j: "j < length urls"
    assume H: "fst (steps ! j) = (c, b, wj)
              \<and> (case exa_mocks of None \<Rightarrow> None | Some mocks \<Rightarrow> mocks (urls ! j)) = None
              \<and> py_contains c (urls ! j) = Inr False
              \<and> (exa_get_contents env (urls ! j) wj = (Inl y, wk)
                 \<or> exa_get_contents env (urls ! j) wj = (Inr [], wk))"
    from j len st have j': "j < length (resolution_steps env exa_mocks urls (load_cache env w) False w)"
      by simp
    from H st have
      h1: "fst (resolution_steps env exa_mocks urls (load_cache env w) False w ! j) = (c, b, wj)" and
      h2: "(case exa_mocks of None \<Rightarrow> None | Some mocks \<Rightarrow> mocks (urls ! j)) = None" and
      h3: "py_contains c (urls ! j) = Inr False" and
      h4: "exa_get_contents env (urls ! j) wj = (Inl y, wk)
           \<or> exa_get_contents env (urls ! j) wj = (Inr [], wk)"
      by simp_all
    from resolution_steps_skip [OF j' h1 h2 h3 h4] st show "snd (steps ! j) = []"
      by simp
  qed
  show "\<forall>j<length urls. \<forall>c b wj.
              fst (steps ! j) = (c, b, wj) \<and> snd (steps ! j) = []
              \<longrightarrow> (case exa_mocks of None \<Rightarrow> None | Some mocks \<Rightarrow> mocks (urls ! j)) = None
                \<and> py_contains c (urls ! j) = Inr False
                \<and> ((\<exists>e wk. fetch_exa_content env (urls ! j) wj = (Inl e, wk))
                   \<or> (\<exists>src wk e. fetch_exa_content env (urls ! j) wj = (Inr src, wk)
                         \<and> py_setitem c (urls ! j) (PDict (cache_entry src)) = Inl e))"
  proof (intro allI impI)
    fix j c b wj
    assume j: "j < length urls"
    assume H: "fst (steps ! j) = (c, b, wj) \<and> snd (steps ! j) = []"
    from j len st have j': "j < length (resolution_steps env exa_mocks urls (load_cache env w) False w)"
      by simp
    from H st have
      h1: "fst (resolution_steps env exa_mocks urls (load_cache env w) False w ! j) = (c, b, wj)" and
      h2: "snd (resolution_steps env exa_mocks urls (load_cache env w) False w ! j) = []"
      by simp_all
    show "(case exa_mocks of None \<Rightarrow> None | Some mocks \<Rightarrow> mocks (urls ! j)) = None
                \<and> py_contains c (urls ! j) = Inr False
                \<and> ((\<exists>e wk. fetch_exa_content env (urls ! j) wj = (Inl e, wk))
                   \<or> (\<exists>src wk e. fetch_exa_content env (urls ! j) wj = (Inr src, wk)
                         \<and> py_setitem c (urls ! j) (PDict (cache_entry src)) = Inl e))"
      by (rule resolution_steps_dropped [OF j' h1 h2])
  qed
qed

lemma outage_step_1:
  "resolution_steps outage_env None outage_urls (PDict []) False sim0 ! 1
     = ((PDict [(py ''a'', PDict (cache_entry (hd outage_docs)))], True,
         sim0\<lparr>exa_calls := [py ''a'']\<rparr>), [])"
  by (simp add: outage_env_def outage_urls_def outage_exa_def outage_docs_def sim0_def
      fetch_exa_content_def py_or_def)

lemma number_cache_run:
  "build_sources outage_env outage_urls None number_cache_world = (Inl TypeError, number_cache_world)"
  by (simp add: build_sources_def load_cache_def outage_env_def outage_urls_def
      number_cache_world_def)

lemma text_entry_run:
  "build_sources outage_env outage_urls None text_entry_world = (Inl AttributeError, text_entry_world)"
  by (simp add: build_sources_def load_cache_def outage_env_def outage_urls_def
      text_entry_world_def source_of_def)

lemma list_cache_run:
  "build_sources outage_env outage_urls None list_cache_world
     = (Inr [], list_cache_world\<lparr>exa_calls := [py ''a'', py ''b'', py ''c'', py ''d'']\<rparr>)"
  by (simp add: build_sources_def load_cache_def outage_env_def outage_urls_def outage_exa_def
      list_cache_world_def sim0_def fetch_exa_content_def py_or_def)

text \<open>
  The provider outage: of the URLs \<open>a\<close>, \<open>b\<close>, \<open>c\<close>, \<open>d\<close> the second raises and the third
  has no results; the documents are those of \<open>a\<close> and \<open>d\<close>, in this order, and all four
  URLs were requested.  With a number as the cache file's value \<open>build_sources\<close> raises a
  \<open>TypeError\<close>, with a \<open>str\<close> as cache entry an \<open>AttributeError\<close>; with a list as the
  cache file's value every fetched document is dropped.
\<close>

theorem build_sources_skips_failed_url_witness:
  "fst (build_sources outage_env outage_urls None sim0) = Inr outage_docs
   \<and> exa_calls (snd (build_sources outage_env outage_urls None sim0))
       = [py ''a'', py ''b'', py ''c'', py ''d'']
   \<and> build_sources_loop outage_env None [py ''b'', py ''c'', py ''d''] (PDict []) [] False
        (sim0\<lparr>exa_calls := [py ''a'']\<rparr>)
       = build_sources_loop outage_env None [py ''c'', py ''d''] (PDict []) [] False
           (sim0\<lparr>exa_calls := [py ''a'', py ''b'']\<rparr>)
   \<and> length (resolution_steps outage_env None outage_urls (load_cache outage_env sim0) False sim0)
       = length outage_urls
   \<and> map snd (resolution_steps outage_env None outage_urls (load_cache outage_env sim0) False sim0)
       = [[hd outage_docs], [], [], [last outage_docs]]
   \<and> kept (resolution_steps outage_env None outage_urls (load_cache outage_env sim0) False sim0)
       = [0, 3]
   \<and> outage_docs
       = concat (map snd
           (resolution_steps outage_env None outage_urls (load_cache outage_env sim0) False sim0))
   \<and> outage_docs
       = map (\<lambda>j. hd (snd (resolution_steps outage_env None outage_urls
                                (load_cache outage_env sim0) False sim0 ! j)))
           (kept (resolution_steps outage_env None outage_urls (load_cache outage_env sim0) False
                    sim0))
   \<and> length outage_docs \<le> length outage_urls
   \<and> snd (resolution_steps outage_env None outage_urls (load_cache outage_env sim0) False sim0 ! 1)
       = []
   \<and> (\<exists>e wk. fetch_exa_content outage_env (py ''b'') (sim0\<lparr>exa_calls := [py ''a'']\<rparr>)
                = (Inl e, wk))
   \<and> build_sources outage_env outage_urls None number_cache_world
       = (Inl TypeError, number_cache_world)
   \<and> build_sources outage_env outage_urls None text_entry_world
       = (Inl AttributeError, text_entry_world)
   \<and> fst (build_sources outage_env outage_urls None list_cache_world) = Inr []
   \<and> dict_of_dicts (load_cache outage_env sim0)
   \<and> (\<exists>documents w'. build_sources outage_env outage_urls None sim0 = (Inr documents, w'))"
proof -
  let ?steps = "resolution_steps outage_env None outage_urls (load_cache outage_env sim0) False sim0"
  let ?c1 = "PDict [(py ''a'', PDict (cache_entry (hd outage_docs)))]"
  have fails: "exa_get_contents outage_env (py ''b'') (sim0\<lparr>exa_calls := [py ''a'']\<rparr>)
                 = (Inl (OtherException (py ''timeout'')), sim0\<lparr>exa_calls := [py ''a'', py ''b'']\<rparr>)"
    by (simp add: outage_env_def outage_exa_def)
  have none: "(case None :: (pystr \<Rightarrow> pydict option) option of None \<Rightarrow> None
                 | Some mocks \<Rightarrow> mocks (py ''b'')) = None"
    by simp
  have fresh: "py_contains (PDict []) (py ''b'') = Inr False"
    by simp
  have readable: "\<forall>u\<in>set outage_urls. \<forall>m0.
      (case None :: (pystr \<Rightarrow> pydict option) option of None \<Rightarrow> None | Some mocks \<Rightarrow> mocks u)
        = Some m0 \<longrightarrow> (\<exists>s. override_source m0 u = Inr s)"
    by simp
  have dd: "dict_of_dicts (load_cache outage_env sim0)"
    by (simp add: outage_load_cache dict_of_dicts_def)
  have run: "build_sources outage_env outage_urls None sim0
               = (Inr outage_docs, snd (build_sources outage_env outage_urls None sim0))"
    using outage_build_sources by (simp add: prod_eq_iff)
  have st1: "fst (?steps ! 1) = (?c1, True, sim0\<lparr>exa_calls := [py ''a'']\<rparr>)"
    by (simp only: outage_load_cache outage_step_1 fst_conv)
  have u1: "outage_urls ! 1 = py ''b''"
    by (simp add: outage_urls_def)
  have fresh1: "py_contains ?c1 (outage_urls ! 1) = Inr False"
    by (simp only: u1) simp
  have none1: "(case None :: (pystr \<Rightarrow> pydict option) option of None \<Rightarrow> None
                 | Some mocks \<Rightarrow> mocks (outage_urls ! 1)) = None"
    by simp
  have fails1: "exa_get_contents outage_env (outage_urls ! 1) (sim0\<lparr>exa_calls := [py ''a'']\<rparr>)
                 = (Inl (OtherException (py ''timeout'')), sim0\<lparr>exa_calls := [py ''a'', py ''b'']\<rparr>)"
    using fails by (simp only: u1)
  have one: "1 < length outage_urls"
    by (simp add: outage_urls_def)
  note inst = build_sources_skips_failed_url [where urls = outage_urls and exa_mocks = None
      and env = outage_env and w = sim0 and v = "py ''b''" and cache = "PDict []"
      and wa = "sim0\<lparr>exa_calls := [py ''a'']\<rparr>" and x = "OtherException (py ''timeout'')"
      and wb = "sim0\<lparr>exa_calls := [py ''a'', py ''b'']\<rparr>" and rest = "[py ''c'', py ''d'']"
      and sources = "[]" and updated = False and documents = outage_docs
      and w' = "snd (build_sources outage_env outage_urls None sim0)" and steps = ?steps
      and ?env2.0 = outage_env and ?urls2.0 = outage_urls and ?exa_mocks2.0 = None
      and ?w2.0 = number_cache_world and e = TypeError and ?w2' = number_cache_world]
  from inst none fresh fails have skip:
    "build_sources_loop outage_env None [py ''b'', py ''c'', py ''d''] (PDict []) [] False
        (sim0\<lparr>exa_calls := [py ''a'']\<rparr>)
       = build_sources_loop outage_env None [py ''c'', py ''d''] (PDict []) [] False
           (sim0\<lparr>exa_calls := [py ''a'', py ''b'']\<rparr>)"
    by blast
  from inst run have ord:
    "length ?steps = length outage_urls
     \<and> (\<forall>j<length outage_urls. length (snd (?steps ! j)) \<le> 1)
     \<and> outage_docs = concat (map snd ?steps)
     \<and> outage_docs = map (\<lambda>j. hd (snd (?steps ! j))) (kept ?steps)
     \<and> length outage_docs \<le> length outage_urls
     \<and> (\<forall>j<length outage_urls. \<forall>c b wj y wk.
              fst (?steps ! j) = (c, b, wj)
              \<and> (case None :: (pystr \<Rightarrow> pydict option) option of None \<Rightarrow> None
                   | Some mocks \<Rightarrow> mocks (outage_urls ! j)) = None
              \<and> py_contains c (outage_urls ! j) = Inr False
              \<and> (exa_get_contents outage_env (outage_urls ! j) wj = (Inl y, wk)
                 \<or> exa_get_contents outage_env (outage_urls ! j) wj = (Inr [], wk))
              \<longrightarrow> snd (?steps ! j) = [])
     \<and> (\<forall>j<length outage_urls. \<forall>c b wj.
              fst (?steps ! j) = (c, b, wj) \<and> snd (?steps ! j) = []
              \<longrightarrow> (case None :: (pystr \<Rightarrow> pydict option) option of None \<Rightarrow> None
                   | Some mocks \<Rightarrow> mocks (outage_urls ! j)) = None
                \<and> py_contains c (outage_urls ! j) = Inr False
                \<and> ((\<exists>e wk. fetch_exa_content outage_env (outage_urls ! j) wj = (Inl e, wk))
                   \<or> (\<exists>src wk e. fetch_exa_content outage_env (outage_urls ! j) wj = (Inr src, wk)
                         \<and> py_setitem c (outage_urls ! j) (PDict (cache_entry src)) = Inl e)))"
    by blast
  from ord one st1 none1 fresh1 fails1 have dropped: "snd (?steps ! 1) = []"
    by blast
  from ord one st1 dropped have why:
    "(\<exists>e wk. fetch_exa_content outage_env (outage_urls ! 1) (sim0\<lparr>exa_calls := [py ''a'']\<rparr>)
               = (Inl e, wk))
     \<or> (\<exists>src wk e. fetch_exa_content outage_env (outage_urls ! 1) (sim0\<lparr>exa_calls := [py ''a'']\<rparr>)
                      = (Inr src, wk)
           \<and> py_setitem ?c1 (outage_urls ! 1) (PDict (cache_entry src)) = Inl e)"
    by blast
  have failed: "\<exists>e wk. fetch_exa_content outage_env (py ''b'') (sim0\<lparr>exa_calls := [py ''a'']\<rparr>)
                         = (Inl e, wk)"
    using why u1 by auto
  from inst readable dd have total:
    "\<exists>documents w'. build_sources outage_env outage_urls None sim0 = (Inr documents, w')"
    by blast
  have m: "map snd ?steps = [[hd outage_docs], [], [], [last outage_docs]]"
    by (simp only: outage_load_cache outage_steps)
  have k: "kept ?steps = [0, 3]"
    by (simp only: outage_load_cache outage_kept)
  have l: "fst (build_sources outage_env outage_urls None list_cache_world) = Inr []"
    by (simp add: list_cache_run)
  show ?thesis
    using outage_build_sources skip ord m k dropped failed number_cache_run text_entry_run l dd
      total
    by (intro conjI) (simp_all only: simp_thms)
qed

section \<open>Precedence of overrides\<close>












section \<open>Failures of a run\<close>

lemma call_gpt4o_loop_error:
  "call_gpt4o_loop env as d msgs h w = (Inl e, h', w') \<Longrightarrow>
     e = retries_exhausted \<or> (\<exists>s. e = External (OtherException s))"
proof (induction as arbitrary: d h w)
  case Nil
  then show ?case by simp
next
  case (Cons a as)
  obtain out w1 where c: "chat_create env (map h msgs) w = (out, w1)" by force
  show ?case
  proof (cases out)
    case (Inr answer)
    with c Cons.prems show ?thesis by simp
  next
    case (Inl x)
    show ?thesis
    proof (cases x)
      case (RateLimitError err_str)
      with Inl c Cons.prems Cons.IH show ?thesis
        by (cases "too_large err_str") auto
    next
      case (APIError err_str)
      with Inl c Cons.prems Cons.IH show ?thesis by auto
    next
      case (OtherException err_str)
      with Inl c Cons.prems show ?thesis by auto
    qed
  qed
qed

lemma call_gpt4o_error:
  "call_gpt4o env msgs h w = (Inl e, h', w') \<Longrightarrow>
     e = retries_exhausted \<or> (\<exists>s. e = External (OtherException s))"
  unfolding call_gpt4o_def by (rule call_gpt4o_loop_error)

lemma compute_quality_error:
  "compute_quality env question answer contexts w = (Inl e, w') \<Longrightarrow> \<exists>x. e = External x"
  by (drule compute_quality_Inl) blast

lemma loo_loop_error:
  "loo_loop env query sources fq is impacts w = (Inl e, w') \<Longrightarrow>
     e = retries_exhausted \<or> (\<exists>x. e = External x)"
proof (induction "is" arbitrary: impacts w)
  case Nil
  then show ?case by simp
next
  case (Cons i "is")
  let ?subset = "take i sources @ drop (i + 1) sources"
  obtain r m w1 where g: "call_gpt4o env (new_refs (build_prompt env query ?subset))
      (new_store (build_prompt env query ?subset)) w = (r, m, w1)"
    by (metis prod_cases3)
  show ?case
  proof (cases r)
    case (Inl e')
    with g Cons.prems have "e' = e" by (simp add: Let_def)
    with Inl g call_gpt4o_error [of env _ _ w e m w1] show ?thesis by auto
  next
    case (Inr ans)
    obtain r2 w2 where q: "compute_quality env query ans (map text_s ?subset) w1 = (r2, w2)"
      by force
    show ?thesis
    proof (cases r2)
      case (Inl e')
      with Inr g q Cons.prems have "e' = e" by (simp add: Let_def)
      with Inl q compute_quality_error [of env query ans _ w1 e w2] show ?thesis by auto
    next
      case Inr2: (Inr p)
      with Inr g q Cons.prems Cons.IH show ?thesis
        by (cases p) (auto simp: Let_def)
    qed
  qed
qed

lemma run_loo_no_documents:
  "build_sources env urls exa_mocks w = (Inr [], w1) \<Longrightarrow>
     run_loo env query urls exa_mocks w = (Inl (ValueError (py ''No sources available.'')), w1)"
  by (simp add: run_loo_def)

lemma run_loo_generation_fails:
  "build_sources env urls exa_mocks w = (Inr documents, w1) \<Longrightarrow> documents \<noteq> [] \<Longrightarrow>
   call_gpt4o env (new_refs (build_prompt env query documents))
     (new_store (build_prompt env query documents)) w1 = (Inl e, m, w2) \<Longrightarrow>
     run_loo env query urls exa_mocks w = (Inl e, w2)"
  by (simp add: run_loo_def)

lemma run_loo_evaluation_fails:
  "build_sources env urls exa_mocks w = (Inr documents, w1) \<Longrightarrow> documents \<noteq> [] \<Longrightarrow>
   call_gpt4o env (new_refs (build_prompt env query documents))
     (new_store (build_prompt env query documents)) w1 = (Inr a, m, w2) \<Longrightarrow>
   compute_quality env query a (map text_s documents) w2 = (Inl e, w3) \<Longrightarrow>
     run_loo env query urls exa_mocks w = (Inl e, w3)"
  by (simp add: run_loo_def)

lemma run_loo_error:
  assumes "run_loo env query urls exa_mocks w = (Inl e, w')"
  shows "build_sources env urls exa_mocks w = (Inl e, w')
       \<or> (build_sources env urls exa_mocks w = (Inr [], w') \<and> e = ValueError (py ''No sources available.''))
       \<or> ((\<exists>documents w1. build_sources env urls exa_mocks w = (Inr documents, w1) \<and> documents \<noteq> [])
           \<and> (e = retries_exhausted \<or> (\<exists>x. e = External x)))"
proof -
  obtain r w1 where bs: "build_sources env urls exa_mocks w = (r, w1)" by force
  show ?thesis
  proof (cases r)
    case (Inl e')
    with bs assms show ?thesis by (simp add: run_loo_def)
  next
    case (Inr documents)
    show ?thesis
    proof (cases "documents = []")
      case True
      with Inr bs assms show ?thesis by (simp add: run_loo_def)
    next
      case False
      obtain g m w2 where gen: "call_gpt4o env (new_refs (build_prompt env query documents))
          (new_store (build_prompt env query documents)) w1 = (g, m, w2)"
        by (metis prod_cases3)
      have kinds: "e = retries_exhausted \<or> (\<exists>x. e = External x)"
      proof (cases g)
        case (Inl e')
        with gen Inr bs False assms have "e' = e" by (simp add: run_loo_def)
        with Inl gen call_gpt4o_error [of env _ _ w1 e m w2] show ?thesis by auto
      next
        case ga: (Inr a)
        obtain q w3 where ev: "compute_quality env query a (map text_s documents) w2 = (q, w3)"
          by force
        show ?thesis
        proof (cases q)
          case (Inl e')
          with ga gen ev Inr bs False assms have "e' = e" by (simp add: run_loo_def)
          with Inl ev compute_quality_error [of env query a _ w2 e w3] show ?thesis by auto
        next
          case qa: (Inr p)
          obtain fq fm where p: "p = (fq, fm)" by force
          obtain l w4 where lp: "loo_loop env query documents fq [0..<length documents] [] w3 = (l, w4)"
            by force
          show ?thesis
          proof (cases l)
            case (Inl e')
            with qa p lp ga gen ev Inr bs False assms have "e' = e" by (simp add: run_loo_def)
            with Inl lp loo_loop_error [of env query documents fq _ "[]" w3 e w4] show ?thesis
              by auto
          next
            case la: (Inr imps)
            with qa p lp ga gen ev Inr bs False assms show ?thesis by (simp add: run_loo_def)
          qed
        qed
      qed
      with Inr bs False show ?thesis by blast
    qed
  qed
qed

section \<open>The check for documents\<close>

lemma build_sources_no_ValueError:
  "build_sources env urls exa_mocks w \<noteq> (Inl (ValueError msg), w')"
proof
  assume "build_sources env urls exa_mocks w = (Inl (ValueError msg), w')"
  from build_sources_error [OF this] show False by simp
qed

lemma run_loo_ValueError_iff:
  "(\<exists>msg w'. run_loo env query urls exa_mocks w = (Inl (ValueError msg), w'))
     \<longleftrightarrow> (\<exists>w1. build_sources env urls exa_mocks w = (Inr [], w1))"
proof
  assume "\<exists>msg w'. run_loo env query urls exa_mocks w = (Inl (ValueError msg), w')"
  then obtain msg w' where r: "run_loo env query urls exa_mocks w = (Inl (ValueError msg), w')"
    by blast
  from run_loo_error [OF r] build_sources_no_ValueError [of env urls exa_mocks w msg w']
  show "\<exists>w1. build_sources env urls exa_mocks w = (Inr [], w1)"
    by (auto simp: retries_exhausted_def)
next
  assume "\<exists>w1. build_sources env urls exa_mocks w = (Inr [], w1)"
  then obtain w1 where "build_sources env urls exa_mocks w = (Inr [], w1)" ..
  from run_loo_no_documents [OF this] show
    "\<exists>msg w'. run_loo env query urls exa_mocks w = (Inl (ValueError msg), w')"
    by blast
qed

lemma run_loo_documents_no_ValueError:
  assumes "build_sources env urls exa_mocks w = (Inr documents, w1)" and "documents \<noteq> []"
  shows "run_loo env query urls exa_mocks w \<noteq> (Inl (ValueError msg), w')"
proof
  assume "run_loo env query urls exa_mocks w = (Inl (ValueError msg), w')"
  then have "\<exists>msg w'. run_loo env query urls exa_mocks w = (Inl (ValueError msg), w')" by blast
  then obtain w2 where "build_sources env urls exa_mocks w = (Inr [], w2)"
    unfolding run_loo_ValueError_iff ..
  with assms show False by simp
qed

text \<open>
  Claim C5.  \<open>run_loo\<close> ends with a \<open>ValueError\<close> exactly when the resolution returns the
  empty list; it is then the error of line 180, and the world is the one the resolution
  left: no generation, sleep or evaluation has taken place.  When the resolution returns
  at least one document, the run does not end with a \<open>ValueError\<close> and goes on to the
  generation on the full prompt and the evaluation, whose failures are the failures of
  the run.
\<close>

theorem run_loo_rejects_no_documents:
  "((\<exists>msg w'. run_loo env query urls exa_mocks w = (Inl (ValueError msg), w'))
      \<longleftrightarrow> (\<exists>w1. build_sources env urls exa_mocks w = (Inr [], w1)))
   \<and> (build_sources env urls exa_mocks w = (Inr [], w1)
      \<longrightarrow> run_loo env query urls exa_mocks w
          = (Inl (ValueError (py ''No sources available.'')), w1))
   \<and> (build_sources env2 urls2 exa_mocks2 v = (Inr documents, v1) \<and> documents \<noteq> []
      \<longrightarrow> (\<forall>msg v'. run_loo env2 query2 urls2 exa_mocks2 v \<noteq> (Inl (ValueError msg), v'))
        \<and> (\<forall>e m v2. call_gpt4o env2 (new_refs (build_prompt env2 query2 documents))
                       (new_store (build_prompt env2 query2 documents)) v1 = (Inl e, m, v2)
              \<longrightarrow> run_loo env2 query2 urls2 exa_mocks2 v = (Inl e, v2))
        \<and> (\<forall>a m v2 e v3.
              call_gpt4o env2 (new_refs (build_prompt env2 query2 documents))
                (new_store (build_prompt env2 query2 documents)) v1 = (Inr a, m, v2)
              \<and> compute_quality env2 query2 a (map text_s documents) v2 = (Inl e, v3)
              \<longrightarrow> run_loo env2 query2 urls2 exa_mocks2 v = (Inl e, v3)))"
proof (intro conjI impI allI)
  show "(\<exists>msg w'. run_loo env query urls exa_mocks w = (Inl (ValueError msg), w'))
      \<longleftrightarrow> (\<exists>w1. build_sources env urls exa_mocks w = (Inr [], w1))"
    by (rule run_loo_ValueError_iff)
next
  assume "build_sources env urls exa_mocks w = (Inr [], w1)"
  then show "run_loo env query urls exa_mocks w
          = (Inl (ValueError (py ''No sources available.'')), w1)"
    by (rule run_loo_no_documents)
next
  fix msg v'
  assume "build_sources env2 urls2 exa_mocks2 v = (Inr documents, v1) \<and> documents \<noteq> []"
  then show "run_loo env2 query2 urls2 exa_mocks2 v \<noteq> (Inl (ValueError msg), v')"
    by (elim conjE) (rule run_loo_documents_no_ValueError)
next
  fix e m v2
  assume "build_sources env2 urls2 exa_mocks2 v = (Inr documents, v1) \<and> documents \<noteq> []"
    and "call_gpt4o env2 (new_refs (build_prompt env2 query2 documents))
           (new_store (build_prompt env2 query2 documents)) v1 = (Inl e, m, v2)"
  then show "run_loo env2 query2 urls2 exa_mocks2 v = (Inl e, v2)"
    by (elim conjE) (rule run_loo_generation_fails)
next
  fix a m v2 e v3
  assume "build_sources env2 urls2 exa_mocks2 v = (Inr documents, v1) \<and> documents \<noteq> []"
    and "call_gpt4o env2 (new_refs (build_prompt env2 query2 documents))
           (new_store (build_prompt env2 query2 documents)) v1 = (Inr a, m, v2)
         \<and> compute_quality env2 query2 a (map text_s documents) v2 = (Inl e, v3)"
  then show "run_loo env2 query2 urls2 exa_mocks2 v = (Inl e, v3)"
    by (elim conjE) (rule run_loo_evaluation_fails)
qed

lemma outage_all_fail:
  "build_sources outage_env [py ''b'', py ''c''] None sim0
     = (Inr [], sim0\<lparr>exa_calls := [py ''b'', py ''c'']\<rparr>)"
  by (simp add: build_sources_def load_cache_def outage_env_def outage_exa_def sim0_def
      fetch_exa_content_def)

theorem run_loo_rejects_no_documents_witness:
  "run_loo outage_env (py ''q'') [py ''b'', py ''c''] None sim0
     = (Inl (ValueError (py ''No sources available.'')), sim0\<lparr>exa_calls := [py ''b'', py ''c'']\<rparr>)
   \<and> chat_calls (sim0\<lparr>exa_calls := [py ''b'', py ''c'']\<rparr>) = 0
   \<and> (\<exists>msg w'. run_loo outage_env (py ''q'') [py ''b'', py ''c''] None sim0
                  = (Inl (ValueError msg), w'))
   \<and> fst (build_sources outage_env outage_urls None sim0) = Inr outage_docs
   \<and> (\<forall>msg v'. run_loo outage_env (py ''q'') outage_urls None sim0 \<noteq> (Inl (ValueError msg), v'))"
proof -
  note inst = run_loo_rejects_no_documents
    [where env = outage_env and query = "py ''q''" and urls = "[py ''b'', py ''c'']"
      and exa_mocks = None and w = sim0 and ?w1.0 = "sim0\<lparr>exa_calls := [py ''b'', py ''c'']\<rparr>"
      and ?env2.0 = outage_env and ?query2.0 = "py ''q''" and ?urls2.0 = outage_urls
      and ?exa_mocks2.0 = None and v = sim0 and documents = outage_docs
      and ?v1.0 = "snd (build_sources outage_env outage_urls None sim0)"]
  have some: "build_sources outage_env outage_urls None sim0
                = (Inr outage_docs, snd (build_sources outage_env outage_urls None sim0))
              \<and> outage_docs \<noteq> []"
    using outage_build_sources by (simp add: prod_eq_iff outage_docs_def)
  from inst outage_all_fail have a:
    "run_loo outage_env (py ''q'') [py ''b'', py ''c''] None sim0
       = (Inl (ValueError (py ''No sources available.'')), sim0\<lparr>exa_calls := [py ''b'', py ''c'']\<rparr>)"
    by blast
  from inst outage_all_fail have b:
    "\<exists>msg w'. run_loo outage_env (py ''q'') [py ''b'', py ''c''] None sim0
                 = (Inl (ValueError msg), w')"
    by blast
  from inst some have c:
    "\<forall>msg v'. run_loo outage_env (py ''q'') outage_urls None sim0 \<noteq> (Inl (ValueError msg), v')"
    by blast
  have d: "chat_calls (sim0\<lparr>exa_calls := [py ''b'', py ''c'']\<rparr>) = 0"
    by (simp add: sim0_def)
  from a b c d outage_build_sources show ?thesis by blast
qed

section \<open>The report\<close>

lemma kept_mem: "j \<in> set (kept steps) \<longleftrightarrow> j < length steps \<and> snd (steps ! j) \<noteq> []"
  by (auto simp: kept_def)

lemma kept_nth_single:
  assumes "\<forall>x\<in>set steps. length (snd x) \<le> 1"
    and "documents = map (\<lambda>j. hd (snd (steps ! j))) (kept steps)"
    and "i < length documents"
  shows "kept steps ! i < length steps \<and> snd (steps ! (kept steps ! i)) = [documents ! i]"
proof -
  from assms(2,3) have i: "i < length (kept steps)" by simp
  then have mem: "kept steps ! i \<in> set (kept steps)" by (rule nth_mem)
  then have lt: "kept steps ! i < length steps" and ne: "snd (steps ! (kept steps ! i)) \<noteq> []"
    by (simp_all add: kept_mem)
  from lt have "steps ! (kept steps ! i) \<in> set steps" by (rule nth_mem)
  with assms(1) have "length (snd (steps ! (kept steps ! i))) \<le> 1" by blast
  with ne have "snd (steps ! (kept steps ! i)) = [hd (snd (steps ! (kept steps ! i)))]"
    by (cases "snd (steps ! (kept steps ! i))") simp_all
  moreover have "documents ! i = hd (snd (steps ! (kept steps ! i)))"
    using assms(2) i by simp
  ultimately show ?thesis using lt by simp
qed

lemma kept_dropped: "j < length steps \<Longrightarrow> j \<notin> set (kept steps) \<Longrightarrow> snd (steps ! j) = []"
  by (simp add: kept_mem)

text \<open>
  Claim C2.  In a report, \<open>per_source_impact\<close> and \<open>sources_meta\<close> are as long as the list
  of resolved documents.  With \<open>steps\<close> the iterations of the resolution, one for each
  URL in the order given, and \<open>kept steps\<close> the positions, in increasing order, of the URLs
  whose iteration appended a document: there are as many documents as kept positions,
  document \<open>i\<close> is the one that the iteration for the URL at position \<open>kept steps ! i\<close>
  appended, and the iterations of the other URLs appended nothing: these are URLs with
  no override, not in the cache, whose provider call failed (or whose entry the cache,
  when it is no dict, did not take).  Entry \<open>i\<close> of
  \<open>sources_meta\<close> holds id, title and url of document \<open>i\<close>, and impact \<open>i\<close> is the full
  quality minus the quality of the run on the documents before and after position \<open>i\<close>,
  so document \<open>i\<close> is the one left out.
\<close>

theorem run_loo_index_alignment:
  assumes "run_loo env query urls exa_mocks w = (Inr r, w')"
    and "steps = resolution_steps env exa_mocks urls (load_cache env w) False w"
  shows "\<exists>documents w1 ws qs.
           build_sources env urls exa_mocks w = (Inr documents, w1)
         \<and> length (per_source_impact r) = length documents
         \<and> length (sources_meta r) = length documents
         \<and> length steps = length urls
         \<and> length documents = length (kept steps)
         \<and> sorted_wrt (<) (kept steps)
         \<and> documents = concat (map snd steps)
         \<and> (\<forall>j<length urls. j \<notin> set (kept steps)
               \<longrightarrow> snd (steps ! j) = []
                 \<and> (case exa_mocks of None \<Rightarrow> None | Some mocks \<Rightarrow> mocks (urls ! j)) = None
                 \<and> (\<exists>c b wj. fst (steps ! j) = (c, b, wj)
                       \<and> py_contains c (urls ! j) = Inr False
                       \<and> ((\<exists>e wk. fetch_exa_content env (urls ! j) wj = (Inl e, wk))
                          \<or> (\<exists>src wk e. fetch_exa_content env (urls ! j) wj = (Inr src, wk)
                                \<and> py_setitem c (urls ! j) (PDict (cache_entry src)) = Inl e))))
         \<and> length ws = Suc (length documents) \<and> length qs = length documents
         \<and> (\<forall>i<length documents.
               kept steps ! i < length urls
             \<and> snd (steps ! (kept steps ! i)) = [documents ! i]
             \<and> sources_meta r ! i
                 = [(py ''id'', id_s (documents ! i)), (py ''title'', title (documents ! i)),
                    (py ''url'', url (documents ! i))]
             \<and> documents = take i documents @ documents ! i # drop (i + 1) documents
             \<and> answer_quality env query (take i documents @ drop (i + 1) documents) (ws ! i)
                 = (Inr (qs ! i), ws ! Suc i)
             \<and> per_source_impact r ! i = float_sub (full_quality r) (qs ! i))"
proof -
  from run_loo_ablation [OF assms(1)] obtain documents w1 ws qs where
    A: "build_sources env urls exa_mocks w = (Inr documents, w1)"
      "length ws = Suc (length documents)"
      "length qs = length documents"
      "per_source_impact r = map (\<lambda>q. float_sub (full_quality r) q) qs"
      "sources_meta r
         = map (\<lambda>s. [(py ''id'', id_s s), (py ''title'', title s), (py ''url'', url s)]) documents"
      "\<forall>i<length documents.
         answer_quality env query (take i documents @ drop (i + 1) documents) (ws ! i)
           = (Inr (qs ! i), ws ! Suc i)"
    by blast
  note S = build_sources_steps [OF A(1), folded assms(2)]
  note len = S [THEN conjunct1]
  note one = S [THEN conjunct2, THEN conjunct1]
  note cat = S [THEN conjunct2, THEN conjunct2, THEN conjunct1]
  note pos = S [THEN conjunct2, THEN conjunct2, THEN conjunct2]
  have n: "length documents = length (kept steps)"
    by (subst pos) simp
  have dropped: "(\<forall>j<length urls. j \<notin> set (kept steps)
               \<longrightarrow> snd (steps ! j) = []
                 \<and> (case exa_mocks of None \<Rightarrow> None | Some mocks \<Rightarrow> mocks (urls ! j)) = None
                 \<and> (\<exists>c b wj. fst (steps ! j) = (c, b, wj)
                       \<and> py_contains c (urls ! j) = Inr False
                       \<and> ((\<exists>e wk. fetch_exa_content env (urls ! j) wj = (Inl e, wk))
                          \<or> (\<exists>src wk e. fetch_exa_content env (urls ! j) wj = (Inr src, wk)
                                \<and> py_setitem c (urls ! j) (PDict (cache_entry src)) = Inl e))))"
  proof (intro allI impI)
    fix j assume j: "j < length urls" and nk: "j \<notin> set (kept steps)"
    from j len have js: "j < length steps" by simp
    with nk have e: "snd (steps ! j) = []" by (simp add: kept_mem)
    obtain c b wj where st: "fst (steps ! j) = (c, b, wj)"
      by (cases "fst (steps ! j)") auto
    note D = resolution_steps_dropped [OF js [unfolded assms(2)] st [unfolded assms(2)]
        e [unfolded assms(2)]]
    from D have d1: "(case exa_mocks of None \<Rightarrow> None | Some mocks \<Rightarrow> mocks (urls ! j)) = None"
      by (rule conjunct1)
    from D have d2: "py_contains c (urls ! j) = Inr False
        \<and> ((\<exists>e wk. fetch_exa_content env (urls ! j) wj = (Inl e, wk))
           \<or> (\<exists>src wk e. fetch_exa_content env (urls ! j) wj = (Inr src, wk)
                 \<and> py_setitem c (urls ! j) (PDict (cache_entry src)) = Inl e))"
      by (rule conjunct2)
    from st d2 have d3: "\<exists>c b wj. fst (steps ! j) = (c, b, wj)
                       \<and> py_contains c (urls ! j) = Inr False
                       \<and> ((\<exists>e wk. fetch_exa_content env (urls ! j) wj = (Inl e, wk))
                          \<or> (\<exists>src wk e. fetch_exa_content env (urls ! j) wj = (Inr src, wk)
                                \<and> py_setitem c (urls ! j) (PDict (cache_entry src)) = Inl e))"
      by blast
    from e d1 d3 show "snd (steps ! j) = []
                 \<and> (case exa_mocks of None \<Rightarrow> None | Some mocks \<Rightarrow> mocks (urls ! j)) = None
                 \<and> (\<exists>c b wj. fst (steps ! j) = (c, b, wj)
                       \<and> py_contains c (urls ! j) = Inr False
                       \<and> ((\<exists>e wk. fetch_exa_content env (urls ! j) wj = (Inl e, wk))
                          \<or> (\<exists>src wk e. fetch_exa_content env (urls ! j) wj = (Inr src, wk)
                                \<and> py_setitem c (urls ! j) (PDict (cache_entry src)) = Inl e)))"
      by (intro conjI)
  qed
  have each: "\<forall>i<length documents.
               kept steps ! i < length urls
             \<and> snd (steps ! (kept steps ! i)) = [documents ! i]
             \<and> sources_meta r ! i
                 = [(py ''id'', id_s (documents ! i)), (py ''title'', title (documents ! i)),
                    (py ''url'', url (documents ! i))]
             \<and> documents = take i documents @ documents ! i # drop (i + 1) documents
             \<and> answer_quality env query (take i documents @ drop (i + 1) documents) (ws ! i)
                 = (Inr (qs ! i), ws ! Suc i)
             \<and> per_source_impact r ! i = float_sub (full_quality r) (qs ! i)"
  proof (intro allI impI conjI)
    fix i assume i: "i < length documents"
    from kept_nth_single [OF one pos i] len
    show "kept steps ! i < length urls" "snd (steps ! (kept steps ! i)) = [documents ! i]"
      by simp_all
    show "sources_meta r ! i
            = [(py ''id'', id_s (documents ! i)), (py ''title'', title (documents ! i)),
               (py ''url'', url (documents ! i))]"
      using i A(5) by simp
    show "documents = take i documents @ documents ! i # drop (i + 1) documents"
      using i by (simp add: id_take_nth_drop [symmetric])
    show "answer_quality env query (take i documents @ drop (i + 1) documents) (ws ! i)
            = (Inr (qs ! i), ws ! Suc i)"
      using i A(6) by blast
    show "per_source_impact r ! i = float_sub (full_quality r) (qs ! i)"
      using i A(3,4) by simp
  qed
  have l1: "length (per_source_impact r) = length documents"
    using A(3,4) by simp
  have l2: "length (sources_meta r) = length documents"
    using A(5) by simp
  show ?thesis
    using A(1) l1 l2 len n kept_sorted [of steps] cat dropped A(2,3) each
    by (intro exI [of _ documents] exI [of _ w1] exI [of _ ws] exI [of _ qs] conjI)
qed

lemma scenario_steps:
  "map snd (resolution_steps scenario_env (Some scenario_mocks) scenario_urls (PDict []) False sim0)
     = map (\<lambda>d. [d]) scenario_docs"
  by (simp add: scenario_env_def scenario_urls_def scenario_mocks_def scenario_docs_def sim0_def
      override_source_def unwrap_results_def source_of_def source_of_dict_def dict_get_def)

lemma scenario_load_cache: "load_cache scenario_env sim0 = PDict []"
  by (simp add: load_cache_def scenario_env_def sim0_def)

lemma scenario_kept:
  "kept (resolution_steps scenario_env (Some scenario_mocks) scenario_urls (PDict []) False sim0)
     = [0, 1, 2]"
proof -
  let ?steps = "resolution_steps scenario_env (Some scenario_mocks) scenario_urls (PDict []) False sim0"
  have len: "length ?steps = 3"
    using arg_cong [OF scenario_steps, of length] by (simp add: scenario_docs_def)
  have n: "\<And>j. j < 3 \<Longrightarrow> snd (?steps ! j) = map (\<lambda>d. [d]) scenario_docs ! j"
    using len nth_map [of _ ?steps snd] by (simp add: scenario_steps)
  have upt: "[0..<3] = [0, 1, 2]"
    by (simp add: upt_rec)
  show ?thesis
    by (simp add: kept_def len upt n) (simp add: scenario_docs_def)
qed

lemma sub_d060_d060: "float_sub d060 d060 = Finite False 0"
  by (simp add: d060_def float_sub_def signed_value_def)

lemma outage_run_load_cache: "load_cache outage_run_env sim0 = PDict []"
  by (simp add: load_cache_def outage_run_env_def sim0_def)

lemma outage_run_steps:
  "map snd (resolution_steps outage_run_env None outage_urls (PDict []) False sim0)
     = [[hd outage_docs], [], [], [last outage_docs]]"
  by (simp add: outage_run_env_def outage_urls_def outage_exa_def outage_docs_def sim0_def
      fetch_exa_content_def py_or_def cache_entry_def)

lemma outage_run_kept:
  "kept (resolution_steps outage_run_env None outage_urls (PDict []) False sim0) = [0, 3]"
proof -
  let ?steps = "resolution_steps outage_run_env None outage_urls (PDict []) False sim0"
  have len: "length ?steps = 4"
    using arg_cong [OF outage_run_steps, of length] by simp
  have n: "\<And>j. j < 4 \<Longrightarrow> snd (?steps ! j) = [[hd outage_docs], [], [], [last outage_docs]] ! j"
    using len nth_map [of _ ?steps snd] by (simp add: outage_run_steps)
  have upt: "[0..<4] = [0, 1, 2, 3]"
    by (simp add: upt_rec)
  show ?thesis
    by (simp add: kept_def len upt n)
qed

lemma outage_run_build_sources:
  "build_sources outage_run_env outage_urls None sim0
     = (Inr outage_docs,
        sim0\<lparr>exa_calls := [py ''a'', py ''b'', py ''c'', py ''d''],
             disk := Stored (PDict [(py ''a'', PDict (cache_entry (hd outage_docs))),
                                    (py ''d'', PDict (cache_entry (last outage_docs)))])\<rparr>)"
  by (simp add: build_sources_def load_cache_def save_cache_def outage_run_env_def outage_urls_def
      outage_exa_def outage_docs_def sim0_def fetch_exa_content_def py_or_def)

lemma outage_run:
  "run_loo outage_run_env (py ''q'') outage_urls None sim0
     = (Inr outage_report,
        sim0\<lparr>exa_calls := [py ''a'', py ''b'', py ''c'', py ''d''],
             disk := Stored (PDict [(py ''a'', PDict (cache_entry (hd outage_docs))),
                                    (py ''d'', PDict (cache_entry (last outage_docs)))]),
             chat_calls := 3\<rparr>)"
  by (simp add: run_loo_def outage_run_build_sources)
    (simp add: outage_docs_def outage_run_env_def sim_call_gpt4o_answers
      compute_quality_cases scenario_score_def faithfulness_def answer_relevancy_def
      outage_report_def sim0_def sub_d060_d060)

text \<open>
  Two runs: the scenario of the specification, where every URL has an override and all
  three are kept, and a run during the provider outage, where of the four URLs the first
  and the last are kept and the report has two impacts and the metadata of these two
  documents.
\<close>

theorem run_loo_index_alignment_witness:
  "fst (run_loo scenario_env (py ''q'') scenario_urls (Some scenario_mocks) sim0)
     = Inr scenario_report
   \<and> map snd (resolution_steps scenario_env (Some scenario_mocks) scenario_urls
                (load_cache scenario_env sim0) False sim0)
       = map (\<lambda>d. [d]) scenario_docs
   \<and> kept (resolution_steps scenario_env (Some scenario_mocks) scenario_urls
             (load_cache scenario_env sim0) False sim0) = [0, 1, 2]
   \<and> fst (run_loo outage_run_env (py ''q'') outage_urls None sim0) = Inr outage_report
   \<and> map snd (resolution_steps outage_run_env None outage_urls
                (load_cache outage_run_env sim0) False sim0)
       = [[hd outage_docs], [], [], [last outage_docs]]
   \<and> kept (resolution_steps outage_run_env None outage_urls
             (load_cache outage_run_env sim0) False sim0) = [0, 3]
   \<and> length (per_source_impact outage_report) = 2
   \<and> sources_meta outage_report
       = map (\<lambda>s. [(py ''id'', id_s s), (py ''title'', title s), (py ''url'', url s)]) outage_docs
   \<and> (\<exists>documents w1 ws qs.
           build_sources outage_run_env outage_urls None sim0 = (Inr documents, w1)
         \<and> length (per_source_impact outage_report) = length documents
         \<and> length (sources_meta outage_report) = length documents
         \<and> length documents
             = length (kept (resolution_steps outage_run_env None outage_urls
                               (load_cache outage_run_env sim0) False sim0))
         \<and> (\<forall>i<length documents.
               snd (resolution_steps outage_run_env None outage_urls
                      (load_cache outage_run_env sim0) False sim0
                    ! (kept (resolution_steps outage_run_env None outage_urls
                               (load_cache outage_run_env sim0) False sim0) ! i))
                 = [documents ! i]
             \<and> sources_meta outage_report ! i
                 = [(py ''id'', id_s (documents ! i)), (py ''title'', title (documents ! i)),
                    (py ''url'', url (documents ! i))]
             \<and> answer_quality outage_run_env (py ''q'')
                 (take i documents @ drop (i + 1) documents) (ws ! i) = (Inr (qs ! i), ws ! Suc i)
             \<and> per_source_impact outage_report ! i
                 = float_sub (full_quality outage_report) (qs ! i)))
   \<and> (\<exists>documents w1 ws qs.
           build_sources scenario_env scenario_urls (Some scenario_mocks) sim0 = (Inr documents, w1)
         \<and> length (per_source_impact scenario_report) = length documents
         \<and> length (sources_meta scenario_report) = length documents
         \<and> length (resolution_steps scenario_env (Some scenario_mocks) scenario_urls
                     (load_cache scenario_env sim0) False sim0) = length scenario_urls
         \<and> length documents
             = length (kept (resolution_steps scenario_env (Some scenario_mocks) scenario_urls
                               (load_cache scenario_env sim0) False sim0))
         \<and> sorted_wrt (<) (kept (resolution_steps scenario_env (Some scenario_mocks) scenario_urls
                                   (load_cache scenario_env sim0) False sim0))
         \<and> documents
             = concat (map snd (resolution_steps scenario_env (Some scenario_mocks) scenario_urls
                                  (load_cache scenario_env sim0) False sim0))
         \<and> (\<forall>j<length scenario_urls.
               j \<notin> set (kept (resolution_steps scenario_env (Some scenario_mocks) scenario_urls
                                (load_cache scenario_env sim0) False sim0))
               \<longrightarrow> snd (resolution_steps scenario_env (Some scenario_mocks) scenario_urls
                          (load_cache scenario_env sim0) False sim0 ! j) = []
                 \<and> (case Some scenario_mocks of None \<Rightarrow> None | Some mocks \<Rightarrow> mocks (scenario_urls ! j))
                     = None
                 \<and> (\<exists>c b wj.
                        fst (resolution_steps scenario_env (Some scenario_mocks) scenario_urls
                               (load_cache scenario_env sim0) False sim0 ! j) = (c, b, wj)
                       \<and> py_contains c (scenario_urls ! j) = Inr False
                       \<and> ((\<exists>e wk. fetch_exa_content scenario_env (scenario_urls ! j) wj = (Inl e, wk))
                          \<or> (\<exists>src wk e.
                                fetch_exa_content scenario_env (scenario_urls ! j) wj = (Inr src, wk)
                                \<and> py_setitem c (scenario_urls ! j) (PDict (cache_entry src))
                                    = Inl e))))
         \<and> length ws = Suc (length documents) \<and> length qs = length documents
         \<and> (\<forall>i<length documents.
               kept (resolution_steps scenario_env (Some scenario_mocks) scenario_urls
                       (load_cache scenario_env sim0) False sim0) ! i < length scenario_urls
             \<and> snd (resolution_steps scenario_env (Some scenario_mocks) scenario_urls
                      (load_cache scenario_env sim0) False sim0
                    ! (kept (resolution_steps scenario_env (Some scenario_mocks) scenario_urls
                               (load_cache scenario_env sim0) False sim0) ! i))
                 = [documents ! i]
             \<and> sources_meta scenario_report ! i
                 = [(py ''id'', id_s (documents ! i)), (py ''title'', title (documents ! i)),
                    (py ''url'', url (documents ! i))]
             \<and> documents = take i documents @ documents ! i # drop (i + 1) documents
             \<and> answer_quality scenario_env (py ''q'')
                 (take i documents @ drop (i + 1) documents) (ws ! i) = (Inr (qs ! i), ws ! Suc i)
             \<and> per_source_impact scenario_report ! i
                 = float_sub (full_quality scenario_report) (qs ! i)))"
proof (intro conjI)
  show "fst (run_loo scenario_env (py ''q'') scenario_urls (Some scenario_mocks) sim0)
          = Inr scenario_report"
    using scenario_run by simp
  show "map snd (resolution_steps scenario_env (Some scenario_mocks) scenario_urls
                   (load_cache scenario_env sim0) False sim0)
          = map (\<lambda>d. [d]) scenario_docs"
    by (simp only: scenario_load_cache scenario_steps)
  show "kept (resolution_steps scenario_env (Some scenario_mocks) scenario_urls
                (load_cache scenario_env sim0) False sim0) = [0, 1, 2]"
    by (simp only: scenario_load_cache scenario_kept)
  show "fst (run_loo outage_run_env (py ''q'') outage_urls None sim0) = Inr outage_report"
    by (simp add: outage_run)
  show "map snd (resolution_steps outage_run_env None outage_urls
                   (load_cache outage_run_env sim0) False sim0)
          = [[hd outage_docs], [], [], [last outage_docs]]"
    by (simp only: outage_run_load_cache outage_run_steps)
  show "kept (resolution_steps outage_run_env None outage_urls
                (load_cache outage_run_env sim0) False sim0) = [0, 3]"
    by (simp only: outage_run_load_cache outage_run_kept)
  show "length (per_source_impact outage_report) = 2"
    by (simp add: outage_report_def)
  show "sources_meta outage_report
          = map (\<lambda>s. [(py ''id'', id_s s), (py ''title'', title s), (py ''url'', url s)]) outage_docs"
    by (simp add: outage_report_def outage_docs_def)
  from run_loo_index_alignment [OF outage_run refl] obtain documents w1 ws qs where
    O: "build_sources outage_run_env outage_urls None sim0 = (Inr documents, w1)"
      "length (per_source_impact outage_report) = length documents"
      "length (sources_meta outage_report) = length documents"
      "length documents
         = length (kept (resolution_steps outage_run_env None outage_urls
                           (load_cache outage_run_env sim0) False sim0))"
      "\<forall>i<length documents.
               kept (resolution_steps outage_run_env None outage_urls
                       (load_cache outage_run_env sim0) False sim0) ! i < length outage_urls
             \<and> snd (resolution_steps outage_run_env None outage_urls
                      (load_cache outage_run_env sim0) False sim0
                    ! (kept (resolution_steps outage_run_env None outage_urls
                               (load_cache outage_run_env sim0) False sim0) ! i))
                 = [documents ! i]
             \<and> sources_meta outage_report ! i
                 = [(py ''id'', id_s (documents ! i)), (py ''title'', title (documents ! i)),
                    (py ''url'', url (documents ! i))]
             \<and> documents = take i documents @ documents ! i # drop (i + 1) documents
             \<and> answer_quality outage_run_env (py ''q'')
                 (take i documents @ drop (i + 1) documents) (ws ! i) = (Inr (qs ! i), ws ! Suc i)
             \<and> per_source_impact outage_report ! i
                 = float_sub (full_quality outage_report) (qs ! i)"
    by blast
  from O(5) have O5: "\<forall>i<length documents.
               snd (resolution_steps outage_run_env None outage_urls
                      (load_cache outage_run_env sim0) False sim0
                    ! (kept (resolution_steps outage_run_env None outage_urls
                               (load_cache outage_run_env sim0) False sim0) ! i))
                 = [documents ! i]
             \<and> sources_meta outage_report ! i
                 = [(py ''id'', id_s (documents ! i)), (py ''title'', title (documents ! i)),
                    (py ''url'', url (documents ! i))]
             \<and> answer_quality outage_run_env (py ''q'')
                 (take i documents @ drop (i + 1) documents) (ws ! i) = (Inr (qs ! i), ws ! Suc i)
             \<and> per_source_impact outage_report ! i
                 = float_sub (full_quality outage_report) (qs ! i)"
    by blast
  from O(1,2,3,4) O5 show "\<exists>documents w1 ws qs.
           build_sources outage_run_env outage_urls None sim0 = (Inr documents, w1)
         \<and> length (per_source_impact outage_report) = length documents
         \<and> length (sources_meta outage_report) = length documents
         \<and> length documents
             = length (kept (resolution_steps outage_run_env None outage_urls
                               (load_cache outage_run_env sim0) False sim0))
         \<and> (\<forall>i<length documents.
               snd (resolution_steps outage_run_env None outage_urls
                      (load_cache outage_run_env sim0) False sim0
                    ! (kept (resolution_steps outage_run_env None outage_urls
                               (load_cache outage_run_env sim0) False sim0) ! i))
                 = [documents ! i]
             \<and> sources_meta outage_report ! i
                 = [(py ''id'', id_s (documents ! i)), (py ''title'', title (documents ! i)),
                    (py ''url'', url (documents ! i))]
             \<and> answer_quality outage_run_env (py ''q'')
                 (take i documents @ drop (i + 1) documents) (ws ! i) = (Inr (qs ! i), ws ! Suc i)
             \<and> per_source_impact outage_report ! i
                 = float_sub (full_quality outage_report) (qs ! i))"
    by blast
qed (rule run_loo_index_alignment [OF scenario_run refl])

section \<open>The unused field\<close>

text \<open>
  Claim C10.  In every report that \<open>run_loo\<close> returns, \<open>per_source_metrics\<close> is the empty
  list: the loop that would fill it is commented out (lines 188-197).
\<close>

theorem run_loo_per_source_metrics_empty:
  assumes "run_loo env query urls exa_mocks w = (Inr r, w')"
  shows "per_source_metrics r = []"
  using run_loo_Inr [OF assms] by blast

theorem run_loo_per_source_metrics_empty_witness:
  "fst (run_loo scenario_env (py ''q'') scenario_urls (Some scenario_mocks) sim0)
     = Inr scenario_report
   \<and> length (per_source_impact scenario_report) = 3
   \<and> per_source_metrics scenario_report = []"
proof (intro conjI)
  show "fst (run_loo scenario_env (py ''q'') scenario_urls (Some scenario_mocks) sim0)
          = Inr scenario_report"
    using scenario_run by simp
  show "length (per_source_impact scenario_report) = 3"
    by (simp add: scenario_report_def scenario_impacts_def)
qed (rule run_loo_per_source_metrics_empty [OF scenario_run])

section \<open>Combined quality\<close>

text \<open>
  Claim C9.  When \<open>compute_quality\<close> returns, the evaluator was asked once for the two
  metrics \<open>faithfulness\<close> and \<open>answer_relevancy\<close>; the breakdown has exactly these two keys,
  in this order, with the values of the returned row, and the combined quality is the sum
  of the breakdown's values divided by their number, as \<open>sum(values) / len(values)\<close>
  computes it on floats.
\<close>

theorem compute_quality_mean:
  assumes "compute_quality env question answer contexts w = (Inr (combined, breakdown), w')"
  shows "map fst breakdown = [py ''faithfulness'', py ''answer_relevancy'']
         \<and> distinct (map fst breakdown)
         \<and> float_div (float_sum (map snd breakdown)) (float_of_nat (length breakdown))
             = Inr combined
         \<and> (\<exists>row. ragas_evaluate env question answer contexts [faithfulness, answer_relevancy] w
                     = (Inr row, w')
                \<and> breakdown = map (\<lambda>m. (name m, row (name m))) [faithfulness, answer_relevancy])"
proof -
  from compute_quality_Inr [OF assms] obtain row where
    row: "ragas_evaluate env question answer contexts [faithfulness, answer_relevancy] w
            = (Inr row, w')" and
    b: "breakdown = [(name faithfulness, row (name faithfulness)),
                     (name answer_relevancy, row (name answer_relevancy))]" and
    c: "float_div (float_sum [row (name faithfulness), row (name answer_relevancy)])
          (float_of_nat 2) = Inr combined"
    by blast
  have "map fst breakdown = [py ''faithfulness'', py ''answer_relevancy'']"
    using b by (simp add: faithfulness_def answer_relevancy_def)
  moreover have "distinct (map fst breakdown)"
    using b metric_names_distinct by simp
  moreover have "float_div (float_sum (map snd breakdown)) (float_of_nat (length breakdown))
                   = Inr combined"
  proof -
    have "map snd breakdown = [row (name faithfulness), row (name answer_relevancy)]"
      using b by simp
    moreover have "length breakdown = 2"
      using b by simp
    ultimately show ?thesis using c by (simp only:)
  qed
  moreover have "\<exists>row. ragas_evaluate env question answer contexts [faithfulness, answer_relevancy] w
                     = (Inr row, w')
                \<and> breakdown = map (\<lambda>m. (name m, row (name m))) [faithfulness, answer_relevancy]"
  proof (intro exI conjI)
    show "ragas_evaluate env question answer contexts [faithfulness, answer_relevancy] w
            = (Inr row, w')"
      by (rule row)
    show "breakdown = map (\<lambda>m. (name m, row (name m))) [faithfulness, answer_relevancy]"
      using b by simp
  qed
  ultimately show ?thesis by (intro conjI)
qed

lemma scenario_compute_quality:
  "compute_quality scenario_env (py ''q'') (py ''answer'') [PStr (py ''t2''), PStr (py ''t3'')] sim0
     = (Inr (d060, [(py ''faithfulness'', d060), (py ''answer_relevancy'', d060)]), sim0)"
  by (simp add: compute_quality_cases scenario_env_def scenario_score_def faithfulness_def
      answer_relevancy_def)

theorem compute_quality_mean_witness:
  "compute_quality scenario_env (py ''q'') (py ''answer'') [PStr (py ''t2''), PStr (py ''t3'')] sim0
     = (Inr (d060, [(py ''faithfulness'', d060), (py ''answer_relevancy'', d060)]), sim0)
   \<and> d060 = float_literal (60 / 100)
   \<and> float_div (float_sum (map snd [(py ''faithfulness'', d060), (py ''answer_relevancy'', d060)]))
       (float_of_nat (length [(py ''faithfulness'', d060), (py ''answer_relevancy'', d060)]))
       = Inr d060"
  using compute_quality_mean [OF scenario_compute_quality] scenario_compute_quality
    literal_060 [symmetric]
  by blast

section \<open>A single document\<close>

lemma build_prompt_Nil:
  "build_prompt env query []
     = [\<lparr>role = py ''system'', content = sys_msg\<rparr>,
        \<lparr>role = py ''user'',
         content = py ''Question: '' @ [34] @ query @ [34] @ [10, 10] @ py ''Sources:'' @ [10]\<rparr>]"
  by (simp add: build_prompt_def)

lemma run_loo_single_Inr:
  assumes "build_sources env urls exa_mocks w = (Inr [d], w1)"
    and "call_gpt4o env (new_refs (build_prompt env query [d]))
                (new_store (build_prompt env query [d])) w1 = (Inr a, m, w2)"
    and "compute_quality env query a [text_s d] w2 = (Inr (fq, fm), w3)"
    and "call_gpt4o env (new_refs (build_prompt env query []))
                (new_store (build_prompt env query [])) w3 = (Inr a', m', w4)"
    and "compute_quality env query a' [] w4 = (Inr (q, bd), w5)"
  shows "run_loo env query urls exa_mocks w
           = (Inr \<lparr>full_answer = a, full_quality = fq, metric_breakdown = fm,
                   per_source_impact = [float_sub fq q],
                   sources_meta = [[(py ''id'', id_s d), (py ''title'', title d), (py ''url'', url d)]],
                   per_source_metrics = []\<rparr>, w5)"
  using assms by (simp add: run_loo_def)

lemma run_loo_single_length:
  assumes "build_sources env urls exa_mocks w = (Inr [d], w1)"
    and "run_loo env query urls exa_mocks w = (Inr r, w')"
  shows "length (per_source_impact r) = 1
     \<and> (\<exists>wi q. answer_quality env query [] wi = (Inr q, w')
               \<and> per_source_impact r = [float_sub (full_quality r) q])"
proof -
  from run_loo_ablation [OF assms(2)] assms(1) obtain ws qs where
    A: "length ws = Suc (length [d])" "length qs = length [d]" "last ws = w'"
      "per_source_impact r = map (\<lambda>q. float_sub (full_quality r) q) qs"
      "\<forall>i<length [d]. answer_quality env query (take i [d] @ drop (i + 1) [d]) (ws ! i)
           = (Inr (qs ! i), ws ! Suc i)"
    by auto
  from A(2) obtain q where qs: "qs = [q]" by (cases qs) auto
  from A(1) obtain x y where ws: "ws = [x, y]"
    by (cases ws; cases "tl ws") auto
  from A(5) qs ws have "answer_quality env query [] x = (Inr q, y)" by simp
  moreover from A(3) ws have "y = w'" by simp
  ultimately show ?thesis using A(4) qs by auto
qed

lemma run_loo_single_error:
  assumes "build_sources env urls exa_mocks w = (Inr [d], w1)"
    and "run_loo env query urls exa_mocks w = (Inl e, w')"
  shows "e = retries_exhausted \<or> (\<exists>x. e = External x)"
  using run_loo_error [OF assms(2)] assms(1) by auto

text \<open>
  Claim C8.  \<open>build_prompt\<close> on the empty list gives the system message and a user message
  that ends after the \<open>Sources:\<close> line.  When exactly one document resolves: the run can
  only fail with a failure of the generator (exhausted retries or an exception passed on)
  or of the evaluator, never with an error of its own; every report it returns has exactly
  one impact, the full quality minus the quality of a run on the empty document list;
  and it does return that report whenever the two generations and the two evaluations,
  the second pair on the empty prompt and the empty context list, succeed.
\<close>

theorem run_loo_single_document:
  "build_prompt env query []
     = [\<lparr>role = py ''system'', content = sys_msg\<rparr>,
        \<lparr>role = py ''user'',
         content = py ''Question: '' @ [34] @ query @ [34] @ [10, 10] @ py ''Sources:'' @ [10]\<rparr>]
   \<and> (build_sources env urls exa_mocks w = (Inr [d], w1)
      \<longrightarrow> (\<forall>e w'. run_loo env query urls exa_mocks w = (Inl e, w')
                \<longrightarrow> e = retries_exhausted \<or> (\<exists>x. e = External x))
        \<and> (\<forall>r w'. run_loo env query urls exa_mocks w = (Inr r, w')
                \<longrightarrow> length (per_source_impact r) = 1
                  \<and> (\<exists>wi q. answer_quality env query [] wi = (Inr q, w')
                            \<and> per_source_impact r = [float_sub (full_quality r) q]))
        \<and> (\<forall>a m w2 fq fm w3 a' m' w4 q bd w5.
              call_gpt4o env (new_refs (build_prompt env query [d]))
                (new_store (build_prompt env query [d])) w1 = (Inr a, m, w2)
              \<and> compute_quality env query a [text_s d] w2 = (Inr (fq, fm), w3)
              \<and> call_gpt4o env (new_refs (build_prompt env query []))
                (new_store (build_prompt env query [])) w3 = (Inr a', m', w4)
              \<and> compute_quality env query a' [] w4 = (Inr (q, bd), w5)
              \<longrightarrow> run_loo env query urls exa_mocks w
                  = (Inr \<lparr>full_answer = a, full_quality = fq, metric_breakdown = fm,
                          per_source_impact = [float_sub fq q],
                          sources_meta =
                            [[(py ''id'', id_s d), (py ''title'', title d), (py ''url'', url d)]],
                          per_source_metrics = []\<rparr>, w5)))"
proof (intro conjI impI allI)
  show "build_prompt env query []
     = [\<lparr>role = py ''system'', content = sys_msg\<rparr>,
        \<lparr>role = py ''user'',
         content = py ''Question: '' @ [34] @ query @ [34] @ [10, 10] @ py ''Sources:'' @ [10]\<rparr>]"
    by (rule build_prompt_Nil)
next
  fix e w'
  assume "build_sources env urls exa_mocks w = (Inr [d], w1)"
    and "run_loo env query urls exa_mocks w = (Inl e, w')"
  then show "e = retries_exhausted \<or> (\<exists>x. e = External x)"
    by (rule run_loo_single_error)
next
  fix r w'
  assume *: "build_sources env urls exa_mocks w = (Inr [d], w1)"
    "run_loo env query urls exa_mocks w = (Inr r, w')"
  from run_loo_single_length [OF *] show "length (per_source_impact r) = 1" ..
  from run_loo_single_length [OF *] show
    "\<exists>wi q. answer_quality env query [] wi = (Inr q, w')
            \<and> per_source_impact r = [float_sub (full_quality r) q]" ..
next
  fix a m w2 fq fm w3 a' m' w4 q bd w5
  assume "build_sources env urls exa_mocks w = (Inr [d], w1)"
    and "call_gpt4o env (new_refs (build_prompt env query [d]))
                (new_store (build_prompt env query [d])) w1 = (Inr a, m, w2)
         \<and> compute_quality env query a [text_s d] w2 = (Inr (fq, fm), w3)
         \<and> call_gpt4o env (new_refs (build_prompt env query []))
                (new_store (build_prompt env query [])) w3 = (Inr a', m', w4)
         \<and> compute_quality env query a' [] w4 = (Inr (q, bd), w5)"
  then show "run_loo env query urls exa_mocks w
                  = (Inr \<lparr>full_answer = a, full_quality = fq, metric_breakdown = fm,
                          per_source_impact = [float_sub fq q],
                          sources_meta =
                            [[(py ''id'', id_s d), (py ''title'', title d), (py ''url'', url d)]],
                          per_source_metrics = []\<rparr>, w5)"
    by (elim conjE) (rule run_loo_single_Inr)
qed

lemma single_build_sources:
  "build_sources scenario_env [py ''u1''] (Some scenario_mocks) sim0 = (Inr [hd scenario_docs], sim0)"
  by (simp add: build_sources_def load_cache_def scenario_env_def
      scenario_mocks_def scenario_docs_def sim0_def override_source_def unwrap_results_def
      source_of_def source_of_dict_def dict_get_def)

lemma single_run:
  "run_loo scenario_env (py ''q'') [py ''u1''] (Some scenario_mocks) sim0
     = (Inr \<lparr>full_answer = py ''answer'', full_quality = d085,
             metric_breakdown = [(py ''faithfulness'', d085), (py ''answer_relevancy'', d085)],
             per_source_impact = [Finite False (1 / 4)],
             sources_meta = [[(py ''id'', PStr (py ''D1'')), (py ''title'', PStr (py ''T1'')),
                              (py ''url'', PStr (py ''u1''))]],
             per_source_metrics = []\<rparr>, sim0\<lparr>chat_calls := 2\<rparr>)"
  by (simp add: run_loo_def single_build_sources)
    (simp add: scenario_docs_def scenario_env_def sim_call_gpt4o_answers
      compute_quality_cases scenario_score_def faithfulness_def answer_relevancy_def sim0_def
      sub_d085_d060)

text \<open>
  One document, with the scorer of the scenario: the full quality is the double \<open>0.85\<close>,
  the quality on no documents \<open>0.60\<close>, and the one impact \<open>0.25\<close>.
\<close>

theorem run_loo_single_document_witness:
  "build_sources scenario_env [py ''u1''] (Some scenario_mocks) sim0 = (Inr [hd scenario_docs], sim0)
   \<and> run_loo scenario_env (py ''q'') [py ''u1''] (Some scenario_mocks) sim0
     = (Inr \<lparr>full_answer = py ''answer'', full_quality = d085,
             metric_breakdown = [(py ''faithfulness'', d085), (py ''answer_relevancy'', d085)],
             per_source_impact = [Finite False (1 / 4)],
             sources_meta = [[(py ''id'', PStr (py ''D1'')), (py ''title'', PStr (py ''T1'')),
                              (py ''url'', PStr (py ''u1''))]],
             per_source_metrics = []\<rparr>, sim0\<lparr>chat_calls := 2\<rparr>)
   \<and> length [Finite False (1 / 4)] = 1
   \<and> (\<exists>wi q. answer_quality scenario_env (py ''q'') [] wi = (Inr q, sim0\<lparr>chat_calls := 2\<rparr>)
             \<and> [Finite False (1 / 4)] = [float_sub d085 q])"
proof -
  let ?r = "\<lparr>full_answer = py ''answer'', full_quality = d085,
             metric_breakdown = [(py ''faithfulness'', d085), (py ''answer_relevancy'', d085)],
             per_source_impact = [Finite False (1 / 4)],
             sources_meta = [[(py ''id'', PStr (py ''D1'')), (py ''title'', PStr (py ''T1'')),
                              (py ''url'', PStr (py ''u1''))]],
             per_source_metrics = []\<rparr>"
  note inst = run_loo_single_document [where env = scenario_env and query = "py ''q''"
      and urls = "[py ''u1'']" and exa_mocks = "Some scenario_mocks" and w = sim0
      and d = "hd scenario_docs" and ?w1.0 = sim0]
  from inst single_build_sources single_run have
    "length (per_source_impact ?r) = 1
     \<and> (\<exists>wi q. answer_quality scenario_env (py ''q'') [] wi = (Inr q, sim0\<lparr>chat_calls := 2\<rparr>)
             \<and> per_source_impact ?r = [float_sub (full_quality ?r) q])"
    by blast
  then have "length [Finite False (1 / 4)] = 1
     \<and> (\<exists>wi q. answer_quality scenario_env (py ''q'') [] wi = (Inr q, sim0\<lparr>chat_calls := 2\<rparr>)
             \<and> [Finite False (1 / 4)] = [float_sub d085 q])"
    by simp
  with single_build_sources single_run show ?thesis by blast
qed

section \<open>Retries\<close>

lemma too_large_429 [simp]: "\<not> too_large (py ''429'')"
  by (simp add: too_large_def py_def sublist_code)

lemma too_large_literal [simp]: "too_large (py ''Request too large'')"
  by (simp add: too_large_def)

lemma retryable_cases:
  "retryable out \<longleftrightarrow> (\<exists>s. out = Inl (RateLimitError s)) \<or> (\<exists>s. out = Inl (APIError s))"
  by (cases out rule: oversized.cases) (auto simp: retryable_def)

lemma map_upt_Suc_shift: "map f [0..<Suc n] = f 0 # map (\<lambda>i. f (Suc i)) [0..<n]"
  by (simp only: map_upt_Suc)

lemma halved_0 [simp]: "halved 0 m = m"
  by (simp add: halved_def)

lemma role_halved [simp]: "role (halved n m) = role m"
  by (simp add: halved_def)

lemma halved_halved: "halved a (halved b m) = halved (b + a) m"
proof -
  have le: "n div 2 ^ b div 2 ^ a \<le> n div 2 ^ b" for n :: nat
    by (rule div_le_dividend)
  have "n div 2 ^ b div 2 ^ a = n div 2 ^ (b + a)" for n :: nat
    by (simp add: div_mult2_eq power_add)
  then show ?thesis
    using le by (simp add: halved_def min_absorb1 min_absorb2)
qed

lemma halve_user_eq:
  "halve_user a h = (\<lambda>b. if b = a \<and> role (h a) = py ''user'' then halved 1 (h a) else h b)"
  by (auto simp: halve_user_def halved_def fun_eq_iff)

lemma truncate_user_closed:
  "truncate_user messages h
     = (\<lambda>a. if role (h a) = py ''user'' then halved (count_list messages a) (h a) else h a)"
proof (induction messages arbitrary: h)
  case Nil
  show ?case by (simp add: truncate_user_def fun_eq_iff)
next
  case (Cons x xs)
  have step: "truncate_user (x # xs) h = truncate_user xs (halve_user x h)"
    by (simp add: truncate_user_def)
  have role_same: "role (halve_user x h a) = role (h a)" for a
    by (simp add: halve_user_eq)
  show ?case
  proof (rule ext)
    fix a
    show "truncate_user (x # xs) h a
            = (if role (h a) = py ''user'' then halved (count_list (x # xs) a) (h a) else h a)"
    proof (cases "role (h a) = py ''user''")
      case False
      then have "halve_user x h a = h a"
        by (auto simp: halve_user_eq)
      with False show ?thesis
        by (simp add: step Cons.IH role_same)
    next
      case True
      show ?thesis
      proof (cases "a = x")
        case ax: True
        have "halve_user x h a = halved 1 (h a)"
          using True ax by (simp add: halve_user_eq)
        then show ?thesis
          using True ax by (simp add: step Cons.IH role_same halved_halved)
      next
        case ax: False
        have "halve_user x h a = h a"
          using ax by (simp add: halve_user_eq)
        then show ?thesis
          using True ax by (simp add: step Cons.IH role_same)
      qed
    qed
  qed
qed

lemma truncate_user_pow:
  "(truncate_user messages ^^ k) h
     = (\<lambda>a. if role (h a) = py ''user'' then halved (k * count_list messages a) (h a) else h a)"
proof (induction k)
  case 0
  show ?case by (simp add: fun_eq_iff)
next
  case (Suc k)
  have "(truncate_user messages ^^ Suc k) h
          = truncate_user messages ((truncate_user messages ^^ k) h)"
    by simp
  also have "\<dots> = truncate_user messages
      (\<lambda>a. if role (h a) = py ''user'' then halved (k * count_list messages a) (h a) else h a)"
    by (simp only: Suc)
  also have "\<dots> = (\<lambda>a. if role (h a) = py ''user''
                        then halved (Suc k * count_list messages a) (h a) else h a)"
    by (subst truncate_user_closed) (auto simp: fun_eq_iff halved_halved add.commute)
  finally show ?case .
qed

lemma backoff_delays:
  "[d] @ map (\<lambda>i. d * 2 * 2 ^ i) [0..<b] = map (\<lambda>i. d * 2 ^ i) [0..<Suc b]" for d :: nat
  by (simp only: map_upt_Suc_shift) (simp add: mult.assoc)

lemma sim_call_gpt4o_loop:
  assumes "length outs = length as"
    and "\<forall>j<length as. chat (chat_calls w + j) = outs ! j"
    and "call_gpt4o_loop (sim_env chat exa score) as d msgs h w = (res, h', w')"
  shows "res = (if length (takeWhile retryable outs) = length as then Inl retries_exhausted
                else case outs ! length (takeWhile retryable outs) of
                       Inr t \<Rightarrow> Inr t | Inl e \<Rightarrow> Inl (External e))
       \<and> h' = (truncate_user msgs ^^ length (filter oversized (takeWhile retryable outs))) h
       \<and> chat_calls w' = chat_calls w + min (length as) (Suc (length (takeWhile retryable outs)))
       \<and> slept w'
           = slept w @ map (\<lambda>i. d * 2 ^ i) [0..<length (filter backoff (takeWhile retryable outs))]"
  using assms
proof (induction as arbitrary: outs d h w)
  case Nil
  then show ?case by simp
next
  case (Cons a as)
  let ?E = "sim_env chat exa score"
  from Cons.prems(1) obtain out outs' where outs: "outs = out # outs'" and
    len: "length outs' = length as"
    by (cases outs) auto
  let ?w1 = "w\<lparr>chat_calls := Suc (chat_calls w)\<rparr>"
  from Cons.prems(2) outs have first: "chat (chat_calls w) = out" by force
  have rest: "\<forall>j<length as. chat (chat_calls v + j) = outs' ! j"
    if "chat_calls v = Suc (chat_calls w)" for v
  proof (intro allI impI)
    fix j assume "j < length as"
    then have "chat (chat_calls w + Suc j) = outs ! Suc j"
      using Cons.prems(2) by auto
    with that outs show "chat (chat_calls v + j) = outs' ! j" by simp
  qed
  have stop: ?case
    if "\<not> retryable out"
      and "call_gpt4o_loop ?E (a # as) d msgs h w
             = ((case out of Inr t \<Rightarrow> Inr t | Inl e \<Rightarrow> Inl (External e)), h, ?w1)"
  proof -
    from trans [OF Cons.prems(3) [symmetric] that(2)] have
      "res = (case out of Inr t \<Rightarrow> Inr t | Inl e \<Rightarrow> Inl (External e))" "h' = h" "w' = ?w1"
      by simp_all
    with that(1) outs show ?thesis by simp
  qed
  have truncate: ?case
    if o: "oversized out" "\<not> backoff out"
      and l: "call_gpt4o_loop ?E (a # as) d msgs h w
                = call_gpt4o_loop ?E as d msgs (truncate_user msgs h) ?w1"
  proof -
    from trans [OF l [symmetric] Cons.prems(3)] have
      run: "call_gpt4o_loop ?E as d msgs (truncate_user msgs h) ?w1 = (res, h', w')" .
    have r1: "\<forall>j<length as. chat (chat_calls ?w1 + j) = outs' ! j"
      by (rule rest) simp
    from o have "retryable out" by (simp add: retryable_def)
    with Cons.IH [OF len r1 run] o outs len show ?thesis
      by (simp add: funpow_swap1)
  qed
  have wait: ?case
    if o: "backoff out" "\<not> oversized out"
      and l: "call_gpt4o_loop ?E (a # as) d msgs h w
                = call_gpt4o_loop ?E as (d * 2) msgs h (?w1\<lparr>slept := slept w @ [d]\<rparr>)"
  proof -
    from trans [OF l [symmetric] Cons.prems(3)] have
      run: "call_gpt4o_loop ?E as (d * 2) msgs h (?w1\<lparr>slept := slept w @ [d]\<rparr>)
              = (res, h', w')" .
    have r2: "\<forall>j<length as. chat (chat_calls (?w1\<lparr>slept := slept w @ [d]\<rparr>) + j) = outs' ! j"
      by (rule rest) simp
    from Cons.IH [OF len r2 run] have
      IH: "res = (if length (takeWhile retryable outs') = length as then Inl retries_exhausted
                  else case outs' ! length (takeWhile retryable outs') of
                         Inr t \<Rightarrow> Inr t | Inl e \<Rightarrow> Inl (External e))"
        "h' = (truncate_user msgs ^^ length (filter oversized (takeWhile retryable outs'))) h"
        "chat_calls w' = Suc (chat_calls w) + min (length as) (Suc (length (takeWhile retryable outs')))"
        "slept w' = (slept w @ [d])
           @ map (\<lambda>i. d * 2 * 2 ^ i) [0..<length (filter backoff (takeWhile retryable outs'))]"
      by simp_all
    have sl: "slept w' = slept w
           @ map (\<lambda>i. d * 2 ^ i) [0..<Suc (length (filter backoff (takeWhile retryable outs')))]"
      using IH(4) backoff_delays [of d] by (simp del: upt_Suc)
    from o have "retryable out" by (simp add: retryable_def)
    with IH(1,2,3) sl o outs len show ?thesis
      by (simp del: upt_Suc)
  qed
  show ?case
  proof (cases out)
    case (Inr t)
    with first show ?thesis by (intro stop) (simp_all add: retryable_def)
  next
    case (Inl x)
    show ?thesis
    proof (cases x)
      case (RateLimitError err_str)
      show ?thesis
      proof (cases "too_large err_str")
        case True
        with RateLimitError Inl first show ?thesis by (intro truncate) simp_all
      next
        case False
        with RateLimitError Inl first show ?thesis by (intro wait) simp_all
      qed
    next
      case (APIError err_str)
      with Inl first show ?thesis by (intro wait) simp_all
    next
      case (OtherException err_str)
      with Inl first show ?thesis by (intro stop) (simp_all add: retryable_def)
    qed
  qed
qed

lemma sim_call_gpt4o:
  assumes "call_gpt4o (sim_env chat exa score) messages h w = (res, h', w')"
    and outs_def: "outs = map (\<lambda>j. chat (chat_calls w + j)) [0..<max_retries]"
    and k_def: "k = length (takeWhile retryable outs)"
  shows "k \<le> 3"
    and "\<forall>j<k. retryable (chat (chat_calls w + j))"
    and "k < 3 \<longrightarrow> \<not> retryable (chat (chat_calls w + k))"
    and "res = (if k = 3 then Inl retries_exhausted
                else case chat (chat_calls w + k) of Inr t \<Rightarrow> Inr t | Inl e \<Rightarrow> Inl (External e))"
    and "chat_calls w' = chat_calls w + min 3 (Suc k)"
    and "takeWhile retryable outs = map (\<lambda>j. chat (chat_calls w + j)) [0..<k]"
    and "h' = (truncate_user messages ^^ length (filter oversized (takeWhile retryable outs))) h"
    and "slept w' = slept w
           @ map (\<lambda>i. 10 * 2 ^ i) [0..<length (filter backoff (takeWhile retryable outs))]"
proof -
  have len: "length outs = 3" by (simp add: outs_def max_retries_def)
  have nth: "outs ! j = chat (chat_calls w + j)" if "j < 3" for j
    using that by (simp add: outs_def max_retries_def)
  have run: "call_gpt4o_loop (sim_env chat exa score) [0..<max_retries] 10 messages h w
               = (res, h', w')"
    using assms(1) by (simp add: call_gpt4o_def)
  have l1: "length outs = length [0..<max_retries]"
    by (simp add: outs_def)
  have l2: "\<forall>j<length [0..<max_retries]. chat (chat_calls w + j) = outs ! j"
    by (simp add: outs_def)
  note L = sim_call_gpt4o_loop [OF l1 l2 run, folded k_def]
  show k3: "k \<le> 3"
    using length_takeWhile_le [of retryable outs] len by (simp add: k_def)
  show "\<forall>j<k. retryable (chat (chat_calls w + j))"
  proof (intro allI impI)
    fix j assume j: "j < k"
    then have "takeWhile retryable outs ! j \<in> set (takeWhile retryable outs)"
      by (simp add: k_def)
    then have "retryable (takeWhile retryable outs ! j)"
      by (blast dest: set_takeWhileD)
    moreover have "takeWhile retryable outs ! j = outs ! j"
      using j by (simp add: k_def takeWhile_nth)
    ultimately show "retryable (chat (chat_calls w + j))"
      using j k3 by (simp add: nth)
  qed
  show "k < 3 \<longrightarrow> \<not> retryable (chat (chat_calls w + k))"
  proof
    assume "k < 3"
    with len nth_length_takeWhile [of retryable outs] have "\<not> retryable (outs ! k)"
      by (simp add: k_def)
    with \<open>k < 3\<close> show "\<not> retryable (chat (chat_calls w + k))" by (simp add: nth)
  qed
  show "res = (if k = 3 then Inl retries_exhausted
                else case chat (chat_calls w + k) of Inr t \<Rightarrow> Inr t | Inl e \<Rightarrow> Inl (External e))"
    using L k3 by (auto simp: max_retries_def nth)
  show "chat_calls w' = chat_calls w + min 3 (Suc k)"
    using L by (simp add: max_retries_def)
  have "takeWhile retryable outs = take k outs"
    unfolding k_def by (rule takeWhile_eq_take)
  also have "\<dots> = map (\<lambda>j. chat (chat_calls w + j)) [0..<k]"
    using k3 by (simp add: outs_def take_map max_retries_def)
  finally show "takeWhile retryable outs = map (\<lambda>j. chat (chat_calls w + j)) [0..<k]" .
  show "h' = (truncate_user messages ^^ length (filter oversized (takeWhile retryable outs))) h"
    using L by simp
  show "slept w' = slept w
           @ map (\<lambda>i. 10 * 2 ^ i) [0..<length (filter backoff (takeWhile retryable outs))]"
    using L by simp
qed

text \<open>
  Claim C7.  In the simulated world the chat service answers request number \<open>n\<close> with
  \<open>chat n\<close>, for an arbitrary sequence \<open>chat\<close>.  Let \<open>k\<close> be the number of retryable failures
  before the first outcome that is not one, among the three attempts of a call.  If
  \<open>k < 3\<close>, attempt \<open>k\<close> is the last: its text is returned if it succeeded, and its exception
  is passed on at once otherwise.  If \<open>k = 3\<close>, the call makes exactly three requests and
  raises the error of line 158.  The call sleeps once for each of those retryable failures
  that is not an oversized request, for 10, 20, 40 seconds in this order; an oversized
  request uses up an attempt without sleeping and without doubling the delay.
\<close>

theorem call_gpt4o_retry_policy:
  assumes "call_gpt4o (sim_env chat exa score) messages h w = (res, h', w')"
  shows "\<exists>k. k = length (takeWhile retryable (map (\<lambda>j. chat (chat_calls w + j)) [0..<max_retries]))
           \<and> max_retries = 3 \<and> k \<le> 3
           \<and> (\<forall>j<k. retryable (chat (chat_calls w + j)))
           \<and> (k < 3 \<longrightarrow> \<not> retryable (chat (chat_calls w + k))
                       \<and> chat_calls w' = chat_calls w + k + 1
                       \<and> res = (case chat (chat_calls w + k) of
                                  Inr t \<Rightarrow> Inr t | Inl e \<Rightarrow> Inl (External e)))
           \<and> (k = 3 \<longrightarrow> res = Inl retries_exhausted \<and> chat_calls w' = chat_calls w + 3)
           \<and> slept w'
               = slept w
                 @ map (\<lambda>i. 10 * 2 ^ i)
                     [0..<length (filter backoff (map (\<lambda>j. chat (chat_calls w + j)) [0..<k]))]"
proof -
  note S = sim_call_gpt4o [OF assms refl refl]
  let ?k = "length (takeWhile retryable (map (\<lambda>j. chat (chat_calls w + j)) [0..<max_retries]))"
  have a: "?k < 3 \<longrightarrow> \<not> retryable (chat (chat_calls w + ?k))
                       \<and> chat_calls w' = chat_calls w + ?k + 1
                       \<and> res = (case chat (chat_calls w + ?k) of
                                  Inr t \<Rightarrow> Inr t | Inl e \<Rightarrow> Inl (External e))"
    using S(3,4,5) by simp
  have b: "?k = 3 \<longrightarrow> res = Inl retries_exhausted \<and> chat_calls w' = chat_calls w + 3"
    using S(4,5) by simp
  have c: "slept w' = slept w
                 @ map (\<lambda>i. 10 * 2 ^ i)
                     [0..<length (filter backoff (map (\<lambda>j. chat (chat_calls w + j)) [0..<?k]))]"
    using S(8) S(6) by simp
  have d: "max_retries = 3" by (simp add: max_retries_def)
  from S(1) S(2) a b c d show ?thesis by blast
qed

lemma retry_run:
  "call_gpt4o (chat_env retry_script) demo_messages demo_store sim0
     = (Inr (py ''ok''), demo_store, sim0\<lparr>chat_calls := 3, slept := [10, 20]\<rparr>)"
  by (simp add: call_gpt4o_def attempts_3 chat_env_def retry_script_def sim0_def)

theorem call_gpt4o_retry_policy_witness:
  "call_gpt4o (chat_env retry_script) demo_messages demo_store sim0
     = (Inr (py ''ok''), demo_store, sim0\<lparr>chat_calls := 3, slept := [10, 20]\<rparr>)
   \<and> (\<exists>k. k = length (takeWhile retryable
                      (map (\<lambda>j. retry_script (chat_calls sim0 + j)) [0..<max_retries]))
           \<and> max_retries = 3 \<and> k \<le> 3
           \<and> (\<forall>j<k. retryable (retry_script (chat_calls sim0 + j)))
           \<and> (k < 3 \<longrightarrow> \<not> retryable (retry_script (chat_calls sim0 + k))
                       \<and> chat_calls (sim0\<lparr>chat_calls := 3, slept := [10, 20]\<rparr>)
                           = chat_calls sim0 + k + 1
                       \<and> Inr (py ''ok'') = (case retry_script (chat_calls sim0 + k) of
                                  Inr t \<Rightarrow> Inr t | Inl e \<Rightarrow> Inl (External e)))
           \<and> (k = 3 \<longrightarrow> Inr (py ''ok'') = Inl retries_exhausted
                       \<and> chat_calls (sim0\<lparr>chat_calls := 3, slept := [10, 20]\<rparr>)
                           = chat_calls sim0 + 3)
           \<and> slept (sim0\<lparr>chat_calls := 3, slept := [10, 20]\<rparr>)
               = slept sim0
                 @ map (\<lambda>i. 10 * 2 ^ i)
                     [0..<length (filter backoff
                                    (map (\<lambda>j. retry_script (chat_calls sim0 + j)) [0..<k]))])"
proof (intro conjI)
  show "call_gpt4o (chat_env retry_script) demo_messages demo_store sim0
     = (Inr (py ''ok''), demo_store, sim0\<lparr>chat_calls := 3, slept := [10, 20]\<rparr>)"
    by (rule retry_run)
qed (rule call_gpt4o_retry_policy [OF retry_run [unfolded chat_env_def]])

section \<open>The prompt after a call\<close>

lemma call_gpt4o_loop_store:
  "call_gpt4o_loop env as d msgs h w = (res, h', w') \<Longrightarrow>
     \<exists>k\<le>length as. h' = (truncate_user msgs ^^ k) h"
proof (induction as arbitrary: d h w)
  case Nil
  then show ?case by simp
next
  case (Cons a as)
  have later: "\<exists>k\<le>length (a # as). h' = (truncate_user msgs ^^ k) h"
    if "call_gpt4o_loop env as d' msgs h v = (res, h', w')" for d' v
  proof -
    from Cons.IH [OF that] obtain k where "k \<le> length as" "h' = (truncate_user msgs ^^ k) h"
      by blast
    then show ?thesis by (intro exI [of _ k]) simp
  qed
  have cut: "\<exists>k\<le>length (a # as). h' = (truncate_user msgs ^^ k) h"
    if "call_gpt4o_loop env as d' msgs (truncate_user msgs h) v = (res, h', w')" for d' v
  proof -
    from Cons.IH [OF that] obtain k where
      "k \<le> length as" "h' = (truncate_user msgs ^^ k) (truncate_user msgs h)"
      by blast
    then show ?thesis by (intro exI [of _ "Suc k"]) (simp add: funpow_swap1)
  qed
  obtain out w1 where c: "chat_create env (map h msgs) w = (out, w1)" by force
  show ?case
  proof (cases out)
    case (Inr answer)
    with c Cons.prems have "h' = h" by simp
    then show ?thesis by (intro exI [of _ 0]) simp
  next
    case (Inl x)
    show ?thesis
    proof (cases x)
      case (RateLimitError err_str)
      show ?thesis
      proof (cases "too_large err_str")
        case True
        with RateLimitError Inl c Cons.prems show ?thesis by (intro cut) simp
      next
        case False
        with RateLimitError Inl c Cons.prems show ?thesis by (intro later) simp
      qed
    next
      case (APIError err_str)
      with Inl c Cons.prems show ?thesis by (intro later) simp
    next
      case (OtherException err_str)
      with Inl c Cons.prems have "h' = h" by simp
      then show ?thesis by (intro exI [of _ 0]) simp
    qed
  qed
qed

lemma call_gpt4o_store:
  assumes "call_gpt4o env messages h w = (res, h', w')"
  shows "\<exists>k. k \<le> 3
           \<and> (\<forall>a. h' a = (if role (h a) = py ''user''
                           then halved (k * count_list messages a) (h a) else h a))"
proof -
  from assms have "call_gpt4o_loop env [0..<max_retries] 10 messages h w = (res, h', w')"
    by (simp add: call_gpt4o_def)
  from call_gpt4o_loop_store [OF this] obtain k where
    k: "k \<le> 3" and h': "h' = (truncate_user messages ^^ k) h"
    by (auto simp: max_retries_def)
  from h' have "\<forall>a. h' a = (if role (h a) = py ''user''
                           then halved (k * count_list messages a) (h a) else h a)"
    by (simp only: truncate_user_pow) simp
  with k show ?thesis by blast
qed

lemma new_refs_distinct: "distinct (new_refs msgs)"
  by (simp add: new_refs_def)

lemma new_store_refs: "map (new_store msgs) (new_refs msgs) = msgs"
proof -
  have "map (new_store msgs) [0..<length msgs] = map ((!) msgs) [0..<length msgs]"
    by (rule map_cong) (simp_all add: new_store_def)
  then show ?thesis
    by (simp add: new_refs_def map_nth)
qed

lemma distinct_count_list: "distinct xs \<Longrightarrow> a \<in> set xs \<Longrightarrow> count_list xs a = 1"
  by (induction xs) auto

lemma oversize_run:
  "call_gpt4o (chat_env oversize_script) msgs h sim0
     = (Inr (py ''ok''), truncate_user msgs h, sim0\<lparr>chat_calls := 2\<rparr>)"
  by (simp add: call_gpt4o_def attempts_3 chat_env_def oversize_script_def sim0_def)

lemma demo_before:
  "map demo_store demo_messages
     = [\<lparr>role = py ''system'', content = py ''rules''\<rparr>,
        \<lparr>role = py ''user'', content = py ''abcdefgh''\<rparr>]"
  by (simp add: demo_store_def demo_messages_def)

lemma demo_after:
  "map (truncate_user demo_messages demo_store) demo_messages
     = [\<lparr>role = py ''system'', content = py ''rules''\<rparr>,
        \<lparr>role = py ''user'', content = py ''abcd''\<rparr>]"
  by (simp add: truncate_user_closed demo_store_def demo_messages_def halved_def)
    (simp add: py_def)

lemma shared_before:
  "map demo_store shared_messages
     = [\<lparr>role = py ''system'', content = py ''rules''\<rparr>,
        \<lparr>role = py ''user'', content = py ''abcdefgh''\<rparr>,
        \<lparr>role = py ''user'', content = py ''abcdefgh''\<rparr>]"
  by (simp add: demo_store_def shared_messages_def)

lemma shared_after:
  "map (truncate_user shared_messages demo_store) shared_messages
     = [\<lparr>role = py ''system'', content = py ''rules''\<rparr>,
        \<lparr>role = py ''user'', content = py ''ab''\<rparr>,
        \<lparr>role = py ''user'', content = py ''ab''\<rparr>]"
  by (simp add: truncate_user_closed demo_store_def shared_messages_def halved_def)
    (simp add: py_def)

text \<open>
  Claim C6 says that the caller's prompt is unchanged after the call.  Here the caller's
  list holds a system message and a user message with the content \<open>abcdefgh\<close>; the first
  request fails as oversized and the second succeeds.  The call returns \<open>ok\<close>, and the
  caller's user message then has the content \<open>abcd\<close>.
\<close>

theorem call_gpt4o_prompt_unchanged_counterexample:
  "call_gpt4o (chat_env oversize_script) demo_messages demo_store sim0
     = (Inr (py ''ok''), truncate_user demo_messages demo_store, sim0\<lparr>chat_calls := 2\<rparr>)
   \<and> map demo_store demo_messages
       = [\<lparr>role = py ''system'', content = py ''rules''\<rparr>,
          \<lparr>role = py ''user'', content = py ''abcdefgh''\<rparr>]
   \<and> map (truncate_user demo_messages demo_store) demo_messages
       = [\<lparr>role = py ''system'', content = py ''rules''\<rparr>,
          \<lparr>role = py ''user'', content = py ''abcd''\<rparr>]
   \<and> map (truncate_user demo_messages demo_store) demo_messages \<noteq> map demo_store demo_messages"
proof (intro conjI)
  show "call_gpt4o (chat_env oversize_script) demo_messages demo_store sim0
     = (Inr (py ''ok''), truncate_user demo_messages demo_store, sim0\<lparr>chat_calls := 2\<rparr>)"
    by (rule oversize_run)
  show "map demo_store demo_messages
       = [\<lparr>role = py ''system'', content = py ''rules''\<rparr>,
          \<lparr>role = py ''user'', content = py ''abcdefgh''\<rparr>]"
    by (rule demo_before)
  show "map (truncate_user demo_messages demo_store) demo_messages
       = [\<lparr>role = py ''system'', content = py ''rules''\<rparr>,
          \<lparr>role = py ''user'', content = py ''abcd''\<rparr>]"
    by (rule demo_after)
  show "map (truncate_user demo_messages demo_store) demo_messages \<noteq> map demo_store demo_messages"
    by (simp only: demo_after demo_before) simp
qed

lemma leak_run:
  "run_loo leak_env (py ''q'') scenario_urls (Some scenario_mocks) sim0
     = (Inr (scenario_report\<lparr>full_answer := py ''ok''\<rparr>), sim0\<lparr>chat_calls := 5\<rparr>)"
proof -
  have bs: "build_sources leak_env scenario_urls (Some scenario_mocks) sim0
              = (Inr scenario_docs, sim0)"
    by (simp add: build_sources_def load_cache_def leak_env_def scenario_urls_def
        scenario_mocks_def scenario_docs_def sim0_def override_source_def unwrap_results_def
        source_of_def source_of_dict_def dict_get_def)
  show ?thesis
    by (simp add: run_loo_def bs)
      (simp add: scenario_docs_def leak_env_def oversize_script_def call_gpt4o_def attempts_3
        compute_quality_cases scenario_score_def faithfulness_def answer_relevancy_def
        scenario_report_def sim0_def sub_d090_d060 sub_d090_d085 sub_d090_d095
        scenario_impacts_def)
qed

text \<open>
  Claim C6, amended.  The truncation is written into the caller's dicts.  After a call,
  in any environment, there is a number \<open>k\<close> of at most three (the oversized-request
  failures that the call went through) such that every dict with role \<open>user\<close> holds the
  first \<open>len // 2 ^ (k * c)\<close> code points of its content, where \<open>c\<close> is the number of times
  the dict occurs in the list passed, and every other dict is as before; so a \<open>user\<close>
  dict that occurs once is halved \<open>k\<close> times, one that occurs twice \<open>2 * k\<close> times, and a
  dict that is not in the list is unchanged.  In the simulated world \<open>k\<close> is the number of
  oversized requests among the retryable failures before the first other outcome; the
  roles are unchanged, and nothing changes when \<open>k = 0\<close>.  No other call sees the
  truncation: in a run that returns a report, iteration \<open>i\<close> generates from the prompt
  that \<open>build_prompt\<close> makes anew from \<open>documents[:i] + documents[i+1:]\<close>, a list of
  distinct new dicts.
\<close>

theorem call_gpt4o_truncates_in_place:
  "(call_gpt4o env messages h w = (res, h', w')
      \<longrightarrow> (\<exists>k. k \<le> 3
             \<and> (\<forall>a. h' a = (if role (h a) = py ''user''
                             then halved (k * count_list messages a) (h a) else h a))))
   \<and> (call_gpt4o (sim_env chat exa score) messages2 h2 w2 = (res2, h2', w2')
      \<longrightarrow> (\<exists>k. k = length (filter oversized
                       (takeWhile retryable (map (\<lambda>j. chat (chat_calls w2 + j)) [0..<max_retries])))
             \<and> k \<le> 3
             \<and> (\<forall>a. h2' a = (if role (h2 a) = py ''user''
                              then halved (k * count_list messages2 a) (h2 a) else h2 a))
             \<and> (\<forall>a. role (h2' a) = role (h2 a))
             \<and> (\<forall>a. a \<notin> set messages2 \<longrightarrow> h2' a = h2 a)
             \<and> (distinct messages2
                  \<longrightarrow> map h2' messages2
                      = map (\<lambda>m. if role m = py ''user'' then halved k m else m) (map h2 messages2))
             \<and> (k = 0 \<longrightarrow> h2' = h2)))
   \<and> (run_loo env3 query urls exa_mocks v = (Inr r, v')
      \<longrightarrow> (\<exists>documents v1 ws.
             build_sources env3 urls exa_mocks v = (Inr documents, v1)
           \<and> length ws = Suc (length documents)
           \<and> (\<forall>i<length documents. \<exists>hi a q bd vi.
                  call_gpt4o env3
                    (new_refs (build_prompt env3 query (take i documents @ drop (i + 1) documents)))
                    (new_store (build_prompt env3 query (take i documents @ drop (i + 1) documents)))
                    (ws ! i) = (Inr a, hi, vi)
                \<and> compute_quality env3 query a
                    (map text_s (take i documents @ drop (i + 1) documents)) vi
                    = (Inr (q, bd), ws ! Suc i)
                \<and> per_source_impact r ! i = float_sub (full_quality r) q)))
   \<and> distinct (new_refs msgs) \<and> map (new_store msgs) (new_refs msgs) = msgs"
proof (intro conjI impI)
  assume "call_gpt4o env messages h w = (res, h', w')"
  then show "\<exists>k. k \<le> 3
             \<and> (\<forall>a. h' a = (if role (h a) = py ''user''
                             then halved (k * count_list messages a) (h a) else h a))"
    by (rule call_gpt4o_store)
next
  show "distinct (new_refs msgs)" by (rule new_refs_distinct)
  show "map (new_store msgs) (new_refs msgs) = msgs" by (rule new_store_refs)
next
  assume run: "call_gpt4o (sim_env chat exa score) messages2 h2 w2 = (res2, h2', w2')"
  note S = sim_call_gpt4o [OF run refl refl]
  let ?pre = "takeWhile retryable (map (\<lambda>j. chat (chat_calls w2 + j)) [0..<max_retries])"
  let ?k = "length (filter oversized ?pre)"
  have "?k \<le> length ?pre" by (rule length_filter_le)
  from this S(1) have k3: "?k \<le> 3" by (rule le_trans)
  have m: "h2' = (truncate_user messages2 ^^ ?k) h2"
    using S(7) by simp
  then have closed: "h2' = (\<lambda>a. if role (h2 a) = py ''user''
                              then halved (?k * count_list messages2 a) (h2 a) else h2 a)"
    by (simp only: truncate_user_pow)
  have c1: "\<forall>a. h2' a = (if role (h2 a) = py ''user''
                              then halved (?k * count_list messages2 a) (h2 a) else h2 a)"
    by (subst closed) simp
  have c2: "\<forall>a. role (h2' a) = role (h2 a)"
    by (subst closed) simp
  have c3: "\<forall>a. a \<notin> set messages2 \<longrightarrow> h2' a = h2 a"
    by (subst closed) (simp add: count_list_0_iff)
  have c4: "distinct messages2
              \<longrightarrow> map h2' messages2
                  = map (\<lambda>m. if role m = py ''user'' then halved ?k m else m) (map h2 messages2)"
  proof
    assume d: "distinct messages2"
    have one: "count_list messages2 a = 1" if "a \<in> set messages2" for a
      using d that by (rule distinct_count_list)
    show "map h2' messages2
            = map (\<lambda>m. if role m = py ''user'' then halved ?k m else m) (map h2 messages2)"
      by (subst closed) (simp add: one)
  qed
  have c5: "?k = 0 \<longrightarrow> h2' = h2"
    using m by simp
  from k3 c1 c2 c3 c4 c5 show
    "\<exists>k. k = length (filter oversized
                       (takeWhile retryable (map (\<lambda>j. chat (chat_calls w2 + j)) [0..<max_retries])))
             \<and> k \<le> 3
             \<and> (\<forall>a. h2' a = (if role (h2 a) = py ''user''
                              then halved (k * count_list messages2 a) (h2 a) else h2 a))
             \<and> (\<forall>a. role (h2' a) = role (h2 a))
             \<and> (\<forall>a. a \<notin> set messages2 \<longrightarrow> h2' a = h2 a)
             \<and> (distinct messages2
                  \<longrightarrow> map h2' messages2
                      = map (\<lambda>m. if role m = py ''user'' then halved k m else m) (map h2 messages2))
             \<and> (k = 0 \<longrightarrow> h2' = h2)"
    by blast
next
  assume "run_loo env3 query urls exa_mocks v = (Inr r, v')"
  from run_loo_ablation [OF this] obtain documents v1 ws qs where
    A: "build_sources env3 urls exa_mocks v = (Inr documents, v1)"
      "length ws = Suc (length documents)" "length qs = length documents"
      "per_source_impact r = map (\<lambda>q. float_sub (full_quality r) q) qs"
      "\<forall>i<length documents.
         answer_quality env3 query (take i documents @ drop (i + 1) documents) (ws ! i)
           = (Inr (qs ! i), ws ! Suc i)"
    by blast
  have "\<forall>i<length documents. \<exists>hi a q bd vi.
                  call_gpt4o env3
                    (new_refs (build_prompt env3 query (take i documents @ drop (i + 1) documents)))
                    (new_store (build_prompt env3 query (take i documents @ drop (i + 1) documents)))
                    (ws ! i) = (Inr a, hi, vi)
                \<and> compute_quality env3 query a
                    (map text_s (take i documents @ drop (i + 1) documents)) vi
                    = (Inr (q, bd), ws ! Suc i)
                \<and> per_source_impact r ! i = float_sub (full_quality r) q"
  proof (intro allI impI)
    fix i assume i: "i < length documents"
    let ?subset = "take i documents @ drop (i + 1) documents"
    from A(5) i have aq: "answer_quality env3 query ?subset (ws ! i) = (Inr (qs ! i), ws ! Suc i)"
      by blast
    then obtain a hi vi bd where
      "call_gpt4o env3 (new_refs (build_prompt env3 query ?subset))
         (new_store (build_prompt env3 query ?subset)) (ws ! i) = (Inr a, hi, vi)"
      "compute_quality env3 query a (map text_s ?subset) vi = (Inr (qs ! i, bd), ws ! Suc i)"
      by (auto simp: answer_quality_def split: prod.splits sum.splits)
    moreover have "per_source_impact r ! i = float_sub (full_quality r) (qs ! i)"
      using i A(3,4) by simp
    ultimately show "\<exists>hi a q bd vi.
                  call_gpt4o env3 (new_refs (build_prompt env3 query ?subset))
                    (new_store (build_prompt env3 query ?subset)) (ws ! i) = (Inr a, hi, vi)
                \<and> compute_quality env3 query a (map text_s ?subset) vi = (Inr (q, bd), ws ! Suc i)
                \<and> per_source_impact r ! i = float_sub (full_quality r) q"
      by blast
  qed
  with A(1,2) show "\<exists>documents v1 ws.
             build_sources env3 urls exa_mocks v = (Inr documents, v1)
           \<and> length ws = Suc (length documents)
           \<and> (\<forall>i<length documents. \<exists>hi a q bd vi.
                  call_gpt4o env3
                    (new_refs (build_prompt env3 query (take i documents @ drop (i + 1) documents)))
                    (new_store (build_prompt env3 query (take i documents @ drop (i + 1) documents)))
                    (ws ! i) = (Inr a, hi, vi)
                \<and> compute_quality env3 query a
                    (map text_s (take i documents @ drop (i + 1) documents)) vi
                    = (Inr (q, bd), ws ! Suc i)
                \<and> per_source_impact r ! i = float_sub (full_quality r) q)"
    by blast
qed

text \<open>
  One oversized request, then an answer.  On the list with each dict once the user
  content \<open>abcdefgh\<close> becomes \<open>abcd\<close>; on the list that holds the user dict twice it
  becomes \<open>ab\<close>.  In a run of \<open>run_loo\<close> whose first request is oversized, the report
  has the impacts of the scenario: the later prompts are built anew.
\<close>

theorem call_gpt4o_truncates_in_place_witness:
  "call_gpt4o (chat_env oversize_script) shared_messages demo_store sim0
     = (Inr (py ''ok''), truncate_user shared_messages demo_store, sim0\<lparr>chat_calls := 2\<rparr>)
   \<and> map demo_store shared_messages
       = [\<lparr>role = py ''system'', content = py ''rules''\<rparr>,
          \<lparr>role = py ''user'', content = py ''abcdefgh''\<rparr>,
          \<lparr>role = py ''user'', content = py ''abcdefgh''\<rparr>]
   \<and> map (truncate_user shared_messages demo_store) shared_messages
       = [\<lparr>role = py ''system'', content = py ''rules''\<rparr>,
          \<lparr>role = py ''user'', content = py ''ab''\<rparr>,
          \<lparr>role = py ''user'', content = py ''ab''\<rparr>]
   \<and> (\<exists>k. k \<le> 3
          \<and> (\<forall>a. truncate_user shared_messages demo_store a
                   = (if role (demo_store a) = py ''user''
                      then halved (k * count_list shared_messages a) (demo_store a)
                      else demo_store a)))
   \<and> call_gpt4o (chat_env oversize_script) demo_messages demo_store sim0
       = (Inr (py ''ok''), truncate_user demo_messages demo_store, sim0\<lparr>chat_calls := 2\<rparr>)
   \<and> distinct demo_messages
   \<and> map (truncate_user demo_messages demo_store) demo_messages
       = [\<lparr>role = py ''system'', content = py ''rules''\<rparr>,
          \<lparr>role = py ''user'', content = py ''abcd''\<rparr>]
   \<and> (\<exists>k. k = length (filter oversized
                     (takeWhile retryable
                        (map (\<lambda>j. oversize_script (chat_calls sim0 + j)) [0..<max_retries])))
          \<and> k \<le> 3
          \<and> (\<forall>a. truncate_user demo_messages demo_store a
                   = (if role (demo_store a) = py ''user''
                      then halved (k * count_list demo_messages a) (demo_store a)
                      else demo_store a))
          \<and> (\<forall>a. role (truncate_user demo_messages demo_store a) = role (demo_store a))
          \<and> (\<forall>a. a \<notin> set demo_messages \<longrightarrow> truncate_user demo_messages demo_store a = demo_store a)
          \<and> (distinct demo_messages
               \<longrightarrow> map (truncate_user demo_messages demo_store) demo_messages
                   = map (\<lambda>m. if role m = py ''user'' then halved k m else m)
                       (map demo_store demo_messages))
          \<and> (k = 0 \<longrightarrow> truncate_user demo_messages demo_store = demo_store))
   \<and> run_loo leak_env (py ''q'') scenario_urls (Some scenario_mocks) sim0
       = (Inr (scenario_report\<lparr>full_answer := py ''ok''\<rparr>), sim0\<lparr>chat_calls := 5\<rparr>)
   \<and> (\<exists>documents v1 ws.
         build_sources leak_env scenario_urls (Some scenario_mocks) sim0 = (Inr documents, v1)
       \<and> length ws = Suc (length documents)
       \<and> (\<forall>i<length documents. \<exists>hi a q bd vi.
              call_gpt4o leak_env
                (new_refs (build_prompt leak_env (py ''q'') (take i documents @ drop (i + 1) documents)))
                (new_store (build_prompt leak_env (py ''q'') (take i documents @ drop (i + 1) documents)))
                (ws ! i) = (Inr a, hi, vi)
            \<and> compute_quality leak_env (py ''q'') a
                (map text_s (take i documents @ drop (i + 1) documents)) vi
                = (Inr (q, bd), ws ! Suc i)
            \<and> per_source_impact (scenario_report\<lparr>full_answer := py ''ok''\<rparr>) ! i
                = float_sub (full_quality (scenario_report\<lparr>full_answer := py ''ok''\<rparr>)) q))
   \<and> distinct (new_refs (build_prompt leak_env (py ''q'') scenario_docs))
   \<and> map (new_store (build_prompt leak_env (py ''q'') scenario_docs))
         (new_refs (build_prompt leak_env (py ''q'') scenario_docs))
       = build_prompt leak_env (py ''q'') scenario_docs"
proof -
  note inst = call_gpt4o_truncates_in_place
    [where env = "chat_env oversize_script" and messages = shared_messages and h = demo_store
      and w = sim0 and res = "Inr (py ''ok'')"
      and h' = "truncate_user shared_messages demo_store" and w' = "sim0\<lparr>chat_calls := 2\<rparr>"
      and chat = oversize_script and exa = "\<lambda>u. Inr []"
      and score = "\<lambda>ctxs. Inl (OtherException [])"
      and ?messages2.0 = demo_messages and ?h2.0 = demo_store and ?w2.0 = sim0
      and ?res2.0 = "Inr (py ''ok'')" and ?h2' = "truncate_user demo_messages demo_store"
      and ?w2' = "sim0\<lparr>chat_calls := 2\<rparr>"
      and ?env3.0 = leak_env and query = "py ''q''" and urls = scenario_urls
      and exa_mocks = "Some scenario_mocks" and v = sim0
      and r = "scenario_report\<lparr>full_answer := py ''ok''\<rparr>" and v' = "sim0\<lparr>chat_calls := 5\<rparr>"
      and msgs = "build_prompt leak_env (py ''q'') scenario_docs",
      folded chat_env_def]
  have r1: "call_gpt4o (chat_env oversize_script) shared_messages demo_store sim0
     = (Inr (py ''ok''), truncate_user shared_messages demo_store, sim0\<lparr>chat_calls := 2\<rparr>)"
    by (rule oversize_run)
  have r2: "call_gpt4o (chat_env oversize_script) demo_messages demo_store sim0
     = (Inr (py ''ok''), truncate_user demo_messages demo_store, sim0\<lparr>chat_calls := 2\<rparr>)"
    by (rule oversize_run)
  have d: "distinct demo_messages"
    by (simp add: demo_messages_def)
  from inst r1 have a: "\<exists>k. k \<le> 3
          \<and> (\<forall>a. truncate_user shared_messages demo_store a
                   = (if role (demo_store a) = py ''user''
                      then halved (k * count_list shared_messages a) (demo_store a)
                      else demo_store a))"
    by blast
  from inst r2 have b: "\<exists>k. k = length (filter oversized
                     (takeWhile retryable
                        (map (\<lambda>j. oversize_script (chat_calls sim0 + j)) [0..<max_retries])))
          \<and> k \<le> 3
          \<and> (\<forall>a. truncate_user demo_messages demo_store a
                   = (if role (demo_store a) = py ''user''
                      then halved (k * count_list demo_messages a) (demo_store a)
                      else demo_store a))
          \<and> (\<forall>a. role (truncate_user demo_messages demo_store a) = role (demo_store a))
          \<and> (\<forall>a. a \<notin> set demo_messages \<longrightarrow> truncate_user demo_messages demo_store a = demo_store a)
          \<and> (distinct demo_messages
               \<longrightarrow> map (truncate_user demo_messages demo_store) demo_messages
                   = map (\<lambda>m. if role m = py ''user'' then halved k m else m)
                       (map demo_store demo_messages))
          \<and> (k = 0 \<longrightarrow> truncate_user demo_messages demo_store = demo_store)"
    by blast
  from inst leak_run have c: "\<exists>documents v1 ws.
         build_sources leak_env scenario_urls (Some scenario_mocks) sim0 = (Inr documents, v1)
       \<and> length ws = Suc (length documents)
       \<and> (\<forall>i<length documents. \<exists>hi a q bd vi.
              call_gpt4o leak_env
                (new_refs (build_prompt leak_env (py ''q'') (take i documents @ drop (i + 1) documents)))
                (new_store (build_prompt leak_env (py ''q'') (take i documents @ drop (i + 1) documents)))
                (ws ! i) = (Inr a, hi, vi)
            \<and> compute_quality leak_env (py ''q'') a
                (map text_s (take i documents @ drop (i + 1) documents)) vi
                = (Inr (q, bd), ws ! Suc i)
            \<and> per_source_impact (scenario_report\<lparr>full_answer := py ''ok''\<rparr>) ! i
                = float_sub (full_quality (scenario_report\<lparr>full_answer := py ''ok''\<rparr>)) q)"
    by blast
  from inst have e: "distinct (new_refs (build_prompt leak_env (py ''q'') scenario_docs))"
    "map (new_store (build_prompt leak_env (py ''q'') scenario_docs))
         (new_refs (build_prompt leak_env (py ''q'') scenario_docs))
       = build_prompt leak_env (py ''q'') scenario_docs"
    by blast+
  from r1 shared_before shared_after a r2 d demo_after b leak_run c e show ?thesis
    by (intro conjI)
qed

end
